theory Spec2Isabelle
  imports Main "HOL-Library.AList" "HOL-Library.Word"
begin

section \<open>Python values and exceptions\<close>

text \<open>
  An exception is its class together with the text that \<open>str(e)\<close> gives.  Every
  \<open>raise\<close> of the sources (and of the library calls they make) is a value
  \<open>Inl (Raised cls msg)\<close> of a result type \<open>error + 'a\<close>.
\<close>

datatype exc_class =
    KeyError | IndexError | TypeError | ValueError | AttributeError
  | SqliteError | OperationalError | IntegrityError | ProgrammingError
  | UnboundLocalError | OverflowError | VendorError

datatype error = Raised exc_class string

fun exc_str :: "error \<Rightarrow> string" where
  "exc_str (Raised cls msg) = msg"

section \<open>ModelInstanceCache (app/utils/model-cache)\<close>

text \<open>
  \<open>self.instances\<close> is an \<open>OrderedDict\<close>: an association list in insertion order
  with distinct keys, the first pair being the oldest.  \<open>d.pop(k)\<close> is
  \<open>AList.delete k\<close>, \<open>d[k] = v\<close> is \<open>AList.update k v\<close> (in place for a key that is
  there, at the end for a new one), \<open>k in d\<close> is \<open>map_of d k \<noteq> None\<close>, and
  \<open>d.popitem(last=False)\<close> removes the first pair and raises KeyError on an empty
  dictionary.  \<open>max_size\<close> is a Python int.
\<close>

record 'v ModelInstanceCache =
  max_size :: int
  instances :: "(string \<times> 'v) list"

definition new_cache :: "int \<Rightarrow> 'v ModelInstanceCache" where
  "new_cache k = \<lparr>max_size = k, instances = []\<rparr>"

definition cache_get :: "string \<Rightarrow> 'v ModelInstanceCache \<Rightarrow> 'v option \<times> 'v ModelInstanceCache" where
  "cache_get model_key c =
     (case map_of (instances c) model_key of
        Some instance \<Rightarrow>
          (Some instance,
           c\<lparr>instances := AList.update model_key instance (AList.delete model_key (instances c))\<rparr>)
      | None \<Rightarrow> (None, c))"

definition cache_put ::
  "string \<Rightarrow> 'v \<Rightarrow> 'v ModelInstanceCache \<Rightarrow> (error + unit) \<times> 'v ModelInstanceCache" where
  "cache_put model_key instance c =
     (let c1 = (if map_of (instances c) model_key \<noteq> None
                then c\<lparr>instances := AList.delete model_key (instances c)\<rparr> else c)
      in if int (length (instances c1)) \<ge> max_size c1 then
           (case instances c1 of
              [] \<Rightarrow> (Inl (Raised KeyError ''dictionary is empty''), c1)
            | oldest # rest \<Rightarrow>
                (Inr (), c1\<lparr>instances := AList.update model_key instance rest\<rparr>))
         else (Inr (), c1\<lparr>instances := AList.update model_key instance (instances c1)\<rparr>))"

definition cache_remove :: "string \<Rightarrow> 'v ModelInstanceCache \<Rightarrow> bool \<times> 'v ModelInstanceCache" where
  "cache_remove model_key c =
     (if map_of (instances c) model_key \<noteq> None
      then (True, c\<lparr>instances := AList.delete model_key (instances c)\<rparr>)
      else (False, c))"

definition cache_clear :: "'v ModelInstanceCache \<Rightarrow> 'v ModelInstanceCache" where
  "cache_clear c = c\<lparr>instances := []\<rparr>"

definition get_all_keys :: "'v ModelInstanceCache \<Rightarrow> string list" where
  "get_all_keys c = map fst (instances c)"

text \<open>
  A history of calls on one cache, oldest call first.  A call that raises leaves the
  cache as the call left it at the raise.
\<close>

datatype 'v cache_op = Put string 'v | Get string

fun op_key :: "'v cache_op \<Rightarrow> string" where
  "op_key (Put k v) = k"
| "op_key (Get k) = k"

fun cache_step :: "'v ModelInstanceCache \<Rightarrow> 'v cache_op \<Rightarrow> 'v ModelInstanceCache" where
  "cache_step c (Put k v) = snd (cache_put k v c)"
| "cache_step c (Get k) = snd (cache_get k c)"

definition cache_run :: "'v cache_op list \<Rightarrow> 'v ModelInstanceCache \<Rightarrow> 'v ModelInstanceCache" where
  "cache_run ops c = foldl cache_step c ops"

text \<open>
  The specification's notion of recency, read off the history alone: \<open>idle k ops\<close> is the
  number of calls made since the last call that named key \<open>k\<close>.  The least recently
  accessed of a set of keys is the one that has been idle longest.
\<close>

definition idle :: "string \<Rightarrow> 'v cache_op list \<Rightarrow> nat" where
  "idle k ops = length (takeWhile (\<lambda>op. op_key op \<noteq> k) (rev ops))"

definition evicted_by_put :: "string \<Rightarrow> 'v \<Rightarrow> 'v ModelInstanceCache \<Rightarrow> string list" where
  "evicted_by_put k v c =
     filter (\<lambda>x. x \<noteq> k \<and> x \<notin> set (get_all_keys (snd (cache_put k v c)))) (get_all_keys c)"

subsection \<open>Facts about the ordered dictionary\<close>

lemma keys_delete: "map fst (AList.delete k al) = filter (\<lambda>x. x \<noteq> k) (map fst al)"
  by (induction al) auto

lemma keys_update_new: "k \<notin> set (map fst al) \<Longrightarrow> map fst (AList.update k v al) = map fst al @ [k]"
  by (induction al) auto

lemma map_of_None_iff: "map_of al k = None \<longleftrightarrow> k \<notin> set (map fst al)"
  by (simp add: map_of_eq_None_iff)

lemma keys_cache_get:
  "get_all_keys (snd (cache_get k c)) =
     (if k \<in> set (get_all_keys c) then filter (\<lambda>x. x \<noteq> k) (get_all_keys c) @ [k]
      else get_all_keys c)"
proof (cases "map_of (instances c) k")
  case None
  then have "k \<notin> set (map fst (instances c))"
    using map_of_None_iff [of "instances c" k] by simp
  with None show ?thesis
    by (simp add: cache_get_def get_all_keys_def)
next
  case (Some v)
  then have "k \<in> set (map fst (instances c))"
    using map_of_None_iff [of "instances c" k] by simp
  moreover have "k \<notin> set (map fst (AList.delete k (instances c)))"
    by (simp add: keys_delete)
  ultimately show ?thesis
    using Some by (simp add: cache_get_def get_all_keys_def keys_update_new keys_delete)
qed

text \<open>The key list after \<open>put\<close>, from the key list before it.\<close>

definition put_keys :: "int \<Rightarrow> string \<Rightarrow> string list \<Rightarrow> string list" where
  "put_keys m k ks =
     (let ks1 = filter (\<lambda>x. x \<noteq> k) ks
      in if int (length ks1) \<ge> m then (case ks1 of [] \<Rightarrow> [] | x # rest \<Rightarrow> rest @ [k])
         else ks1 @ [k])"

lemma keys_cache_put:
  assumes "distinct (get_all_keys c)"
  shows "get_all_keys (snd (cache_put k v c)) = put_keys (max_size c) k (get_all_keys c)"
proof -
  define al1 where "al1 = (if map_of (instances c) k \<noteq> None then AList.delete k (instances c) else instances c)"
  have k1: "map fst al1 = filter (\<lambda>x. x \<noteq> k) (map fst (instances c))"
  proof (cases "map_of (instances c) k")
    case None
    then have "k \<notin> set (map fst (instances c))" by (simp add: map_of_None_iff)
    then have "filter (\<lambda>x. x \<noteq> k) (map fst (instances c)) = map fst (instances c)"
      by (auto simp: filter_id_conv)
    with None show ?thesis by (simp add: al1_def)
  next
    case (Some a)
    then show ?thesis by (simp add: al1_def keys_delete)
  qed
  have notin: "k \<notin> set (map fst al1)" by (simp add: k1)
  have d1: "distinct (map fst al1)" using assms by (simp add: k1 get_all_keys_def)
  have step: "cache_put k v c =
     (if int (length al1) \<ge> max_size c then
        (case al1 of [] \<Rightarrow> (Inl (Raised KeyError ''dictionary is empty''), c\<lparr>instances := al1\<rparr>)
         | oldest # rest \<Rightarrow> (Inr (), c\<lparr>instances := AList.update k v rest\<rparr>))
      else (Inr (), c\<lparr>instances := AList.update k v al1\<rparr>))"
    by (auto simp: cache_put_def al1_def Let_def split: list.splits)
  show ?thesis
  proof (cases al1)
    case Nil
    then show ?thesis using k1 step
      by (auto simp: put_keys_def get_all_keys_def Let_def)
  next
    case (Cons p rest)
    then have "k \<notin> set (map fst rest)" using notin by auto
    then have "map fst (AList.update k v rest) = map fst rest @ [k]"
      by (rule keys_update_new)
    moreover have "map fst (AList.update k v al1) = map fst al1 @ [k]"
      using notin by (rule keys_update_new)
    moreover have "filter (\<lambda>x. x \<noteq> k) (map fst (instances c)) = fst p # map fst rest"
      using k1 Cons by simp
    moreover have "length al1 = length (filter (\<lambda>x. x \<noteq> k) (map fst (instances c)))"
      using k1 by (metis length_map)
    ultimately show ?thesis using step Cons
      by (simp add: put_keys_def get_all_keys_def Let_def)
  qed
qed


lemma idle_snoc: "idle k (ops @ [op]) = (if op_key op = k then 0 else Suc (idle k ops))"
  by (simp add: idle_def)

definition by_recency :: "'v cache_op list \<Rightarrow> string list \<Rightarrow> bool" where
  "by_recency ops ks = sorted_wrt (\<lambda>a b. idle b ops < idle a ops) ks"

lemma by_recency_touch:
  assumes "by_recency ops ks"
  shows "by_recency (ops @ [op]) (filter (\<lambda>x. x \<noteq> op_key op) ks @ [op_key op])"
proof -
  let ?f = "filter (\<lambda>x. x \<noteq> op_key op) ks"
  have "sorted_wrt (\<lambda>a b. idle b ops < idle a ops) ?f"
    using assms unfolding by_recency_def by (rule sorted_wrt_filter)
  then have "sorted_wrt (\<lambda>a b. idle b (ops @ [op]) < idle a (ops @ [op])) ?f"
    by (rule sorted_wrt_mono_rel [rotated]) (auto simp: idle_snoc)
  then show ?thesis
    unfolding by_recency_def by (auto simp: sorted_wrt_append idle_snoc)
qed

lemma by_recency_miss:
  assumes "by_recency ops ks" "op_key op \<notin> set ks"
  shows "by_recency (ops @ [op]) ks"
proof -
  have "filter (\<lambda>x. x \<noteq> op_key op) ks = ks" using assms(2) by (auto simp: filter_id_conv)
  with by_recency_touch [OF assms(1), of op] show ?thesis
    by (simp add: by_recency_def sorted_wrt_append)
qed

lemma by_recency_tl: "by_recency ops (x # ks @ [y]) \<Longrightarrow> by_recency ops (ks @ [y])"
  by (simp add: by_recency_def)

definition cache_inv :: "int \<Rightarrow> 'v cache_op list \<Rightarrow> 'v ModelInstanceCache \<Rightarrow> bool" where
  "cache_inv k ops c \<longleftrightarrow>
     max_size c = k \<and> distinct (get_all_keys c) \<and> int (length (get_all_keys c)) \<le> k \<and>
     by_recency ops (get_all_keys c)"

lemma max_size_cache_put: "max_size (snd (cache_put key v c)) = max_size c"
  by (simp add: cache_put_def Let_def split: list.splits)

lemma max_size_cache_get: "max_size (snd (cache_get key c)) = max_size c"
  by (simp add: cache_get_def split: option.splits)

lemma put_keys_cases:
  "put_keys m key ks = [] \<and> filter (\<lambda>x. x \<noteq> key) ks = [] \<and> m \<le> 0
   \<or> put_keys m key ks = filter (\<lambda>x. x \<noteq> key) ks @ [key] \<and> int (length (filter (\<lambda>x. x \<noteq> key) ks)) < m
   \<or> (\<exists>x rest. filter (\<lambda>x. x \<noteq> key) ks = x # rest \<and> put_keys m key ks = rest @ [key]
        \<and> int (length (x # rest)) \<ge> m)"
  by (cases "filter (\<lambda>x. x \<noteq> key) ks") (auto simp: put_keys_def Let_def)

lemma cache_inv_put:
  assumes "cache_inv k ops c"
  shows "cache_inv k (ops @ [Put key v]) (snd (cache_put key v c))"
proof -
  let ?ks = "get_all_keys c"
  let ?f = "filter (\<lambda>x. x \<noteq> key) ?ks"
  from assms have m: "max_size c = k" and d: "distinct ?ks" and l: "int (length ?ks) \<le> k"
    and r: "by_recency ops ?ks" by (simp_all add: cache_inv_def)
  have keys: "get_all_keys (snd (cache_put key v c)) = put_keys k key ?ks"
    using keys_cache_put [OF d] m by simp
  have rt: "by_recency (ops @ [Put key v]) (?f @ [key])"
    using by_recency_touch [OF r, of "Put key v"] by simp
  have df: "distinct (?f @ [key])" using d by simp
  have lf: "length ?f \<le> length ?ks" by simp
  from put_keys_cases [of k key ?ks]
  show ?thesis
  proof (elim disjE conjE exE)
    assume "put_keys k key ?ks = []" "k \<le> 0"
    then show ?thesis using keys l by (simp add: cache_inv_def max_size_cache_put m by_recency_def)
  next
    assume "put_keys k key ?ks = ?f @ [key]" "int (length ?f) < k"
    then show ?thesis using keys rt df by (simp add: cache_inv_def max_size_cache_put m)
  next
    fix x rest assume a: "?f = x # rest" "put_keys k key ?ks = rest @ [key]" "k \<le> int (length (x # rest))"
    have "by_recency (ops @ [Put key v]) (rest @ [key])"
      using rt a(1) by (simp add: by_recency_def)
    moreover have "distinct (rest @ [key])" using df a(1) by simp
    moreover have "int (length (rest @ [key])) \<le> k" using lf l a(1) by simp
    ultimately show ?thesis using keys a(2) by (simp add: cache_inv_def max_size_cache_put m)
  qed
qed

lemma cache_inv_get:
  assumes "cache_inv k ops c"
  shows "cache_inv k (ops @ [Get key]) (snd (cache_get key c))"
proof (cases "key \<in> set (get_all_keys c)")
  case True
  let ?ks = "get_all_keys c"
  from assms have d: "distinct ?ks" and l: "int (length ?ks) \<le> k" and r: "by_recency ops ?ks"
    by (simp_all add: cache_inv_def)
  have "length (filter (\<lambda>x. x \<noteq> key) ?ks) < length ?ks"
    using True by (simp add: length_filter_less)
  then have "int (length (filter (\<lambda>x. x \<noteq> key) ?ks @ [key])) \<le> k" using l by simp
  moreover have "by_recency (ops @ [Get key]) (filter (\<lambda>x. x \<noteq> key) ?ks @ [key])"
    using by_recency_touch [OF r, of "Get key"] by simp
  moreover have "distinct (filter (\<lambda>x. x \<noteq> key) ?ks @ [key])" using d by simp
  ultimately show ?thesis using True assms
    by (simp add: cache_inv_def keys_cache_get max_size_cache_get)
next
  case False
  then show ?thesis using assms by_recency_miss [of ops "get_all_keys c" "Get key"]
    by (simp add: cache_inv_def keys_cache_get max_size_cache_get)
qed

lemma cache_run_snoc: "cache_run (ops @ [op]) c = cache_step (cache_run ops c) op"
  by (simp add: cache_run_def)

lemma cache_inv_run:
  assumes "0 \<le> k"
  shows "cache_inv k ops (cache_run ops (new_cache k))"
proof (induction ops rule: rev_induct)
  case Nil
  show ?case using assms
    by (simp add: cache_inv_def cache_run_def new_cache_def get_all_keys_def by_recency_def)
next
  case (snoc op ops)
  then show ?case
    by (cases op) (simp_all add: cache_run_snoc cache_inv_put cache_inv_get)
qed

lemma evicted_by_put_cases:
  assumes "cache_inv k ops c"
  shows "evicted_by_put key v c = [] \<or>
         (key \<notin> set (get_all_keys c) \<and> (\<exists>rest. get_all_keys c = hd (get_all_keys c) # rest) \<and>
          evicted_by_put key v c = [hd (get_all_keys c)])"
proof -
  let ?ks = "get_all_keys c"
  let ?f = "filter (\<lambda>x. x \<noteq> key) ?ks"
  from assms have m: "max_size c = k" and d: "distinct ?ks" and l: "int (length ?ks) \<le> k"
    by (simp_all add: cache_inv_def)
  have keys: "get_all_keys (snd (cache_put key v c)) = put_keys k key ?ks"
    using keys_cache_put [OF d] m by simp
  have ev: "evicted_by_put key v c = filter (\<lambda>x. x \<noteq> key \<and> x \<notin> set (put_keys k key ?ks)) ?ks"
    by (simp add: evicted_by_put_def keys)
  from put_keys_cases [of k key ?ks]
  show ?thesis
  proof (elim disjE conjE exE)
    assume "?f = []"
    then have "\<forall>x \<in> set ?ks. x = key" by (simp add: filter_empty_conv)
    then show ?thesis by (simp add: ev)
  next
    assume "put_keys k key ?ks = ?f @ [key]"
    then show ?thesis by (simp add: ev)
  next
    fix x rest assume a: "?f = x # rest" "put_keys k key ?ks = rest @ [key]" "k \<le> int (length (x # rest))"
    have "length ?f = length ?ks" using a(1,3) l length_filter_le [of "\<lambda>x. x \<noteq> key" ?ks] by simp
    then have fk: "?f = ?ks"
      by (metis (mono_tags, lifting) filter_True length_filter_less linorder_not_less nat_less_le)
    then have nk: "key \<notin> set ?ks" by (auto simp: filter_id_conv)
    have ks: "?ks = x # rest" using fk a(1) by simp
    have "x \<notin> set rest" "x \<noteq> key" using d ks nk by auto
    then have "evicted_by_put key v c = [x]"
      using ev a(2) ks by (auto simp: filter_empty_conv)
    then show ?thesis using nk ks by simp
  qed
qed

text \<open>
  Claim C2.  Take a cache created with capacity \<open>k \<ge> 0\<close>, any history \<open>ops\<close> of
  \<open>put\<close> and \<open>get\<close> calls on it, and one more call \<open>put(key, v)\<close>.  Afterwards the cache
  holds at most \<open>k\<close> entries; the call removes at most one other key; a removed key had
  been idle strictly longer than every other key that was in the cache (it is the least
  recently accessed one, a \<open>get\<close> hit counting as an access); and when \<open>key\<close> was already
  in the cache nothing is removed.
\<close>

theorem cache_lru_policy:
  assumes "0 \<le> k"
  shows "int (length (get_all_keys (snd (cache_put key v (cache_run ops (new_cache k)))))) \<le> k
    \<and> length (evicted_by_put key v (cache_run ops (new_cache k))) \<le> 1
    \<and> (\<forall>e \<in> set (evicted_by_put key v (cache_run ops (new_cache k))).
         \<forall>x \<in> set (get_all_keys (cache_run ops (new_cache k))).
           x \<noteq> e \<longrightarrow> idle x ops < idle e ops)
    \<and> (key \<in> set (get_all_keys (cache_run ops (new_cache k)))
         \<longrightarrow> evicted_by_put key v (cache_run ops (new_cache k)) = [])"
proof -
  let ?c = "cache_run ops (new_cache k)"
  have inv: "cache_inv k ops ?c" using assms by (rule cache_inv_run)
  have "cache_inv k (ops @ [Put key v]) (snd (cache_put key v ?c))"
    using inv by (rule cache_inv_put)
  then have 1: "int (length (get_all_keys (snd (cache_put key v ?c)))) \<le> k"
    by (simp add: cache_inv_def)
  note ev = evicted_by_put_cases [OF inv, of key v]
  have 2: "length (evicted_by_put key v ?c) \<le> 1" using ev by auto
  have 4: "key \<in> set (get_all_keys ?c) \<longrightarrow> evicted_by_put key v ?c = []" using ev by auto
  have 3: "\<forall>e \<in> set (evicted_by_put key v ?c). \<forall>x \<in> set (get_all_keys ?c).
      x \<noteq> e \<longrightarrow> idle x ops < idle e ops"
  proof (intro ballI impI)
    fix e x assume e: "e \<in> set (evicted_by_put key v ?c)" and x: "x \<in> set (get_all_keys ?c)" and ne: "x \<noteq> e"
    from ev e obtain rest where ks: "get_all_keys ?c = e # rest"
      by (metis empty_iff empty_set list.sel(1) set_ConsD)
    have "by_recency ops (e # rest)" using inv ks by (simp add: cache_inv_def)
    moreover have "x \<in> set rest" using x ks ne by simp
    ultimately show "idle x ops < idle e ops" by (simp add: by_recency_def)
  qed
  from 1 2 3 4 show ?thesis by blast
qed

theorem cache_lru_policy_witness:
  "(0::int) \<le> 2
   \<and> evicted_by_put ''C'' (3::nat) (cache_run [Put ''A'' 1, Put ''B'' 2, Get ''A''] (new_cache 2)) = [''B'']
   \<and> idle ''A'' [Put ''A'' (1::nat), Put ''B'' 2, Get ''A''] < idle ''B'' [Put ''A'' (1::nat), Put ''B'' 2, Get ''A'']
   \<and> get_all_keys (snd (cache_put ''C'' (3::nat) (cache_run [Put ''A'' 1, Put ''B'' 2, Get ''A''] (new_cache 2))))
       = [''A'', ''C'']"
proof -
  have h: "(0::int) \<le> 2" by simp
  have e: "evicted_by_put ''C'' (3::nat) (cache_run [Put ''A'' 1, Put ''B'' 2, Get ''A''] (new_cache 2)) = [''B'']"
    by (simp add: evicted_by_put_def cache_run_def new_cache_def cache_put_def cache_get_def
        get_all_keys_def)
  have k: "get_all_keys (snd (cache_put ''C'' (3::nat) (cache_run [Put ''A'' 1, Put ''B'' 2, Get ''A''] (new_cache 2))))
       = [''A'', ''C'']"
    by (simp add: cache_run_def new_cache_def cache_put_def cache_get_def get_all_keys_def)
  have a: "''A'' \<in> set (get_all_keys (cache_run [Put ''A'' (1::nat), Put ''B'' 2, Get ''A''] (new_cache 2)))"
    by (simp add: cache_run_def new_cache_def cache_put_def cache_get_def get_all_keys_def)
  from cache_lru_policy [OF h, of "''C''" "3::nat" "[Put ''A'' 1, Put ''B'' 2, Get ''A'']"] e a
  have "idle ''A'' [Put ''A'' (1::nat), Put ''B'' 2, Get ''A''] < idle ''B'' [Put ''A'' (1::nat), Put ''B'' 2, Get ''A'']"
    by simp
  with h e k show ?thesis by simp
qed

section \<open>SQLiteConnectionPool (app/utils/db-pool)\<close>

text \<open>
  A connection object is known by its identity (\<open>is\<close> in the source), a natural number
  here; a time stamp is a reading of \<open>time.time()\<close>.  The dictionaries \<open>in_use\<close>,
  \<open>created_time\<close> and \<open>last_used\<close> are maps from slot index.

  \<open>initialize_pool\<close> is the loop of \<open>_initialize_pool\<close>: the list gives, for each
  \<open>i\<close> in \<open>range(max_connections)\<close>, what \<open>sqlite3.connect\<close> (with its two set-up
  statements) produced, \<open>None\<close> standing for \<open>sqlite3.Error\<close>, which the loop logs
  and skips.

  \<open>get_connection\<close> runs under the lock; \<open>polls\<close> is the number of times the loop
  condition \<open>wait_time < max_wait\<close> holds.  Each poll is atomic, and between two
  polls of one call other calls may be scheduled; a call that blocks and then succeeds
  acts on the pool only at its successful poll, so an interleaving of calls is a
  sequence of calls.  \<open>self.pool[index]\<close> raises IndexError out of range, after the
  bookkeeping has been updated.

  \<open>release_connection\<close> scans the pool for the first slot holding the very object;
  an unknown connection leaves the pool as it is.
\<close>


type_synonym conn = nat
type_synonym tstamp = nat

record SQLiteConnectionPool =
  max_connections :: nat
  pool :: "conn list"
  available :: "nat list"
  in_use :: "nat \<rightharpoonup> bool"
  created_time :: "nat \<rightharpoonup> tstamp"
  last_used :: "nat \<rightharpoonup> tstamp"

fun initialize_pool ::
  "nat \<Rightarrow> conn option list \<Rightarrow> tstamp \<Rightarrow> SQLiteConnectionPool \<Rightarrow> SQLiteConnectionPool" where
  "initialize_pool i [] now s = s"
| "initialize_pool i (None # outcomes) now s = initialize_pool (Suc i) outcomes now s"
| "initialize_pool i (Some c # outcomes) now s =
     initialize_pool (Suc i) outcomes now
       (s\<lparr>pool := pool s @ [c], available := available s @ [i],
          in_use := (in_use s)(i \<mapsto> False),
          created_time := (created_time s)(i \<mapsto> now),
          last_used := (last_used s)(i \<mapsto> now)\<rparr>)"

definition new_pool :: "conn option list \<Rightarrow> tstamp \<Rightarrow> SQLiteConnectionPool" where
  "new_pool outcomes now =
     initialize_pool 0 outcomes now
       \<lparr>max_connections = length outcomes, pool = [], available = [], in_use = Map.empty,
        created_time = Map.empty, last_used = Map.empty\<rparr>"

fun get_connection ::
  "nat \<Rightarrow> tstamp \<Rightarrow> SQLiteConnectionPool \<Rightarrow> (error + conn option) \<times> SQLiteConnectionPool" where
  "get_connection 0 now s = (Inr None, s)"
| "get_connection (Suc polls) now s =
     (case available s of
        [] \<Rightarrow> get_connection polls now s
      | index # rest \<Rightarrow>
          (let s' = s\<lparr>available := rest, in_use := (in_use s)(index \<mapsto> True),
                       last_used := (last_used s)(index \<mapsto> now)\<rparr>
           in if index < length (pool s') then (Inr (Some (pool s' ! index)), s')
              else (Inl (Raised IndexError ''list index out of range''), s')))"

primrec first_index :: "'a \<Rightarrow> 'a list \<Rightarrow> nat option" where
  "first_index x [] = None"
| "first_index x (y # ys) = (if y = x then Some 0 else map_option Suc (first_index x ys))"

definition release_connection :: "conn \<Rightarrow> tstamp \<Rightarrow> SQLiteConnectionPool \<Rightarrow> SQLiteConnectionPool" where
  "release_connection c now s =
     (case first_index c (pool s) of
        Some i \<Rightarrow>
          s\<lparr>available := (if i \<notin> set (available s) then available s @ [i] else available s),
            in_use := (in_use s)(i \<mapsto> False),
            last_used := (last_used s)(i \<mapsto> now)\<rparr>
      | None \<Rightarrow> s)"

text \<open>
  Clients of the pool.  \<open>Acquire a polls now\<close> is a call of \<open>get_connection\<close> by client
  \<open>a\<close>, \<open>Release a c now\<close> a call of \<open>release_connection(c)\<close> by client \<open>a\<close>.  Beside the
  pool the run keeps the list of connections in clients' hands: handed out by
  \<open>get_connection\<close> and not yet given back by the client that got them.  A run is
  \<open>disciplined\<close> when every release is by a client of a connection in its hands, which
  then leaves its hands: each connection obtained is released at most once, by its holder.
\<close>

datatype pool_op = Acquire nat nat tstamp | Release nat conn tstamp

fun pool_step :: "SQLiteConnectionPool \<times> (nat \<times> conn) list \<Rightarrow> pool_op
    \<Rightarrow> SQLiteConnectionPool \<times> (nat \<times> conn) list" where
  "pool_step (s, held) (Acquire a polls now) =
     (case get_connection polls now s of
        (Inr (Some c), s') \<Rightarrow> (s', (a, c) # held)
      | (r, s') \<Rightarrow> (s', held))"
| "pool_step (s, held) (Release a c now) = (release_connection c now s, remove1 (a, c) held)"

definition pool_run :: "SQLiteConnectionPool \<times> (nat \<times> conn) list \<Rightarrow> pool_op list
    \<Rightarrow> SQLiteConnectionPool \<times> (nat \<times> conn) list" where
  "pool_run st ops = foldl pool_step st ops"

fun disciplined :: "SQLiteConnectionPool \<times> (nat \<times> conn) list \<Rightarrow> pool_op list \<Rightarrow> bool" where
  "disciplined st [] = True"
| "disciplined st (Acquire a polls now # ops) = disciplined (pool_step st (Acquire a polls now)) ops"
| "disciplined st (Release a c now # ops) =
     ((a, c) \<in> set (snd st) \<and> disciplined (pool_step st (Release a c now)) ops)"

definition slot_available :: "SQLiteConnectionPool \<Rightarrow> nat \<Rightarrow> bool" where
  "slot_available s i \<longleftrightarrow> i \<in> set (available s)"

definition slot_in_use :: "SQLiteConnectionPool \<Rightarrow> nat \<Rightarrow> bool" where
  "slot_in_use s i \<longleftrightarrow> in_use s i = Some True"


lemma first_index_nth:
  "distinct xs \<Longrightarrow> i < length xs \<Longrightarrow> first_index (xs ! i) xs = Some i"
proof (induction xs arbitrary: i)
  case Nil
  then show ?case by simp
next
  case (Cons y ys)
  show ?case
  proof (cases i)
    case 0
    then show ?thesis by simp
  next
    case (Suc j)
    with Cons.prems have "ys ! j \<noteq> y" by auto
    moreover have "first_index (ys ! j) ys = Some j" using Cons Suc by simp
    ultimately show ?thesis using Suc by simp
  qed
qed

lemma pool_initialize_pool:
  "pool (initialize_pool i (map Some cs) now s) = pool s @ cs"
  by (induction cs arbitrary: i s) simp_all

lemma available_initialize_pool:
  "available (initialize_pool i (map Some cs) now s) = available s @ [i..<i + length cs]"
proof (induction cs arbitrary: i s)
  case Nil
  show ?case by simp
next
  case (Cons c cs)
  have "[i..<i + length (c # cs)] = i # [Suc i..<Suc i + length cs]"
    using upt_conv_Cons [of i "i + length (c # cs)"] by simp
  with Cons show ?case by simp
qed

lemma in_use_initialize_pool:
  "in_use (initialize_pool i (map Some cs) now s) j =
     (if i \<le> j \<and> j < i + length cs then Some False else in_use s j)"
  by (induction cs arbitrary: i s) auto

lemma get_connection_empty:
  "available s = [] \<Longrightarrow> get_connection polls now s = (Inr None, s)"
  by (induction polls) simp_all

lemma get_connection_nonempty:
  "available s = index # rest \<Longrightarrow>
   get_connection (Suc polls) now s =
     (if index < length (pool s) then Inr (Some (pool s ! index))
      else Inl (Raised IndexError ''list index out of range''),
      s\<lparr>available := rest, in_use := (in_use s)(index \<mapsto> True),
        last_used := (last_used s)(index \<mapsto> now)\<rparr>)"
  by (simp add: Let_def)

lemma get_connection_cases:
  "get_connection polls now s = (Inr None, s) \<or>
   (\<exists>index rest. available s = index # rest \<and>
      get_connection polls now s =
        (if index < length (pool s) then Inr (Some (pool s ! index))
         else Inl (Raised IndexError ''list index out of range''),
         s\<lparr>available := rest, in_use := (in_use s)(index \<mapsto> True),
           last_used := (last_used s)(index \<mapsto> now)\<rparr>))"
proof (cases polls)
  case 0
  then show ?thesis by simp
next
  case (Suc n)
  show ?thesis
  proof (cases "available s")
    case Nil
    then show ?thesis using get_connection_empty [of s polls now] by simp
  next
    case (Cons index rest)
    show ?thesis
      unfolding Suc
      by (rule disjI2, rule exI [of _ index], rule exI [of _ rest], rule conjI, rule Cons,
          rule get_connection_nonempty, rule Cons)
  qed
qed

definition pool_inv :: "conn list \<Rightarrow> SQLiteConnectionPool \<times> (nat \<times> conn) list \<Rightarrow> bool" where
  "pool_inv cs st \<longleftrightarrow>
     pool (fst st) = cs \<and> distinct (available (fst st)) \<and>
     set (available (fst st)) \<subseteq> {..<length cs} \<and>
     (\<forall>i<length cs. in_use (fst st) i = Some (i \<notin> set (available (fst st)))) \<and>
     distinct (map snd (snd st)) \<and>
     set (map snd (snd st)) = {cs ! i |i. i < length cs \<and> i \<notin> set (available (fst st))}"

lemma pool_inv_new:
  "pool_inv cs (new_pool (map Some cs) now, [])"
  by (auto simp: pool_inv_def new_pool_def pool_initialize_pool available_initialize_pool
      in_use_initialize_pool)

lemma pool_inv_acquire:
  assumes "distinct cs" "pool_inv cs (s, held)"
  shows "pool_inv cs (pool_step (s, held) (Acquire a polls now))"
proof -
  from get_connection_cases [of polls now s]
  show ?thesis
  proof (elim disjE exE conjE)
    assume "get_connection polls now s = (Inr None, s)"
    then show ?thesis using assms(2) by simp
  next
    fix index rest
    assume av: "available s = index # rest"
      and g: "get_connection polls now s =
        (if index < length (pool s) then Inr (Some (pool s ! index))
         else Inl (Raised IndexError ''list index out of range''),
         s\<lparr>available := rest, in_use := (in_use s)(index \<mapsto> True),
           last_used := (last_used s)(index \<mapsto> now)\<rparr>)"
    from assms(2) av have p: "pool s = cs" and ix: "index < length cs" and nr: "index \<notin> set rest"
      and dr: "distinct rest" and sub: "set rest \<subseteq> {..<length cs}"
      and iu: "\<forall>i<length cs. in_use s i = Some (i \<noteq> index \<and> i \<notin> set rest)"
      and dh: "distinct (map snd held)"
      and sh: "set (map snd held) = {cs ! i |i. i < length cs \<and> i \<noteq> index \<and> i \<notin> set rest}"
      by (auto simp: pool_inv_def)
    have fresh: "cs ! index \<notin> set (map snd held)"
      using sh ix assms(1) by (auto simp: nth_eq_iff_index_eq)
    have "{cs ! i |i. i < length cs \<and> i \<notin> set rest}
        = insert (cs ! index) {cs ! i |i. i < length cs \<and> i \<noteq> index \<and> i \<notin> set rest}"
      using ix nr by auto
    then show ?thesis
      using g p ix nr dr sub iu dh sh fresh by (simp add: pool_inv_def)
  qed
qed

lemma map_snd_remove1:
  "distinct (map snd h) \<Longrightarrow> (a, c) \<in> set h \<Longrightarrow> map snd (remove1 (a, c) h) = remove1 c (map snd h)"
  by (induction h) (auto simp: rev_image_eqI)

lemma pool_inv_release:
  assumes "distinct cs" "pool_inv cs (s, held)" "(a, c) \<in> set held"
  shows "pool_inv cs (pool_step (s, held) (Release a c now))"
proof -
  from assms(2) have p: "pool s = cs" and da: "distinct (available s)"
    and sub: "set (available s) \<subseteq> {..<length cs}"
    and iu: "\<forall>i<length cs. in_use s i = Some (i \<notin> set (available s))"
    and dh: "distinct (map snd held)"
    and sh: "set (map snd held) = {cs ! i |i. i < length cs \<and> i \<notin> set (available s)}"
    by (auto simp: pool_inv_def)
  from assms(3) have "c \<in> set (map snd held)" by force
  with sh obtain i where i: "i < length cs" "i \<notin> set (available s)" "c = cs ! i" by auto
  have fi: "first_index c (pool s) = Some i"
    using first_index_nth [OF assms(1) i(1)] i(3) p by simp
  have m: "map snd (remove1 (a, c) held) = remove1 c (map snd held)"
    using dh assms(3) by (rule map_snd_remove1)
  have "{cs ! j |j. j < length cs \<and> j \<notin> set (available s)} - {c}
      = {cs ! j |j. j < length cs \<and> j \<noteq> i \<and> j \<notin> set (available s)}"
    using i assms(1) by (auto simp: nth_eq_iff_index_eq)
  then have "set (remove1 c (map snd held)) = {cs ! j |j. j < length cs \<and> j \<noteq> i \<and> j \<notin> set (available s)}"
    using dh sh by (simp add: set_remove1_eq)
  then show ?thesis
    using fi i p da sub iu dh m
    by (auto simp: pool_inv_def release_connection_def)
qed

lemma pool_inv_run:
  assumes "distinct cs"
  shows "pool_inv cs st \<Longrightarrow> disciplined st ops \<Longrightarrow> pool_inv cs (pool_run st ops)"
proof (induction ops arbitrary: st)
  case Nil
  then show ?case by (simp add: pool_run_def)
next
  case (Cons op ops)
  obtain s held where st: "st = (s, held)" by (cases st)
  show ?case
  proof (cases op)
    case (Acquire a polls now)
    have "pool_inv cs (pool_step st op)"
      using pool_inv_acquire [OF assms] Cons.prems(1) st Acquire by simp
    moreover have "disciplined (pool_step st op) ops" using Cons.prems(2) Acquire by simp
    ultimately have "pool_inv cs (pool_run (pool_step st op) ops)" by (rule Cons.IH)
    then show ?thesis by (simp add: pool_run_def)
  next
    case (Release a c now)
    have "(a, c) \<in> set held" using Cons.prems(2) Release st by simp
    then have "pool_inv cs (pool_step st op)"
      using pool_inv_release [OF assms] Cons.prems(1) st Release by simp
    moreover have "disciplined (pool_step st op) ops" using Cons.prems(2) Release by simp
    ultimately have "pool_inv cs (pool_run (pool_step st op) ops)" by (rule Cons.IH)
    then show ?thesis by (simp add: pool_run_def)
  qed
qed

lemma disciplined_take: "disciplined st ops \<Longrightarrow> disciplined st (take j ops)"
proof (induction ops arbitrary: st j)
  case Nil
  then show ?case by simp
next
  case (Cons op ops)
  then show ?case by (cases j; cases op) auto
qed

lemma pool_inv_bound:
  assumes "distinct cs" "pool_inv cs (s, held)"
  shows "length held + length (available s) = length cs"
proof -
  let ?U = "{i. i < length cs \<and> i \<notin> set (available s)}"
  from assms(2) have da: "distinct (available s)" and sub: "set (available s) \<subseteq> {..<length cs}"
    and dh: "distinct (map snd held)"
    and sh: "set (map snd held) = {cs ! i |i. i < length cs \<and> i \<notin> set (available s)}"
    by (auto simp: pool_inv_def)
  have "set (map snd held) = (\<lambda>i. cs ! i) ` ?U" using sh by auto
  moreover have "inj_on (\<lambda>i. cs ! i) ?U"
    using assms(1) by (auto simp: inj_on_def nth_eq_iff_index_eq)
  ultimately have "card (set (map snd held)) = card ?U" by (simp add: card_image)
  then have "length held = card ?U" using dh by (metis distinct_card length_map)
  moreover have "?U = {..<length cs} - set (available s)" by auto
  then have "card ?U = length cs - length (available s)"
    using sub da by (simp add: card_Diff_subset distinct_card)
  moreover have "length (available s) \<le> length cs"
    using sub da by (metis card_lessThan card_mono distinct_card finite_lessThan)
  ultimately show ?thesis by simp
qed

text \<open>
  The pool whose opens all succeeded.  Take a pool whose \<open>n\<close> connections all opened
  (distinct connection objects \<open>cs\<close>), and any interleaving \<open>ops\<close> of \<open>get_connection\<close> and \<open>release_connection\<close> calls
  by clients in which a client releases only a connection it was handed and has not
  released yet.  After every prefix of the interleaving, each slot index below \<open>n\<close> is in
  exactly one of the states available and in-use, no connection is in two hands, the
  connections in clients' hands are exactly those of the in-use slots, and at most \<open>n\<close>
  connections are in use.
\<close>

lemma pool_slots_exclusive:
  assumes "distinct cs"
    and "disciplined (new_pool (map Some cs) t0, []) ops"
    and "j \<le> length ops"
  shows "(\<forall>i<length cs.
            slot_available (fst (pool_run (new_pool (map Some cs) t0, []) (take j ops))) i
            \<noteq> slot_in_use (fst (pool_run (new_pool (map Some cs) t0, []) (take j ops))) i)
       \<and> distinct (map snd (snd (pool_run (new_pool (map Some cs) t0, []) (take j ops))))
       \<and> set (map snd (snd (pool_run (new_pool (map Some cs) t0, []) (take j ops))))
           = {cs ! i |i. i < length cs
                \<and> slot_in_use (fst (pool_run (new_pool (map Some cs) t0, []) (take j ops))) i}
       \<and> length (snd (pool_run (new_pool (map Some cs) t0, []) (take j ops))) \<le> length cs
       \<and> length (filter (slot_in_use (fst (pool_run (new_pool (map Some cs) t0, []) (take j ops))))
            [0..<length cs]) \<le> length cs"
proof -
  obtain s held where st: "pool_run (new_pool (map Some cs) t0, []) (take j ops) = (s, held)"
    by (cases "pool_run (new_pool (map Some cs) t0, []) (take j ops)")
  have "disciplined (new_pool (map Some cs) t0, []) (take j ops)"
    using assms(2) by (rule disciplined_take)
  then have inv: "pool_inv cs (s, held)"
    using pool_inv_run [OF assms(1) pool_inv_new, of t0 "take j ops"] st by simp
  have b: "length held \<le> length cs" using pool_inv_bound [OF assms(1) inv] by simp
  have l: "length (filter (slot_in_use s) [0..<length cs]) \<le> length cs"
    using length_filter_le [of "slot_in_use s" "[0..<length cs]"] by simp
  from inv b l show ?thesis
    unfolding st by (auto simp: pool_inv_def slot_available_def slot_in_use_def)
qed

lemma pool_slots_exclusive_example:
  "distinct [10, 11 :: nat]
   \<and> disciplined (new_pool (map Some [10, 11]) 0, [])
        [Acquire 1 3 1, Acquire 2 3 2, Acquire 3 3 3, Release 1 10 4]
   \<and> (4::nat) \<le> length [Acquire 1 3 1, Acquire 2 3 2, Acquire 3 3 3, Release 1 10 4]
   \<and> snd (pool_run (new_pool (map Some [10, 11]) 0, [])
        (take 4 [Acquire 1 3 1, Acquire 2 3 2, Acquire 3 3 3, Release 1 10 4])) = [(2, 11)]
   \<and> length (snd (pool_run (new_pool (map Some [10, 11]) 0, [])
        (take 4 [Acquire 1 3 1, Acquire 2 3 2, Acquire 3 3 3, Release 1 10 4]))) \<le> length [10, 11 :: nat]"
proof -
  have d: "distinct [10, 11 :: nat]" by simp
  have p: "disciplined (new_pool (map Some [10, 11]) 0, [])
        [Acquire 1 3 1, Acquire 2 3 2, Acquire 3 3 3, Release 1 10 4]"
    by (simp add: new_pool_def numeral_3_eq_3 release_connection_def)
  have j: "(4::nat) \<le> length [Acquire 1 3 1, Acquire 2 3 2, Acquire 3 3 3, Release 1 10 4]"
    by simp
  have h: "snd (pool_run (new_pool (map Some [10, 11]) 0, [])
        (take 4 [Acquire 1 3 1, Acquire 2 3 2, Acquire 3 3 3, Release 1 10 4])) = [(2, 11)]"
    by (simp add: pool_run_def new_pool_def numeral_3_eq_3 release_connection_def)
  have len: "length (snd (pool_run (new_pool (map Some [10, 11]) 0, [])
        (take 4 [Acquire 1 3 1, Acquire 2 3 2, Acquire 3 3 3, Release 1 10 4]))) \<le> length [10, 11 :: nat]"
    using pool_slots_exclusive [OF d p j] by blast
  show ?thesis by (intro conjI d p j h len)
qed

text \<open>
  Claim C1.  The claim is about every pool of size \<open>n\<close>; it fails for a pool in which an
  open failed.  With \<open>max_connections = 2\<close>, the first \<open>sqlite3.connect\<close> raising and the
  second succeeding, \<open>_initialize_pool\<close> appends the one connection at position 0 of
  \<open>pool\<close> but records it under the loop index 1.  Slot 0 is then neither available nor
  in use.  The first \<open>get_connection\<close> takes index 1 from \<open>available\<close>, marks it in use
  and raises IndexError at \<open>pool[1]\<close>: no client holds a connection, none can release
  one, slot 1 stays in use, and every later \<open>get_connection\<close> times out with \<open>None\<close>
  although the pool's only connection was never handed out.
\<close>

theorem failed_open_breaks_pool:
  "max_connections (new_pool [None, Some 11] 0) = 2
   \<and> pool (new_pool [None, Some 11] 0) = [11]
   \<and> available (new_pool [None, Some 11] 0) = [1]
   \<and> \<not> slot_available (new_pool [None, Some 11] 0) 0
   \<and> \<not> slot_in_use (new_pool [None, Some 11] 0) 0
   \<and> fst (get_connection 51 1 (new_pool [None, Some 11] 0))
       = Inl (Raised IndexError ''list index out of range'')
   \<and> slot_in_use (snd (get_connection 51 1 (new_pool [None, Some 11] 0))) 1
   \<and> \<not> slot_available (snd (get_connection 51 1 (new_pool [None, Some 11] 0))) 1
   \<and> snd (pool_run (new_pool [None, Some 11] 0, []) [Acquire 1 51 1]) = []
   \<and> fst (get_connection 51 2 (snd (get_connection 51 1 (new_pool [None, Some 11] 0))))
       = Inr None"
  by code_simp

section \<open>SingleModel: the non-streaming completion (app/singlemodel/single-model)\<close>

text \<open>
  A message is a \<open>Dict[str, str]\<close>.  Text is a list of bytes (UTF-8), so the Chinese
  prefix of the error message is its byte sequence.  The sampling parameters are kept
  abstract (\<open>'p\<close>); \<open>model_arg\<close> is the sequence that the source unpacks into four
  names before its \<open>try\<close>, which raises ValueError for any other length.

  The vendor client and the tokenizer are collaborators outside the repository:
  \<open>client_chat_completion\<close> is the client's \<open>chat_completion\<close>, which returns the text
  or raises; \<open>encoding_for_model\<close> is what \<open>tiktoken.encoding_for_model("gpt-4o")\<close>
  gives, an exception or an encoder that may itself raise.  \<open>vendor_request\<close> is the
  \<open>if/elif\<close> chain on \<open>self.model_type\<close>: the call made in each branch, or none
  when no branch applies, in which case \<open>response_content\<close> is unbound at its first use.
  The two clock readings are parameters.
\<close>


type_synonym message = "(string \<times> string) list"

record 'p chat_call =
  call_messages :: "message list"
  call_model :: string
  call_kwargs :: "(string \<times> 'p) list"

record 'p SingleModel =
  sm_api_key :: string
  sm_api_url :: string
  sm_model_type :: string
  sm_proxy :: "string option"
  client_chat_completion :: "'p chat_call \<Rightarrow> error + string"

record usage =
  prompt_tokens :: nat
  completion_tokens :: nat
  total_tokens :: nat

record choice =
  message_role :: string
  message_content :: string
  choice_index :: nat
  finish_reason :: string

record response =
  resp_id :: string
  resp_object :: string
  resp_created :: nat
  resp_model :: string
  resp_usage :: "usage option"
  resp_error :: "string option"
  resp_choices :: "choice list"

fun hex_digits :: "nat \<Rightarrow> string" where
  "hex_digits n =
     (if n < 16 then [''0123456789abcdef'' ! n]
      else hex_digits (n div 16) @ [''0123456789abcdef'' ! (n mod 16)])"

definition chat_id_of :: "nat \<Rightarrow> string" where
  "chat_id_of now_ms = ''chatcmpl-'' @ hex_digits now_ms"

fun join_lines :: "string list \<Rightarrow> string" where
  "join_lines [] = []"
| "join_lines [x] = x"
| "join_lines (x # y # ys) = x @ [CHR 0x0A] @ join_lines (y # ys)"

definition message_get_content :: "message \<Rightarrow> string" where
  "message_get_content m = (case map_of m ''content'' of Some c \<Rightarrow> c | None \<Rightarrow> [])"

definition token_content :: "message list \<Rightarrow> string" where
  "token_content messages = join_lines (map message_get_content messages)"

definition vendor_request ::
  "'p SingleModel \<Rightarrow> message list \<Rightarrow> 'p \<Rightarrow> 'p \<Rightarrow> 'p \<Rightarrow> 'p \<Rightarrow> string \<Rightarrow> 'p chat_call option" where
  "vendor_request self messages temperature top_p presence_penalty frequency_penalty model =
     (if sm_model_type self = ''openai'' then
        Some \<lparr>call_messages = messages, call_model = model,
              call_kwargs = [(''temperature'', temperature), (''top_p'', top_p),
                             (''presence_penalty'', presence_penalty),
                             (''frequency_penalty'', frequency_penalty)]\<rparr>
      else if sm_model_type self = ''anthropic'' then
        Some \<lparr>call_messages = messages, call_model = model,
              call_kwargs = [(''temperature'', temperature), (''top_p'', top_p)]\<rparr>
      else if sm_model_type self = ''deepseek'' then
        Some \<lparr>call_messages = messages, call_model = model, call_kwargs = []\<rparr>
      else None)"

definition error_prefix :: string where
  "error_prefix =
     [CHR 0xE5, CHR 0xA4, CHR 0x84, CHR 0xE7, CHR 0x90, CHR 0x86, CHR 0xE8, CHR 0xAF, CHR 0xB7,
      CHR 0xE6, CHR 0xB1, CHR 0x82, CHR 0xE6, CHR 0x97, CHR 0xB6, CHR 0xE5, CHR 0x8F, CHR 0x91,
      CHR 0xE7, CHR 0x94, CHR 0x9F, CHR 0xE9, CHR 0x94, CHR 0x99, CHR 0xE8, CHR 0xAF, CHR 0xAF,
      CHR '':'', CHR '' '']"

definition completion_body ::
  "'p SingleModel \<Rightarrow> (error + (string \<Rightarrow> error + nat list)) \<Rightarrow> string \<Rightarrow> nat \<Rightarrow>
   message list \<Rightarrow> 'p \<Rightarrow> 'p \<Rightarrow> 'p \<Rightarrow> 'p \<Rightarrow> string \<Rightarrow> error + response" where
  "completion_body self encoding_for_model chat_id created messages
       temperature top_p presence_penalty frequency_penalty model =
     (case encoding_for_model of
        Inl e \<Rightarrow> Inl e
      | Inr encode \<Rightarrow>
         (case encode (token_content messages) of
            Inl e \<Rightarrow> Inl e
          | Inr input_tokens \<Rightarrow>
             (case (case vendor_request self messages temperature top_p presence_penalty
                           frequency_penalty model of
                      None \<Rightarrow> Inr None
                    | Some call \<Rightarrow>
                        (case client_chat_completion self call of
                           Inl e \<Rightarrow> Inl e | Inr text \<Rightarrow> Inr (Some text))) of
                Inl e \<Rightarrow> Inl e
              | Inr None \<Rightarrow>
                  Inl (Raised UnboundLocalError
                        ''cannot access local variable 'response_content' where it is not associated with a value'')
              | Inr (Some response_content) \<Rightarrow>
                 (case encode response_content of
                    Inl e \<Rightarrow> Inl e
                  | Inr output_tokens \<Rightarrow>
                      Inr \<lparr>resp_id = chat_id, resp_object = ''chat.completion'',
                           resp_created = created, resp_model = model,
                           resp_usage = Some \<lparr>prompt_tokens = length input_tokens,
                                              completion_tokens = length output_tokens,
                                              total_tokens = length input_tokens + length output_tokens\<rparr>,
                           resp_error = None,
                           resp_choices = [\<lparr>message_role = ''assistant'',
                                            message_content = response_content,
                                            choice_index = 0, finish_reason = ''stop''\<rparr>]\<rparr>))))"

definition error_response :: "string \<Rightarrow> nat \<Rightarrow> string \<Rightarrow> error \<Rightarrow> response" where
  "error_response chat_id created model e =
     \<lparr>resp_id = chat_id, resp_object = ''chat.completion'', resp_created = created,
      resp_model = model, resp_usage = None, resp_error = Some (exc_str e),
      resp_choices = [\<lparr>message_role = ''assistant'',
                       message_content = error_prefix @ exc_str e,
                       choice_index = 0, finish_reason = ''error''\<rparr>]\<rparr>"

definition chat_completions_without_stream ::
  "'p SingleModel \<Rightarrow> (error + (string \<Rightarrow> error + nat list)) \<Rightarrow> nat \<Rightarrow> nat \<Rightarrow>
   message list \<Rightarrow> 'p list \<Rightarrow> string \<Rightarrow> error + response" where
  "chat_completions_without_stream self encoding_for_model now_ms now_s messages model_arg model =
     (let chat_id = chat_id_of now_ms; created = now_s in
      case model_arg of
        [temperature, top_p, presence_penalty, frequency_penalty] \<Rightarrow>
          (case completion_body self encoding_for_model chat_id created messages
                  temperature top_p presence_penalty frequency_penalty model of
             Inr response \<Rightarrow> Inr response
           | Inl e \<Rightarrow> Inr (error_response chat_id created model e))
      | _ \<Rightarrow> Inl (Raised ValueError ''wrong number of values to unpack''))"


text \<open>
  Claim C8.  \<open>chat_completions_without_stream\<close>, given its four sampling parameters,
  always returns a response and never raises.  When the vendor client raises \<open>e\<close> on the
  call made for the model type, the response has the single choice with
  \<open>finish_reason = "error"\<close>, the top-level \<open>error\<close> field \<open>str(e)\<close>, and a message
  content that ends with \<open>str(e)\<close> after the fixed prefix.  Every response without an
  \<open>error\<close> field carries a usage whose \<open>total_tokens\<close> is \<open>prompt_tokens +
  completion_tokens\<close>.
\<close>

theorem non_stream_error_response:
  assumes "model_arg = [temperature, top_p, presence_penalty, frequency_penalty]"
  shows
    "(\<exists>r. chat_completions_without_stream self enc now_ms now_s messages model_arg model = Inr r)
     \<and> (\<forall>encode input_tokens call e.
           enc = Inr encode \<and> encode (token_content messages) = Inr input_tokens
           \<and> vendor_request self messages temperature top_p presence_penalty frequency_penalty model
               = Some call
           \<and> client_chat_completion self call = Inl e
           \<longrightarrow> (\<exists>r c. chat_completions_without_stream self enc now_ms now_s messages model_arg model
                       = Inr r
                  \<and> resp_choices r = [c] \<and> finish_reason c = ''error''
                  \<and> resp_error r = Some (exc_str e)
                  \<and> message_content c = error_prefix @ exc_str e
                  \<and> message_role c = ''assistant'' \<and> choice_index c = 0
                  \<and> resp_object r = ''chat.completion'' \<and> resp_model r = model))
     \<and> (\<forall>r. chat_completions_without_stream self enc now_ms now_s messages model_arg model = Inr r
              \<and> resp_error r = None
           \<longrightarrow> (\<exists>u c. resp_usage r = Some u
                  \<and> total_tokens u = prompt_tokens u + completion_tokens u
                  \<and> resp_choices r = [c] \<and> finish_reason c = ''stop''))"
proof (intro conjI allI impI)
  show "\<exists>r. chat_completions_without_stream self enc now_ms now_s messages model_arg model = Inr r"
    using assms by (simp add: chat_completions_without_stream_def Let_def split: sum.splits)
next
  fix encode input_tokens call e
  assume h: "enc = Inr encode \<and> encode (token_content messages) = Inr input_tokens
           \<and> vendor_request self messages temperature top_p presence_penalty frequency_penalty model
               = Some call
           \<and> client_chat_completion self call = Inl e"
  then have "completion_body self enc (chat_id_of now_ms) now_s messages
                  temperature top_p presence_penalty frequency_penalty model = Inl e"
    by (simp add: completion_body_def)
  then have "chat_completions_without_stream self enc now_ms now_s messages model_arg model
      = Inr (error_response (chat_id_of now_ms) now_s model e)"
    using assms by (simp add: chat_completions_without_stream_def Let_def)
  then show "\<exists>r c. chat_completions_without_stream self enc now_ms now_s messages model_arg model
                       = Inr r
                  \<and> resp_choices r = [c] \<and> finish_reason c = ''error''
                  \<and> resp_error r = Some (exc_str e)
                  \<and> message_content c = error_prefix @ exc_str e
                  \<and> message_role c = ''assistant'' \<and> choice_index c = 0
                  \<and> resp_object r = ''chat.completion'' \<and> resp_model r = model"
    by (simp add: error_response_def)
next
  fix r
  assume h: "chat_completions_without_stream self enc now_ms now_s messages model_arg model = Inr r
              \<and> resp_error r = None"
  show "\<exists>u c. resp_usage r = Some u
                  \<and> total_tokens u = prompt_tokens u + completion_tokens u
                  \<and> resp_choices r = [c] \<and> finish_reason c = ''stop''"
  proof (cases "completion_body self enc (chat_id_of now_ms) now_s messages
                  temperature top_p presence_penalty frequency_penalty model")
    case (Inl e)
    then have "r = error_response (chat_id_of now_ms) now_s model e"
      using h assms by (simp add: chat_completions_without_stream_def Let_def)
    then show ?thesis using h by (simp add: error_response_def)
  next
    case (Inr r')
    then have "r = r'" using h assms by (simp add: chat_completions_without_stream_def Let_def)
    then show ?thesis using Inr
      by (auto simp: completion_body_def split: sum.splits option.splits)
  qed
qed


theorem non_stream_error_response_witness:
  "(\<exists>r c. chat_completions_without_stream
            \<lparr>sm_api_key = ''k'', sm_api_url = ''u'', sm_model_type = ''openai'', sm_proxy = None,
             client_chat_completion = (\<lambda>call. Inl (Raised VendorError ''boom''))\<rparr>
            (Inr (\<lambda>text. Inr (map of_char text))) 255 1 [[(''content'', ''hi'')]]
            [1, 1, 0, 0 :: int] ''m'' = Inr r
          \<and> resp_choices r = [c] \<and> finish_reason c = ''error''
          \<and> resp_error r = Some ''boom'' \<and> message_content c = error_prefix @ ''boom'')
   \<and> (\<exists>r u. chat_completions_without_stream
            \<lparr>sm_api_key = ''k'', sm_api_url = ''u'', sm_model_type = ''deepseek'', sm_proxy = None,
             client_chat_completion = (\<lambda>call. Inr ''hello'')\<rparr>
            (Inr (\<lambda>text. Inr (map of_char text))) 255 1 [[(''content'', ''hi'')]]
            [1, 1, 0, 0 :: int] ''m'' = Inr r
          \<and> resp_error r = None \<and> resp_usage r = Some u
          \<and> prompt_tokens u = 2 \<and> completion_tokens u = 5
          \<and> total_tokens u = prompt_tokens u + completion_tokens u)"
proof -
  let ?bad = "\<lparr>sm_api_key = ''k'', sm_api_url = ''u'', sm_model_type = ''openai'', sm_proxy = None,
             client_chat_completion = (\<lambda>call::int chat_call. Inl (Raised VendorError ''boom'') :: error + string)\<rparr>"
  let ?good = "\<lparr>sm_api_key = ''k'', sm_api_url = ''u'', sm_model_type = ''deepseek'', sm_proxy = None,
             client_chat_completion = (\<lambda>call::int chat_call. Inr ''hello'' :: error + string)\<rparr>"
  let ?enc = "Inr (\<lambda>text. Inr (map of_char text)) :: error + (string \<Rightarrow> error + nat list)"
  let ?msgs = "[[(''content'', ''hi'')]] :: message list"
  note bad = non_stream_error_response [OF refl, where self = ?bad and enc = ?enc
      and now_ms = 255 and now_s = 1 and messages = ?msgs and model = "''m''"
      and temperature = 1 and top_p = 1 and presence_penalty = 0 and frequency_penalty = 0]
  note good = non_stream_error_response [OF refl, where self = ?good and enc = ?enc
      and now_ms = 255 and now_s = 1 and messages = ?msgs and model = "''m''"
      and temperature = 1 and top_p = 1 and presence_penalty = 0 and frequency_penalty = 0]
  have 1: "\<exists>r c. chat_completions_without_stream ?bad ?enc 255 1 ?msgs [1, 1, 0, 0] ''m'' = Inr r
          \<and> resp_choices r = [c] \<and> finish_reason c = ''error''
          \<and> resp_error r = Some ''boom'' \<and> message_content c = error_prefix @ ''boom''"
  proof -
    from bad have
      "\<And>encode input_tokens call e.
         ?enc = Inr encode \<and> encode (token_content ?msgs) = Inr input_tokens
           \<and> vendor_request ?bad ?msgs 1 1 0 0 ''m'' = Some call
           \<and> client_chat_completion ?bad call = Inl e
         \<Longrightarrow> (\<exists>r c. chat_completions_without_stream ?bad ?enc 255 1 ?msgs [1, 1, 0, 0] ''m'' = Inr r
                  \<and> resp_choices r = [c] \<and> finish_reason c = ''error''
                  \<and> resp_error r = Some (exc_str e)
                  \<and> message_content c = error_prefix @ exc_str e)"
      by blast
    from this [of "\<lambda>text. Inr (map of_char text)" "map of_char (token_content ?msgs)"
        "the (vendor_request ?bad ?msgs 1 1 0 0 ''m'')" "Raised VendorError ''boom''"]
    show ?thesis by (simp add: vendor_request_def)
  qed
  have r: "chat_completions_without_stream ?good ?enc 255 1 ?msgs [1, 1, 0, 0] ''m''
      = Inr \<lparr>resp_id = chat_id_of 255, resp_object = ''chat.completion'', resp_created = 1,
             resp_model = ''m'',
             resp_usage = Some \<lparr>prompt_tokens = 2, completion_tokens = 5, total_tokens = 7\<rparr>,
             resp_error = None,
             resp_choices = [\<lparr>message_role = ''assistant'', message_content = ''hello'',
                              choice_index = 0, finish_reason = ''stop''\<rparr>]\<rparr>"
    by (simp add: chat_completions_without_stream_def Let_def completion_body_def
        vendor_request_def token_content_def message_get_content_def)
  have 2: "\<exists>r u. chat_completions_without_stream ?good ?enc 255 1 ?msgs [1, 1, 0, 0] ''m'' = Inr r
          \<and> resp_error r = None \<and> resp_usage r = Some u
          \<and> prompt_tokens u = 2 \<and> completion_tokens u = 5
          \<and> total_tokens u = prompt_tokens u + completion_tokens u"
    using good r by auto
  from 1 2 show ?thesis by (rule conjI)
qed


section \<open>Values of the configuration code\<close>

text \<open>
  The values that travel through the configuration store and the manager: \<open>None\<close>,
  booleans, unbounded integers, floats (the 64 bits of a double; every operation on them
  is a library function), text (a list of bytes) and JSON-like lists and dictionaries.
  \<open>bool\<close> is a subclass of \<open>int\<close> in Python, which \<open>isinstance_int\<close> below reflects.

  \<open>pylib\<close> collects the library functions that are taken as given: float formatting and
  parsing, \<open>json.dumps\<close> and \<open>json.loads\<close> (which may raise), and \<open>repr\<close> of containers.
  \<open>int(s)\<close> and \<open>str(i)\<close> on text and integers are modelled in full for ASCII input.
\<close>

datatype pyval =
    PNone
  | PBool bool
  | PInt int
  | PFloat "64 word"
  | PStr string
  | PList "pyval list"
  | PDict "(pyval \<times> pyval) list"

record pylib =
  float_str :: "64 word \<Rightarrow> string"
  float_of_str :: "string \<Rightarrow> error + 64 word"
  float_of_int :: "int \<Rightarrow> error + 64 word"
  int_of_float :: "64 word \<Rightarrow> error + int"
  container_repr :: "pyval \<Rightarrow> string"
  json_dumps :: "pyval \<Rightarrow> error + string"
  json_loads :: "string \<Rightarrow> error + pyval"

fun truthy :: "pyval \<Rightarrow> bool" where
  "truthy PNone = False"
| "truthy (PBool b) = b"
| "truthy (PInt i) = (i \<noteq> 0)"
| "truthy (PFloat f) = (take_bit 63 f \<noteq> 0)"
| "truthy (PStr s) = (s \<noteq> [])"
| "truthy (PList xs) = (xs \<noteq> [])"
| "truthy (PDict d) = (d \<noteq> [])"

fun dec_digits :: "nat \<Rightarrow> string" where
  "dec_digits n =
     (if n < 10 then [''0123456789'' ! n]
      else dec_digits (n div 10) @ [''0123456789'' ! (n mod 10)])"

definition str_int :: "int \<Rightarrow> string" where
  "str_int i = (if i < 0 then CHR ''-'' # dec_digits (nat (- i)) else dec_digits (nat i))"

definition is_digit :: "char \<Rightarrow> bool" where
  "is_digit c \<longleftrightarrow> c \<in> set ''0123456789''"

definition is_space :: "char \<Rightarrow> bool" where
  "is_space c \<longleftrightarrow>
     c \<in> set [CHR 0x09, CHR 0x0A, CHR 0x0B, CHR 0x0C, CHR 0x0D,
               CHR 0x1C, CHR 0x1D, CHR 0x1E, CHR 0x1F, CHR 0x20]"

definition strip :: "string \<Rightarrow> string" where
  "strip s = rev (dropWhile is_space (rev (dropWhile is_space s)))"

fun no_double_underscore :: "string \<Rightarrow> bool" where
  "no_double_underscore (a # b # cs) =
     (\<not> (a = CHR ''_'' \<and> b = CHR ''_'') \<and> no_double_underscore (b # cs))"
| "no_double_underscore cs = True"

definition int_literal_ok :: "string \<Rightarrow> bool" where
  "int_literal_ok cs \<longleftrightarrow>
     cs \<noteq> [] \<and> is_digit (hd cs) \<and> is_digit (last cs)
     \<and> (\<forall>c \<in> set cs. is_digit c \<or> c = CHR ''_'') \<and> no_double_underscore cs"

definition digits_value :: "string \<Rightarrow> int" where
  "digits_value cs = foldl (\<lambda>a c. 10 * a + (int (of_char c) - 48)) 0 (filter is_digit cs)"

definition int_of_str :: "string \<Rightarrow> error + int" where
  "int_of_str s =
     (let t = strip s;
          neg = (t \<noteq> [] \<and> hd t = CHR ''-'');
          body = (if t \<noteq> [] \<and> (hd t = CHR ''-'' \<or> hd t = CHR ''+'') then tl t else t)
      in if int_literal_ok body then Inr (if neg then - digits_value body else digits_value body)
         else Inl (Raised ValueError
                   (''invalid literal for int() with base 10: '' @ [CHR 0x27] @ s @ [CHR 0x27])))"

definition lower_char :: "char \<Rightarrow> char" where
  "lower_char c =
     (if c \<in> set ''ABCDEFGHIJKLMNOPQRSTUVWXYZ'' then char_of (of_char c + (32::nat)) else c)"


section \<open>The embedded relational datastore\<close>

text \<open>
  A table has its declared columns, its rows in insertion order and its AUTOINCREMENT
  counter; a row maps each column to a value.  \<open>stmt\<close> has one constructor for each shape
  of SQL statement in the sources; a WHERE clause is a conjunction of equalities.
  \<open>exec_stmt\<close> is what one statement does to one database: the rows it returns and the
  new database, or the exception of the driver (unknown table or column, a parameter
  that cannot be bound, NOT NULL, UNIQUE and FOREIGN KEY violations, the latter because
  every pooled connection runs \<open>PRAGMA foreign_keys = ON\<close>).  A statement that raises
  changes nothing.

  A column is declared INTEGER or TEXT.  A value stored into a column, or compared with
  it in a WHERE clause, first takes the column's affinity: text that reads as an
  integer of 64 bits becomes that integer for an INTEGER column, an integer becomes its
  decimal text for a TEXT column.  Comparison is then equality of values where neither
  is NULL.  REAL values are stored and compared as they are, and text in
  floating-point notation is left as text.  A Python int outside 64 bits cannot be
  bound: the driver raises OverflowError.
\<close>

type_synonym row = "(string \<times> pyval) list"

datatype sql_type = IntegerType | TextType

record column =
  col_name :: string
  col_type :: sql_type
  col_not_null :: bool
  col_unique :: bool
  col_autoincrement :: bool
  col_references :: "(string \<times> string) option"

record table =
  tbl_columns :: "column list"
  tbl_rows :: "row list"
  tbl_sequence :: int

type_synonym database = "(string \<times> table) list"

datatype stmt =
    CreateTable string "column list"
  | Select "string list" string "(string \<times> pyval) list"
  | SelectCount string
  | SelectOne string "(string \<times> pyval) list"
  | Insert bool string "string list" "pyval list"
  | Update string "(string \<times> pyval) list" "(string \<times> pyval) list"
  | Delete string "(string \<times> pyval) list"

definition in_int64 :: "int \<Rightarrow> bool" where
  "in_int64 i \<longleftrightarrow> - 9223372036854775808 \<le> i \<and> i \<le> 9223372036854775807"

fun bind_param :: "pyval \<Rightarrow> error + pyval" where
  "bind_param (PBool b) = Inr (PInt (if b then 1 else 0))"
| "bind_param (PInt i) =
     (if in_int64 i then Inr (PInt i)
      else Inl (Raised OverflowError ''Python int too large to convert to SQLite INTEGER''))"
| "bind_param (PList xs) =
     Inl (Raised ProgrammingError ''Error binding parameter: type 'list' is not supported'')"
| "bind_param (PDict d) =
     Inl (Raised ProgrammingError ''Error binding parameter: type 'dict' is not supported'')"
| "bind_param v = Inr v"

fun bind_params :: "pyval list \<Rightarrow> error + pyval list" where
  "bind_params [] = Inr []"
| "bind_params (v # vs) =
     (case bind_param v of
        Inl e \<Rightarrow> Inl e
      | Inr b \<Rightarrow> (case bind_params vs of Inl e \<Rightarrow> Inl e | Inr bs \<Rightarrow> Inr (b # bs)))"

definition cell :: "row \<Rightarrow> string \<Rightarrow> pyval" where
  "cell r c = (case map_of r c of Some v \<Rightarrow> v | None \<Rightarrow> PNone)"

definition sql_eq :: "pyval \<Rightarrow> pyval \<Rightarrow> bool" where
  "sql_eq a b \<longleftrightarrow> a \<noteq> PNone \<and> b \<noteq> PNone \<and> a = b"

definition matches :: "(string \<times> pyval) list \<Rightarrow> row \<Rightarrow> bool" where
  "matches wh r \<longleftrightarrow> (\<forall>(c, v) \<in> set wh. sql_eq (cell r c) v)"

definition project :: "string list \<Rightarrow> row \<Rightarrow> row" where
  "project cols r = map (\<lambda>c. (c, cell r c)) cols"

definition column_names :: "table \<Rightarrow> string list" where
  "column_names T = map col_name (tbl_columns T)"

definition no_such_table :: "string \<Rightarrow> error" where
  "no_such_table t = Raised OperationalError (''no such table: '' @ t)"

definition no_such_column :: "string \<Rightarrow> error" where
  "no_such_column t = Raised OperationalError (''no such column in table '' @ t)"

text \<open>Rows of child tables whose foreign key names no parent row.\<close>

definition has_parent :: "database \<Rightarrow> string \<times> string \<Rightarrow> pyval \<Rightarrow> bool" where
  "has_parent db ref v \<longleftrightarrow>
     v = PNone \<or>
     (case map_of db (fst ref) of
        None \<Rightarrow> False
      | Some P \<Rightarrow> (\<exists>p \<in> set (tbl_rows P). sql_eq (cell p (snd ref)) v))"

definition row_orphaned :: "database \<Rightarrow> table \<Rightarrow> row \<Rightarrow> bool" where
  "row_orphaned db T r \<longleftrightarrow>
     (\<exists>col \<in> set (tbl_columns T).
        case col_references col of
          None \<Rightarrow> False
        | Some ref \<Rightarrow> \<not> has_parent db ref (cell r (col_name col)))"

definition orphans :: "database \<Rightarrow> (string \<times> row) list" where
  "orphans db =
     concat (map (\<lambda>(t, T). map (Pair t) (filter (row_orphaned db T) (tbl_rows T))) db)"

definition foreign_keys_hold :: "database \<Rightarrow> database \<Rightarrow> bool" where
  "foreign_keys_hold old new \<longleftrightarrow> set (orphans new) \<subseteq> set (orphans old)"

definition fk_failed :: error where
  "fk_failed = Raised IntegrityError ''FOREIGN KEY constraint failed''"

definition null_violation :: "table \<Rightarrow> row \<Rightarrow> bool" where
  "null_violation T r \<longleftrightarrow>
     (\<exists>col \<in> set (tbl_columns T). col_not_null col \<and> cell r (col_name col) = PNone)"

definition unique_violation :: "table \<Rightarrow> row list \<Rightarrow> row \<Rightarrow> bool" where
  "unique_violation T others r \<longleftrightarrow>
     (\<exists>col \<in> set (tbl_columns T). col_unique col \<and>
        (\<exists>q \<in> set others. sql_eq (cell q (col_name col)) (cell r (col_name col))))"

definition next_rowid :: "table \<Rightarrow> int" where
  "next_rowid T =
     1 + fold max (concat (map (\<lambda>r. concat (map (\<lambda>col.
            if col_autoincrement col
            then (case cell r (col_name col) of PInt i \<Rightarrow> [i] | _ \<Rightarrow> []) else [])
          (tbl_columns T))) (tbl_rows T))) (tbl_sequence T)"

definition new_row :: "table \<Rightarrow> (string \<times> pyval) list \<Rightarrow> row" where
  "new_row T given =
     map (\<lambda>col. (col_name col,
            (case map_of given (col_name col) of
               Some v \<Rightarrow> v
             | None \<Rightarrow> if col_autoincrement col then PInt (next_rowid T) else PNone)))
         (tbl_columns T)"

definition set_cells :: "(string \<times> pyval) list \<Rightarrow> row \<Rightarrow> row" where
  "set_cells sets r = map (\<lambda>(c, v). (c, (case map_of sets c of Some x \<Rightarrow> x | None \<Rightarrow> v))) r"

definition with_table :: "database \<Rightarrow> string \<Rightarrow> (table \<Rightarrow> error + 'a) \<Rightarrow> error + 'a" where
  "with_table db t f = (case map_of db t of None \<Rightarrow> Inl (no_such_table t) | Some T \<Rightarrow> f T)"

definition sql_space :: "char \<Rightarrow> bool" where
  "sql_space c \<longleftrightarrow> c \<in> set [CHR 0x09, CHR 0x0A, CHR 0x0B, CHR 0x0C, CHR 0x0D, CHR 0x20]"

definition sql_integer_text :: "string \<Rightarrow> int option" where
  "sql_integer_text s =
     (let t = rev (dropWhile sql_space (rev (dropWhile sql_space s)));
          body = (if t \<noteq> [] \<and> (hd t = CHR ''-'' \<or> hd t = CHR ''+'') then tl t else t);
          v = (if t \<noteq> [] \<and> hd t = CHR ''-'' then - digits_value body else digits_value body)
      in if body \<noteq> [] \<and> (\<forall>c \<in> set body. is_digit c) \<and> in_int64 v then Some v else None)"

fun apply_affinity :: "sql_type \<Rightarrow> pyval \<Rightarrow> pyval" where
  "apply_affinity IntegerType (PStr s) =
     (case sql_integer_text s of Some i \<Rightarrow> PInt i | None \<Rightarrow> PStr s)"
| "apply_affinity TextType (PInt i) = PStr (str_int i)"
| "apply_affinity ty v = v"

definition column_type :: "table \<Rightarrow> string \<Rightarrow> sql_type option" where
  "column_type T c = map_of (map (\<lambda>col. (col_name col, col_type col)) (tbl_columns T)) c"

definition coerce :: "table \<Rightarrow> (string \<times> pyval) list \<Rightarrow> (string \<times> pyval) list" where
  "coerce T ps =
     map (\<lambda>(c, v). (c, (case column_type T c of Some ty \<Rightarrow> apply_affinity ty v | None \<Rightarrow> v))) ps"

definition bound_pairs ::
  "table \<Rightarrow> (string \<times> pyval) list \<Rightarrow> error + (string \<times> pyval) list" where
  "bound_pairs T ps =
     (case bind_params (map snd ps) of
        Inl e \<Rightarrow> Inl e
      | Inr vs \<Rightarrow> Inr (coerce T (zip (map fst ps) vs)))"

fun update_rows :: "table \<Rightarrow> (string \<times> pyval) list \<Rightarrow> (string \<times> pyval) list
    \<Rightarrow> row list \<Rightarrow> row list \<Rightarrow> error + row list" where
  "update_rows T sets wh done [] = Inr done"
| "update_rows T sets wh done (r # rest) =
     (if matches wh r then
        (let r' = set_cells sets r in
         if null_violation T r' then Inl (Raised IntegrityError ''NOT NULL constraint failed'')
         else if unique_violation T (done @ rest) r'
           then Inl (Raised IntegrityError ''UNIQUE constraint failed'')
         else update_rows T sets wh (done @ [r']) rest)
      else update_rows T sets wh (done @ [r]) rest)"

fun exec_stmt :: "stmt \<Rightarrow> database \<Rightarrow> error + (row list \<times> database)" where
  "exec_stmt (CreateTable t cols) db =
     (case map_of db t of
        Some T \<Rightarrow> Inr ([], db)
      | None \<Rightarrow> Inr ([], db @ [(t, \<lparr>tbl_columns = cols, tbl_rows = [], tbl_sequence = 0\<rparr>)]))"
| "exec_stmt (Select cols t wh) db =
     with_table db t (\<lambda>T.
       if \<not> set (cols @ map fst wh) \<subseteq> set (column_names T) then Inl (no_such_column t)
       else case bound_pairs T wh of
              Inl e \<Rightarrow> Inl e
            | Inr bw \<Rightarrow> Inr (map (project cols) (filter (matches bw) (tbl_rows T)), db))"
| "exec_stmt (SelectCount t) db =
     with_table db t (\<lambda>T. Inr ([[(''count'', PInt (int (length (tbl_rows T))))]], db))"
| "exec_stmt (SelectOne t wh) db =
     with_table db t (\<lambda>T.
       if \<not> set (map fst wh) \<subseteq> set (column_names T) then Inl (no_such_column t)
       else case bound_pairs T wh of
              Inl e \<Rightarrow> Inl e
            | Inr bw \<Rightarrow> Inr (map (\<lambda>r. [(''1'', PInt 1)]) (filter (matches bw) (tbl_rows T)), db))"
| "exec_stmt (Insert or_ignore t cols vals) db =
     with_table db t (\<lambda>T.
       if \<not> set cols \<subseteq> set (column_names T) then Inl (no_such_column t)
       else case bind_params vals of
              Inl e \<Rightarrow> Inl e
            | Inr vs \<Rightarrow>
               (let r = new_row T (coerce T (zip cols vs));
                    db' = AList.update t
                            (T\<lparr>tbl_rows := tbl_rows T @ [r],
                               tbl_sequence := (if \<exists>col \<in> set (tbl_columns T). col_autoincrement col
                                                then next_rowid T else tbl_sequence T)\<rparr>) db
                in if null_violation T r then
                     (if or_ignore then Inr ([], db)
                      else Inl (Raised IntegrityError ''NOT NULL constraint failed''))
                   else if unique_violation T (tbl_rows T) r then
                     (if or_ignore then Inr ([], db)
                      else Inl (Raised IntegrityError ''UNIQUE constraint failed''))
                   else if \<not> foreign_keys_hold db db' then Inl fk_failed
                   else Inr ([], db')))"
| "exec_stmt (Update t sets wh) db =
     with_table db t (\<lambda>T.
       if \<not> set (map fst sets @ map fst wh) \<subseteq> set (column_names T) then Inl (no_such_column t)
       else case bound_pairs T sets of
              Inl e \<Rightarrow> Inl e
            | Inr bs \<Rightarrow>
               (case bound_pairs T wh of
                  Inl e \<Rightarrow> Inl e
                | Inr bw \<Rightarrow>
                   (case update_rows T bs bw [] (tbl_rows T) of
                      Inl e \<Rightarrow> Inl e
                    | Inr rows' \<Rightarrow>
                       (let db' = AList.update t (T\<lparr>tbl_rows := rows'\<rparr>) db
                        in if \<not> foreign_keys_hold db db' then Inl fk_failed
                           else Inr ([], db')))))"
| "exec_stmt (Delete t wh) db =
     with_table db t (\<lambda>T.
       if \<not> set (map fst wh) \<subseteq> set (column_names T) then Inl (no_such_column t)
       else case bound_pairs T wh of
              Inl e \<Rightarrow> Inl e
            | Inr bw \<Rightarrow>
               (let db' = AList.update t
                            (T\<lparr>tbl_rows := filter (\<lambda>r. \<not> matches bw r) (tbl_rows T)\<rparr>) db
                in if \<not> foreign_keys_hold db db' then Inl fk_failed
                   else Inr ([], db')))"

fun is_write :: "stmt \<Rightarrow> bool" where
  "is_write (Select cols t wh) = False"
| "is_write (SelectCount t) = False"
| "is_write (SelectOne t wh) = False"
| "is_write s = True"

fun is_dml :: "stmt \<Rightarrow> bool" where
  "is_dml (Insert or_ignore t cols vals) = True"
| "is_dml (Update t sets wh) = True"
| "is_dml (Delete t wh) = True"
| "is_dml s = False"


section \<open>Connections and transactions\<close>

text \<open>
  The world outside one call: the process-wide pool (taken as constructed), the
  committed database, the connection that holds the write transaction together with
  its uncommitted copy of the database, whether that connection has been left holding
  the lock of a commit that failed, the result rows waiting in each connection's
  cursor, the clock, and a script of injected datastore faults.  Each \<open>execute\<close>,
  \<open>commit\<close> and \<open>rollback\<close> consumes one entry of the script and raises
  \<open>sqlite3.Error\<close> when the entry is \<open>True\<close>; an empty script injects nothing.

  A program is a function from the state to a result (\<open>Inl\<close> an exception) and the new
  state.  \<open>try_except\<close> is \<open>try: ... except Exception as e: ...\<close>, \<open>try_except_sqlite\<close> is
  \<open>try: ... except sqlite3.Error: ...\<close>, which lets every other exception through;
  \<open>guarded d\<close> is the handler that returns \<open>d\<close>.  Logging is not modelled.

  Transactions follow SQLite and the driver's default mode: INSERT, UPDATE and DELETE
  open a transaction on their connection, which sees its own uncommitted changes;
  other connections read the committed database; only one connection may hold
  uncommitted changes, and a write by another one raises "database is locked";
  CREATE TABLE outside a transaction takes effect at once.  A commit that fails leaves
  its connection holding the write transaction together with the lock it had taken
  for the commit: until that connection commits or rolls back, reads on every other
  connection raise "database is locked" as well.
\<close>

record world =
  db_pool :: SQLiteConnectionPool
  committed :: database
  writer :: "(conn \<times> database) option"
  pending :: bool
  cursors :: "conn \<Rightarrow> row list"
  faults :: "bool list"
  clock :: tstamp

type_synonym ('a, 's) prog = "'s \<Rightarrow> (error + 'a) \<times> 's"

type_synonym 'a io = "('a, world) prog"

definition ret :: "'a \<Rightarrow> ('a, 's) prog" where
  "ret x = (\<lambda>w. (Inr x, w))"

definition raise :: "error \<Rightarrow> ('a, 's) prog" where
  "raise e = (\<lambda>w. (Inl e, w))"

definition bind :: "('a, 's) prog \<Rightarrow> ('a \<Rightarrow> ('b, 's) prog) \<Rightarrow> ('b, 's) prog" where
  "bind m f = (\<lambda>w. case m w of (Inl e, w') \<Rightarrow> (Inl e, w') | (Inr x, w') \<Rightarrow> f x w')"

definition lift :: "error + 'a \<Rightarrow> ('a, 's) prog" where
  "lift r = (\<lambda>w. (r, w))"

definition try_except :: "('a, 's) prog \<Rightarrow> (error \<Rightarrow> ('a, 's) prog) \<Rightarrow> ('a, 's) prog" where
  "try_except m h = (\<lambda>w. case m w of (Inl e, w') \<Rightarrow> h e w' | (Inr x, w') \<Rightarrow> (Inr x, w'))"

definition is_sqlite_error :: "error \<Rightarrow> bool" where
  "is_sqlite_error e =
     (case e of Raised k m \<Rightarrow>
        k = SqliteError \<or> k = OperationalError \<or> k = IntegrityError \<or> k = ProgrammingError)"

definition try_except_sqlite ::
  "('a, 's) prog \<Rightarrow> (error \<Rightarrow> ('a, 's) prog) \<Rightarrow> ('a, 's) prog" where
  "try_except_sqlite m h =
     (\<lambda>w. case m w of
            (Inl e, w') \<Rightarrow> if is_sqlite_error e then h e w' else (Inl e, w')
          | (Inr x, w') \<Rightarrow> (Inr x, w'))"

fun for_each :: "('a \<Rightarrow> ('b, 's) prog) \<Rightarrow> 'a list \<Rightarrow> (unit, 's) prog" where
  "for_each f [] = ret ()"
| "for_each f (x # xs) = bind (f x) (\<lambda>_. for_each f xs)"

definition datastore_fault :: "unit io" where
  "datastore_fault w =
     (case faults w of
        [] \<Rightarrow> (Inr (), w)
      | failing # rest \<Rightarrow>
          (if failing then (Inl (Raised SqliteError ''disk I/O error''), w\<lparr>faults := rest\<rparr>)
           else (Inr (), w\<lparr>faults := rest\<rparr>)))"

definition view :: "conn \<Rightarrow> world \<Rightarrow> database" where
  "view c w = (case writer w of
                 None \<Rightarrow> committed w
               | Some (c', d) \<Rightarrow> if c' = c then d else committed w)"

definition database_locked :: error where
  "database_locked = Raised OperationalError ''database is locked''"

definition locked_out :: "conn \<Rightarrow> world \<Rightarrow> bool" where
  "locked_out c w \<longleftrightarrow>
     (case writer w of None \<Rightarrow> False | Some (c', d) \<Rightarrow> c' \<noteq> c \<and> pending w)"

definition run_statement :: "conn \<Rightarrow> stmt \<Rightarrow> unit io" where
  "run_statement c s w =
     (if is_write s then
        (case writer w of
           Some (c', d) \<Rightarrow>
             if c' \<noteq> c then (Inl database_locked, w)
             else (case exec_stmt s d of
                     Inl e \<Rightarrow> (Inl e, w)
                   | Inr (rs, d') \<Rightarrow>
                       (Inr (), w\<lparr>writer := Some (c, d'), cursors := (cursors w)(c := rs)\<rparr>))
         | None \<Rightarrow>
             (case exec_stmt s (committed w) of
                Inl e \<Rightarrow> (Inl e, if is_dml s then w\<lparr>writer := Some (c, committed w)\<rparr> else w)
              | Inr (rs, d') \<Rightarrow>
                  (Inr (),
                   if is_dml s then w\<lparr>writer := Some (c, d'), cursors := (cursors w)(c := rs)\<rparr>
                   else w\<lparr>committed := d', cursors := (cursors w)(c := rs)\<rparr>)))
      else if locked_out c w then (Inl database_locked, w)
      else (case exec_stmt s (view c w) of
              Inl e \<Rightarrow> (Inl e, w)
            | Inr (rs, d') \<Rightarrow> (Inr (), w\<lparr>cursors := (cursors w)(c := rs)\<rparr>)))"

definition holds_transaction :: "conn \<Rightarrow> world \<Rightarrow> bool" where
  "holds_transaction c w \<longleftrightarrow> (case writer w of None \<Rightarrow> False | Some (c', d) \<Rightarrow> c' = c)"

definition conn_commit :: "conn \<Rightarrow> unit io" where
  "conn_commit c w =
     (case datastore_fault w of
        (Inl e, w') \<Rightarrow> (Inl e, if holds_transaction c w' then w'\<lparr>pending := True\<rparr> else w')
      | (Inr u, w') \<Rightarrow>
          (case writer w' of
             None \<Rightarrow> (Inr (), w')
           | Some (c', d) \<Rightarrow>
               if c' = c then (Inr (), w'\<lparr>committed := d, writer := None, pending := False\<rparr>)
               else (Inr (), w')))"

definition conn_rollback :: "conn \<Rightarrow> unit io" where
  "conn_rollback c =
     bind datastore_fault (\<lambda>_ w.
       case writer w of
         None \<Rightarrow> (Inr (), w)
       | Some (c', d) \<Rightarrow>
           if c' = c then (Inr (), w\<lparr>writer := None, pending := False\<rparr>) else (Inr (), w))"

text \<open>
  \<open>DBConnection\<close>: \<open>db_enter\<close> is \<open>__enter__\<close> (the handle is the pooled connection, or
  \<open>None\<close> when the pool timed out), \<open>db_exit\<close> is \<open>__exit__\<close> (close the cursor, roll back
  after an exception and commit otherwise, either one inside its own
  \<open>try: ... except sqlite3.Error: pass\<close>, then release), and \<open>with_db_connection\<close> is the
  \<open>with\<close> statement: an exception raised by \<open>__exit__\<close> itself is what the statement
  raises; otherwise \<open>__exit__\<close> returns \<open>None\<close> and the exception of the body, if any, is
  re-raised.
\<close>

definition not_initialised :: error where
  "not_initialised =
     Raised SqliteError
       [CHR 0xE6, CHR 0x95, CHR 0xB0, CHR 0xE6, CHR 0x8D, CHR 0xAE, CHR 0xE5, CHR 0xBA, CHR 0x93,
        CHR 0xE8, CHR 0xBF, CHR 0x9E, CHR 0xE6, CHR 0x8E, CHR 0xA5, CHR 0xE6, CHR 0x9C, CHR 0xAA,
        CHR 0xE5, CHR 0x88, CHR 0x9D, CHR 0xE5, CHR 0xA7, CHR 0x8B, CHR 0xE5, CHR 0x8C, CHR 0x96]"

definition default_polls :: nat where
  "default_polls = 51"

definition db_enter :: "conn option io" where
  "db_enter w =
     (case get_connection default_polls (clock w) (db_pool w) of
        (Inl e, p) \<Rightarrow> (Inl e, w\<lparr>db_pool := p\<rparr>)
      | (Inr None, p) \<Rightarrow> (Inr None, w\<lparr>db_pool := p\<rparr>)
      | (Inr (Some c), p) \<Rightarrow> (Inr (Some c), w\<lparr>db_pool := p, cursors := (cursors w)(c := [])\<rparr>))"

definition close_cursor :: "conn \<Rightarrow> unit io" where
  "close_cursor c w = (Inr (), w\<lparr>cursors := (cursors w)(c := [])\<rparr>)"

definition pool_release :: "conn \<Rightarrow> unit io" where
  "pool_release c w = (Inr (), w\<lparr>db_pool := release_connection c (clock w) (db_pool w)\<rparr>)"

definition db_exit :: "conn option \<Rightarrow> bool \<Rightarrow> unit io" where
  "db_exit db failed =
     (case db of
        None \<Rightarrow> ret ()
      | Some c \<Rightarrow>
          bind (close_cursor c) (\<lambda>_.
          bind (try_except_sqlite (if failed then conn_rollback c else conn_commit c) (\<lambda>e. ret ()))
            (\<lambda>_. pool_release c)))"

definition with_db_connection :: "(conn option \<Rightarrow> 'a io) \<Rightarrow> 'a io" where
  "with_db_connection body =
     bind db_enter (\<lambda>db w.
       case body db w of
         (Inl e, w1) \<Rightarrow>
           (case db_exit db True w1 of
              (Inl e', w2) \<Rightarrow> (Inl e', w2)
            | (Inr u, w2) \<Rightarrow> (Inl e, w2))
       | (Inr x, w1) \<Rightarrow>
           (case db_exit db False w1 of
              (Inl e', w2) \<Rightarrow> (Inl e', w2)
            | (Inr u, w2) \<Rightarrow> (Inr x, w2)))"

definition db_execute :: "conn option \<Rightarrow> stmt \<Rightarrow> unit io" where
  "db_execute db s =
     (case db of
        None \<Rightarrow> raise not_initialised
      | Some c \<Rightarrow> bind datastore_fault (\<lambda>_. run_statement c s))"

definition db_fetchone :: "conn option \<Rightarrow> row option io" where
  "db_fetchone db =
     (case db of
        None \<Rightarrow> raise not_initialised
      | Some c \<Rightarrow> (\<lambda>w. case cursors w c of
                          [] \<Rightarrow> (Inr None, w)
                        | r # rest \<Rightarrow> (Inr (Some r), w\<lparr>cursors := (cursors w)(c := rest)\<rparr>)))"

definition db_fetchall :: "conn option \<Rightarrow> row list io" where
  "db_fetchall db =
     (case db of
        None \<Rightarrow> raise not_initialised
      | Some c \<Rightarrow> (\<lambda>w. (Inr (cursors w c), w\<lparr>cursors := (cursors w)(c := [])\<rparr>)))"

definition guarded :: "'a \<Rightarrow> ('a, 's) prog \<Rightarrow> ('a, 's) prog" where
  "guarded dflt body = try_except body (\<lambda>e. ret dflt)"

section \<open>DBManagerPool (app/utils/db-manager-pool)\<close>

text \<open>
  Every accessor is \<open>try: with get_db_connection() as db: ... except Exception: return d\<close>.
  For an accessor \<open>f\<close> the constant \<open>f_try\<close> is its \<open>try\<close> block and \<open>f\<close> itself the block
  under its handler.  A result row is the \<open>sqlite3.Row\<close> of the selected columns, and
  \<open>row[k]\<close> raises IndexError for a column that was not selected.  \<open>decode_row\<close> is the
  dictionary literal built from a row (\<open>AsBool\<close> marks the entries wrapped in \<open>bool(...)\<close>),
  \<open>collect_rows\<close> the loop that files each decoded row under its name.
\<close>

datatype conv = Plain | AsBool

definition row_get :: "row \<Rightarrow> string \<Rightarrow> error + pyval" where
  "row_get r c =
     (case map_of r c of
        Some v \<Rightarrow> Inr v
      | None \<Rightarrow> Inl (Raised IndexError ''No item with that key''))"

fun decode_row :: "(string \<times> conv) list \<Rightarrow> row \<Rightarrow> error + (pyval \<times> pyval) list" where
  "decode_row [] r = Inr []"
| "decode_row ((k, cv) # fs) r =
     (case row_get r k of
        Inl e \<Rightarrow> Inl e
      | Inr v \<Rightarrow>
          (case decode_row fs r of
             Inl e \<Rightarrow> Inl e
           | Inr d \<Rightarrow> Inr ((PStr k, (case cv of AsBool \<Rightarrow> PBool (truthy v) | Plain \<Rightarrow> v)) # d)))"

fun collect_rows ::
  "(string \<times> conv) list \<Rightarrow> string \<Rightarrow> row list \<Rightarrow> (pyval \<times> pyval) list
   \<Rightarrow> error + (pyval \<times> pyval) list" where
  "collect_rows fs key [] result = Inr result"
| "collect_rows fs key (r # rows) result =
     (case decode_row fs r of
        Inl e \<Rightarrow> Inl e
      | Inr config \<Rightarrow>
          (case row_get r key of
             Inl e \<Rightarrow> Inl e
           | Inr k \<Rightarrow> collect_rows fs key rows (AList.update k (PDict config) result)))"

definition row_as_dict :: "(string \<times> conv) list \<Rightarrow> row option \<Rightarrow> pyval io" where
  "row_as_dict fs row =
     (case row of
        Some r \<Rightarrow> (case decode_row fs r of Inl e \<Rightarrow> raise e | Inr d \<Rightarrow> ret (PDict d))
      | None \<Rightarrow> ret PNone)"

definition no_attribute :: "string \<Rightarrow> error" where
  "no_attribute name = Raised AttributeError (''object has no attribute '' @ name)"

definition dget :: "(pyval \<times> pyval) list \<Rightarrow> string \<Rightarrow> pyval \<Rightarrow> pyval" where
  "dget kvs k dflt = (case map_of kvs (PStr k) of Some v \<Rightarrow> v | None \<Rightarrow> dflt)"

definition as_dict :: "pyval \<Rightarrow> (pyval \<times> pyval) list io" where
  "as_dict d = (case d of PDict kvs \<Rightarrow> ret kvs | _ \<Rightarrow> raise (no_attribute ''get''))"

definition flag :: "pyval \<Rightarrow> pyval" where
  "flag v = PInt (if truthy v then 1 else 0)"

subsection \<open>Schema\<close>

definition col :: "string \<Rightarrow> sql_type \<Rightarrow> bool \<Rightarrow> bool \<Rightarrow> column" where
  "col name ty not_null uniq =
     \<lparr>col_name = name, col_type = ty, col_not_null = not_null, col_unique = uniq,
      col_autoincrement = False, col_references = None\<rparr>"

definition id_col :: column where
  "id_col = \<lparr>col_name = ''id'', col_type = IntegerType, col_not_null = False, col_unique = True,
             col_autoincrement = True, col_references = None\<rparr>"

definition ref_col :: "string \<Rightarrow> string \<Rightarrow> column" where
  "ref_col name parent =
     \<lparr>col_name = name, col_type = IntegerType, col_not_null = True, col_unique = False,
      col_autoincrement = False, col_references = Some (parent, ''id'')\<rparr>"

definition providers_columns :: "column list" where
  "providers_columns =
     [id_col, col ''provider_name'' TextType True True, col ''api_key'' TextType True False,
      col ''api_base_url'' TextType True False, col ''api_request_address'' TextType True False,
      col ''provider_format'' TextType True False, col ''is_valid'' IntegerType True False]"

definition create_providers :: stmt where
  "create_providers = CreateTable ''providers'' providers_columns"

definition models_columns :: "column list" where
  "models_columns =
     [id_col, ref_col ''provider_id'' ''providers'',
      col ''model_type'' TextType True False, col ''model_id'' TextType True False,
      col ''model_name'' TextType True True, col ''model_format'' TextType True False,
      col ''is_valid'' IntegerType True False, col ''is_origin_reasoning'' IntegerType False False]"

definition create_models :: stmt where
  "create_models = CreateTable ''models'' models_columns"

definition composite_models_columns :: "column list" where
  "composite_models_columns =
     [id_col, col ''model_name'' TextType True True,
      ref_col ''reasoner_model_id'' ''models'', ref_col ''general_model_id'' ''models'',
      col ''is_valid'' IntegerType True False]"

definition create_composite_models :: stmt where
  "create_composite_models = CreateTable ''composite_models'' composite_models_columns"

definition system_settings_columns :: "column list" where
  "system_settings_columns =
     [col ''setting_key'' TextType False True, col ''setting_value'' TextType True False,
      col ''setting_type'' TextType True False]"

definition create_system_settings :: stmt where
  "create_system_settings = CreateTable ''system_settings'' system_settings_columns"

definition default_settings :: "(string \<times> string \<times> string) list" where
  "default_settings =
     [(''log_level'', ''INFO'', ''str''),
      (''allow_origins'', [CHR ''['', CHR 0x22, CHR ''*'', CHR 0x22, CHR '']''], ''json''),
      (''api_key'', ''123456'', ''str''),
      (''proxy_open'', ''false'', ''bool''),
      (''proxy_address'', ''127.0.0.1:7890'', ''str''),
      (''model_cache_size'', ''5'', ''int''),
      (''save_deepseek_tokens'', ''false'', ''bool''),
      (''save_deepseek_tokens_max_tokens'', ''5'', ''int'')]"

subsection \<open>Start-up\<close>

definition init_system_settings_try :: "conn option \<Rightarrow> unit io" where
  "init_system_settings_try db =
     bind (db_execute db (SelectCount ''system_settings'')) (\<lambda>_.
     bind (db_fetchone db) (\<lambda>row.
     bind (case row of
             None \<Rightarrow> ret False
           | Some r \<Rightarrow> (case row_get r ''count'' of
                          Inl e \<Rightarrow> raise e
                        | Inr (PInt n) \<Rightarrow> ret (n > 0)
                        | Inr v \<Rightarrow> raise (Raised TypeError ''count is not a number''))) (\<lambda>present.
     if present then ret ()
     else for_each (\<lambda>(key, val, type_name).
            db_execute db (Insert True ''system_settings''
              [''setting_key'', ''setting_value'', ''setting_type'']
              [PStr key, PStr val, PStr type_name])) default_settings)))"

definition init_system_settings :: "conn option \<Rightarrow> unit io" where
  "init_system_settings db = guarded () (init_system_settings_try db)"

definition init_db_try :: "unit io" where
  "init_db_try =
     with_db_connection (\<lambda>db.
       bind (db_execute db create_providers) (\<lambda>_.
       bind (db_execute db create_models) (\<lambda>_.
       bind (db_execute db create_composite_models) (\<lambda>_.
       bind (db_execute db create_system_settings) (\<lambda>_.
       init_system_settings db)))))"

definition init_db :: "unit io" where
  "init_db = try_except init_db_try (\<lambda>e. raise e)"

subsection \<open>Providers\<close>

definition provider_fields :: "(string \<times> conv) list" where
  "provider_fields = [(''id'', Plain), (''provider_name'', Plain), (''api_key'', Plain), (''api_base_url'', Plain), (''api_request_address'', Plain), (''provider_format'', Plain), (''is_valid'', AsBool)]"

definition get_all_providers_try :: "pyval io" where
  "get_all_providers_try =
     with_db_connection (\<lambda>db.
       bind (db_execute db (Select [''id'', ''provider_name'', ''api_base_url'', ''api_request_address'', ''provider_format'', ''is_valid''] ''providers'' [])) (\<lambda>_.
       bind (db_fetchall db) (\<lambda>rows.
       bind (lift (collect_rows provider_fields ''provider_name'' rows [])) (\<lambda>result.
       ret (PDict result)))))"

definition get_all_providers :: "pyval io" where
  "get_all_providers = guarded (PDict []) get_all_providers_try"

definition get_provider_for_name_try :: "pyval \<Rightarrow> pyval io" where
  "get_provider_for_name_try provider_name =
     with_db_connection (\<lambda>db.
       bind (db_execute db (Select [''id'', ''provider_name'', ''api_key'', ''api_base_url'', ''api_request_address'', ''provider_format'', ''is_valid''] ''providers'' [(''provider_name'', provider_name)])) (\<lambda>_.
       bind (db_fetchone db) (\<lambda>row. row_as_dict provider_fields row)))"

definition get_provider_for_name :: "pyval \<Rightarrow> pyval io" where
  "get_provider_for_name provider_name = guarded PNone (get_provider_for_name_try provider_name)"

definition get_provider_for_id_try :: "pyval \<Rightarrow> pyval io" where
  "get_provider_for_id_try provider_id =
     with_db_connection (\<lambda>db.
       bind (db_execute db (Select [''id'', ''provider_name'', ''api_key'', ''api_base_url'', ''api_request_address'', ''provider_format'', ''is_valid''] ''providers'' [(''id'', provider_id)])) (\<lambda>_.
       bind (db_fetchone db) (\<lambda>row. row_as_dict provider_fields row)))"

definition get_provider_for_id :: "pyval \<Rightarrow> pyval io" where
  "get_provider_for_id provider_id = guarded PNone (get_provider_for_id_try provider_id)"

definition save_provider_try :: "pyval \<Rightarrow> pyval io" where
  "save_provider_try config =
     bind (as_dict config) (\<lambda>cfg.
     with_db_connection (\<lambda>db.
       bind (if truthy (dget cfg ''id'' PNone) then
               db_execute db (Update ''providers''
                 [(''provider_name'', dget cfg ''provider_name'' (PStr [])),
                  (''api_key'', dget cfg ''api_key'' (PStr [])),
                  (''api_base_url'', dget cfg ''api_base_url'' (PStr [])),
                  (''api_request_address'', dget cfg ''api_request_address'' (PStr [])),
                  (''provider_format'', dget cfg ''provider_format'' (PStr [])),
                  (''is_valid'', flag (dget cfg ''is_valid'' (PBool True)))]
                 [(''id'', dget cfg ''id'' PNone)])
             else
               db_execute db (Insert False ''providers''
                 [''provider_name'', ''api_key'', ''api_base_url'', ''api_request_address'',
                  ''provider_format'', ''is_valid'']
                 [dget cfg ''provider_name'' (PStr []), dget cfg ''api_key'' (PStr []),
                  dget cfg ''api_base_url'' (PStr []), dget cfg ''api_request_address'' (PStr []),
                  dget cfg ''provider_format'' (PStr []),
                  flag (dget cfg ''is_valid'' (PBool True))])) (\<lambda>_.
       ret (PBool True))))"

definition save_provider :: "pyval \<Rightarrow> pyval io" where
  "save_provider config = guarded (PBool False) (save_provider_try config)"

definition delete_provider_try :: "pyval \<Rightarrow> pyval io" where
  "delete_provider_try provider_id =
     with_db_connection (\<lambda>db.
       bind (db_execute db (Delete ''providers'' [(''id'', provider_id)])) (\<lambda>_.
       ret (PBool True)))"

definition delete_provider :: "pyval \<Rightarrow> pyval io" where
  "delete_provider provider_id = guarded (PBool False) (delete_provider_try provider_id)"

subsection \<open>Models\<close>

definition model_fields :: "(string \<times> conv) list" where
  "model_fields = [(''id'', Plain), (''model_id'', Plain), (''model_name'', Plain), (''model_type'', Plain), (''model_format'', Plain), (''provider_id'', Plain), (''is_valid'', AsBool), (''is_origin_reasoning'', AsBool)]"

definition model_fields_single :: "(string \<times> conv) list" where
  "model_fields_single = [(''id'', Plain), (''model_id'', Plain), (''model_name'', Plain), (''model_type'', Plain), (''model_format'', Plain), (''provider_id'', Plain), (''is_origin_reasoning'', AsBool), (''is_valid'', AsBool)]"

definition get_all_models_try :: "pyval \<Rightarrow> pyval io" where
  "get_all_models_try model_type =
     with_db_connection (\<lambda>db.
       bind (db_execute db (Select [''id'', ''model_id'', ''model_name'', ''provider_id'', ''is_origin_reasoning'', ''is_valid'', ''model_type'', ''model_format''] ''models''
               (if truthy model_type then [(''model_type'', model_type)] else []))) (\<lambda>_.
       bind (db_fetchall db) (\<lambda>rows.
       bind (lift (collect_rows model_fields ''model_name'' rows [])) (\<lambda>result.
       ret (PDict result)))))"

definition get_all_models :: "pyval \<Rightarrow> pyval io" where
  "get_all_models model_type = guarded (PDict []) (get_all_models_try model_type)"

definition get_model_for_name_try :: "pyval \<Rightarrow> pyval io" where
  "get_model_for_name_try model_name =
     with_db_connection (\<lambda>db.
       bind (db_execute db (Select [''id'', ''model_id'', ''model_name'', ''provider_id'', ''is_origin_reasoning'', ''is_valid'', ''model_type'', ''model_format''] ''models''
               [(''is_valid'', PInt 1), (''model_name'', model_name)])) (\<lambda>_.
       bind (db_fetchone db) (\<lambda>row. row_as_dict model_fields_single row)))"

definition get_model_for_name :: "pyval \<Rightarrow> pyval io" where
  "get_model_for_name model_name = guarded PNone (get_model_for_name_try model_name)"

definition get_model_for_id_try :: "pyval \<Rightarrow> pyval io" where
  "get_model_for_id_try models_id =
     with_db_connection (\<lambda>db.
       bind (db_execute db (Select [''id'', ''model_id'', ''model_name'', ''model_format'', ''provider_id'', ''is_origin_reasoning'', ''is_valid'', ''model_type''] ''models''
               [(''is_valid'', PInt 1), (''id'', models_id)])) (\<lambda>_.
       bind (db_fetchone db) (\<lambda>row. row_as_dict model_fields_single row)))"

definition get_model_for_id :: "pyval \<Rightarrow> pyval io" where
  "get_model_for_id models_id = guarded PNone (get_model_for_id_try models_id)"

definition save_model_try :: "pyval \<Rightarrow> pyval io" where
  "save_model_try config =
     bind (as_dict config) (\<lambda>cfg.
     with_db_connection (\<lambda>db.
       bind (if truthy (dget cfg ''id'' PNone) then
               db_execute db (Update ''models''
                 [(''model_id'', dget cfg ''model_id'' (PStr [])),
                  (''api_key'', dget cfg ''api_key'' (PStr [])),
                  (''provider_id'', dget cfg ''provider_id'' PNone),
                  (''is_origin_reasoning'', flag (dget cfg ''is_origin_reasoning'' (PBool False))),
                  (''is_valid'', flag (dget cfg ''is_valid'' (PBool False))),
                  (''model_type'', dget cfg ''model_type'' (PStr [])),
                  (''model_format'', dget cfg ''model_format'' (PStr []))]
                 [(''id'', dget cfg ''id'' PNone)])
             else
               db_execute db (Insert False ''models''
                 [''model_name'', ''model_id'', ''api_key'', ''provider_id'',
                  ''is_origin_reasoning'', ''is_valid'', ''model_type'', ''model_format'']
                 [dget cfg ''model_name'' (PStr []), dget cfg ''model_id'' (PStr []),
                  dget cfg ''api_key'' (PStr []), dget cfg ''provider_id'' PNone,
                  flag (dget cfg ''is_origin_reasoning'' (PBool False)),
                  flag (dget cfg ''is_valid'' (PBool False)),
                  dget cfg ''model_type'' (PStr []), dget cfg ''model_format'' (PStr [])])) (\<lambda>_.
       ret (PBool True))))"

definition save_model :: "pyval \<Rightarrow> pyval io" where
  "save_model config = guarded (PBool False) (save_model_try config)"

definition delete_model_try :: "pyval \<Rightarrow> pyval io" where
  "delete_model_try models_id =
     with_db_connection (\<lambda>db.
       bind (db_execute db (Delete ''models'' [(''id'', models_id)])) (\<lambda>_.
       ret (PBool True)))"

definition delete_model :: "pyval \<Rightarrow> pyval io" where
  "delete_model models_id = guarded (PBool False) (delete_model_try models_id)"

subsection \<open>Composite models\<close>

definition composite_fields :: "(string \<times> conv) list" where
  "composite_fields = [(''id'', Plain), (''model_name'', Plain), (''reasoner_model_id'', Plain), (''general_model_id'', Plain), (''is_valid'', AsBool)]"

definition get_all_composite_models_try :: "pyval io" where
  "get_all_composite_models_try =
     with_db_connection (\<lambda>db.
       bind (db_execute db (Select [''id'', ''model_name'', ''is_valid'', ''reasoner_model_id'', ''general_model_id''] ''composite_models'' [])) (\<lambda>_.
       bind (db_fetchall db) (\<lambda>rows.
       bind (lift (collect_rows composite_fields ''model_name'' rows [])) (\<lambda>result.
       ret (PDict result)))))"

definition get_all_composite_models :: "pyval io" where
  "get_all_composite_models = guarded (PDict []) get_all_composite_models_try"

definition get_composite_model_try :: "pyval \<Rightarrow> pyval io" where
  "get_composite_model_try model_name =
     with_db_connection (\<lambda>db.
       bind (db_execute db (Select [''id'', ''model_name'', ''is_valid'', ''reasoner_model_id'', ''general_model_id''] ''composite_models''
               [(''model_name'', model_name), (''is_valid'', PInt 1)])) (\<lambda>_.
       bind (db_fetchone db) (\<lambda>row. row_as_dict composite_fields row)))"

definition get_composite_model :: "pyval \<Rightarrow> pyval io" where
  "get_composite_model model_name = guarded PNone (get_composite_model_try model_name)"

definition save_composite_model_try :: "pyval \<Rightarrow> pyval io" where
  "save_composite_model_try config =
     bind (as_dict config) (\<lambda>cfg.
     with_db_connection (\<lambda>db.
       bind (if truthy (dget cfg ''id'' PNone) then
               db_execute db (Update ''composite_models''
                 [(''reasoner_model_id'', dget cfg ''reasoner_model_id'' PNone),
                  (''general_model_id'', dget cfg ''general_model_id'' PNone),
                  (''is_valid'', flag (dget cfg ''is_valid'' (PBool False)))]
                 [(''id'', dget cfg ''id'' PNone)])
             else
               db_execute db (Insert False ''composite_models''
                 [''model_name'', ''reasoner_model_id'', ''general_model_id'', ''is_valid'']
                 [dget cfg ''model_name'' (PStr []), dget cfg ''reasoner_model_id'' PNone,
                  dget cfg ''general_model_id'' PNone,
                  flag (dget cfg ''is_valid'' (PBool False))])) (\<lambda>_.
       ret (PBool True))))"

definition save_composite_model :: "pyval \<Rightarrow> pyval io" where
  "save_composite_model config = guarded (PBool False) (save_composite_model_try config)"

definition delete_composite_model_try :: "pyval \<Rightarrow> pyval io" where
  "delete_composite_model_try composite_id =
     with_db_connection (\<lambda>db.
       bind (db_execute db (Delete ''composite_models'' [(''id'', composite_id)])) (\<lambda>_.
       ret (PBool True)))"

definition delete_composite_model :: "pyval \<Rightarrow> pyval io" where
  "delete_composite_model composite_id =
     guarded (PBool False) (delete_composite_model_try composite_id)"

subsection \<open>System settings\<close>

definition py_str :: "pylib \<Rightarrow> pyval \<Rightarrow> string" where
  "py_str lib v =
     (case v of
        PNone \<Rightarrow> ''None''
      | PBool b \<Rightarrow> (if b then ''True'' else ''False'')
      | PInt i \<Rightarrow> str_int i
      | PFloat f \<Rightarrow> float_str lib f
      | PStr s \<Rightarrow> s
      | PList xs \<Rightarrow> container_repr lib v
      | PDict d \<Rightarrow> container_repr lib v)"

definition py_int :: "pylib \<Rightarrow> pyval \<Rightarrow> error + pyval" where
  "py_int lib v =
     (case v of
        PStr s \<Rightarrow> (case int_of_str s of Inl e \<Rightarrow> Inl e | Inr i \<Rightarrow> Inr (PInt i))
      | PInt i \<Rightarrow> Inr (PInt i)
      | PBool b \<Rightarrow> Inr (PInt (if b then 1 else 0))
      | PFloat f \<Rightarrow> (case int_of_float lib f of Inl e \<Rightarrow> Inl e | Inr i \<Rightarrow> Inr (PInt i))
      | _ \<Rightarrow> Inl (Raised TypeError ''int() argument must be a string or a real number''))"

definition py_float :: "pylib \<Rightarrow> pyval \<Rightarrow> error + pyval" where
  "py_float lib v =
     (case v of
        PStr s \<Rightarrow> (case float_of_str lib s of Inl e \<Rightarrow> Inl e | Inr f \<Rightarrow> Inr (PFloat f))
      | PFloat f \<Rightarrow> Inr (PFloat f)
      | PInt i \<Rightarrow> (case float_of_int lib i of Inl e \<Rightarrow> Inl e | Inr f \<Rightarrow> Inr (PFloat f))
      | PBool b \<Rightarrow> (case float_of_int lib (if b then 1 else 0) of
                     Inl e \<Rightarrow> Inl e | Inr f \<Rightarrow> Inr (PFloat f))
      | _ \<Rightarrow> Inl (Raised TypeError ''float() argument must be a string or a real number''))"

definition py_lower :: "pyval \<Rightarrow> error + string" where
  "py_lower v = (case v of PStr s \<Rightarrow> Inr (map lower_char s) | _ \<Rightarrow> Inl (no_attribute ''lower''))"

definition py_json_loads :: "pylib \<Rightarrow> pyval \<Rightarrow> error + pyval" where
  "py_json_loads lib v =
     (case v of
        PStr s \<Rightarrow> json_loads lib s
      | _ \<Rightarrow> Inl (Raised TypeError ''the JSON object must be str, bytes or bytearray''))"

definition convert_setting :: "pylib \<Rightarrow> pyval \<Rightarrow> pyval \<Rightarrow> error + pyval" where
  "convert_setting lib type_name val =
     (if type_name = PStr ''int'' then py_int lib val
      else if type_name = PStr ''float'' then py_float lib val
      else if type_name = PStr ''bool'' then
        (case py_lower val of
           Inl e \<Rightarrow> Inl e
         | Inr s \<Rightarrow> Inr (PBool (s \<in> set [''true'', ''1'', ''yes''])))
      else if type_name = PStr ''json'' then py_json_loads lib val
      else Inr val)"

definition get_setting_try :: "pylib \<Rightarrow> pyval \<Rightarrow> pyval io" where
  "get_setting_try lib key =
     with_db_connection (\<lambda>db.
       bind (db_execute db (Select [''setting_value'', ''setting_type''] ''system_settings''
               [(''setting_key'', key)])) (\<lambda>_.
       bind (db_fetchone db) (\<lambda>row.
         case row of
           None \<Rightarrow> ret PNone
         | Some r \<Rightarrow>
             bind (lift (row_get r ''setting_value'')) (\<lambda>val.
             bind (lift (row_get r ''setting_type'')) (\<lambda>type_name.
             lift (convert_setting lib type_name val))))))"

definition get_setting :: "pylib \<Rightarrow> pyval \<Rightarrow> pyval io" where
  "get_setting lib key = guarded PNone (get_setting_try lib key)"

fun collect_settings ::
  "pylib \<Rightarrow> row list \<Rightarrow> (pyval \<times> pyval) list \<Rightarrow> error + (pyval \<times> pyval) list" where
  "collect_settings lib [] result = Inr result"
| "collect_settings lib (r # rows) result =
     (case row_get r ''setting_key'' of
        Inl e \<Rightarrow> Inl e
      | Inr key \<Rightarrow>
         (case row_get r ''setting_value'' of
            Inl e \<Rightarrow> Inl e
          | Inr val \<Rightarrow>
             (case row_get r ''setting_type'' of
                Inl e \<Rightarrow> Inl e
              | Inr type_name \<Rightarrow>
                 (case convert_setting lib type_name val of
                    Inl e \<Rightarrow> Inl e
                  | Inr v \<Rightarrow> collect_settings lib rows (AList.update key v result)))))"

definition get_all_settings_try :: "pylib \<Rightarrow> pyval io" where
  "get_all_settings_try lib =
     with_db_connection (\<lambda>db.
       bind (db_execute db (Select [''setting_key'', ''setting_value'', ''setting_type'']
               ''system_settings'' [])) (\<lambda>_.
       bind (db_fetchall db) (\<lambda>rows.
       bind (lift (collect_settings lib rows [])) (\<lambda>result.
       ret (PDict result)))))"

definition get_all_settings :: "pylib \<Rightarrow> pyval io" where
  "get_all_settings lib = guarded (PDict []) (get_all_settings_try lib)"

fun isinstance_int :: "pyval \<Rightarrow> bool" where
  "isinstance_int (PInt i) = True"
| "isinstance_int (PBool b) = True"
| "isinstance_int v = False"

fun isinstance_float :: "pyval \<Rightarrow> bool" where
  "isinstance_float (PFloat f) = True"
| "isinstance_float v = False"

fun isinstance_bool :: "pyval \<Rightarrow> bool" where
  "isinstance_bool (PBool b) = True"
| "isinstance_bool v = False"

fun isinstance_dict_or_list :: "pyval \<Rightarrow> bool" where
  "isinstance_dict_or_list (PDict d) = True"
| "isinstance_dict_or_list (PList xs) = True"
| "isinstance_dict_or_list v = False"

definition setting_repr :: "pylib \<Rightarrow> pyval \<Rightarrow> error + (string \<times> string)" where
  "setting_repr lib val =
     (if isinstance_int val then Inr (''int'', py_str lib val)
      else if isinstance_float val then Inr (''float'', py_str lib val)
      else if isinstance_bool val then Inr (''bool'', if truthy val then ''true'' else ''false'')
      else if isinstance_dict_or_list val then
        (case json_dumps lib val of Inl e \<Rightarrow> Inl e | Inr s \<Rightarrow> Inr (''json'', s))
      else Inr (''str'', py_str lib val))"

definition save_setting_try :: "pylib \<Rightarrow> pyval \<Rightarrow> pyval \<Rightarrow> pyval io" where
  "save_setting_try lib key val =
     bind (lift (setting_repr lib val)) (\<lambda>(type_name, str_value).
     with_db_connection (\<lambda>db.
       bind (db_execute db (SelectOne ''system_settings'' [(''setting_key'', key)])) (\<lambda>_.
       bind (db_fetchone db) (\<lambda>row.
       bind (if row \<noteq> None then
               db_execute db (Update ''system_settings''
                 [(''setting_value'', PStr str_value), (''setting_type'', PStr type_name)]
                 [(''setting_key'', key)])
             else
               db_execute db (Insert False ''system_settings''
                 [''setting_key'', ''setting_value'', ''setting_type'']
                 [key, PStr str_value, PStr type_name])) (\<lambda>_.
       ret (PBool True))))))"

definition save_setting :: "pylib \<Rightarrow> pyval \<Rightarrow> pyval \<Rightarrow> pyval io" where
  "save_setting lib key val = guarded (PBool False) (save_setting_try lib key val)"

definition delete_setting_try :: "pyval \<Rightarrow> pyval io" where
  "delete_setting_try key =
     with_db_connection (\<lambda>db.
       bind (db_execute db (Delete ''system_settings'' [(''setting_key'', key)])) (\<lambda>_.
       ret (PBool True)))"

definition delete_setting :: "pyval \<Rightarrow> pyval io" where
  "delete_setting key = guarded (PBool False) (delete_setting_try key)"

subsection \<open>Export and import\<close>

definition export_config_try :: "pylib \<Rightarrow> pyval io" where
  "export_config_try lib =
     bind get_all_providers (\<lambda>providers.
     bind (get_all_models PNone) (\<lambda>models.
     bind get_all_composite_models (\<lambda>composite_models.
     bind (get_all_settings lib) (\<lambda>system.
     ret (PDict [(PStr ''providers'', providers), (PStr ''models'', models),
                 (PStr ''composite_models'', composite_models),
                 (PStr ''system'', system)])))))"

definition export_config :: "pylib \<Rightarrow> pyval io" where
  "export_config lib = guarded (PDict []) (export_config_try lib)"

definition py_get :: "pyval \<Rightarrow> string \<Rightarrow> pyval \<Rightarrow> error + pyval" where
  "py_get d k dflt =
     (case d of PDict kvs \<Rightarrow> Inr (dget kvs k dflt) | _ \<Rightarrow> Inl (no_attribute ''get''))"

definition py_values :: "pyval \<Rightarrow> error + pyval list" where
  "py_values d = (case d of PDict kvs \<Rightarrow> Inr (map snd kvs) | _ \<Rightarrow> Inl (no_attribute ''values''))"

definition py_items :: "pyval \<Rightarrow> error + (pyval \<times> pyval) list" where
  "py_items d = (case d of PDict kvs \<Rightarrow> Inr kvs | _ \<Rightarrow> Inl (no_attribute ''items''))"

definition section_values :: "pyval \<Rightarrow> string \<Rightarrow> pyval list io" where
  "section_values config name =
     bind (lift (py_get config name (PDict []))) (\<lambda>sec. lift (py_values sec))"

definition import_config_try :: "pylib \<Rightarrow> pyval \<Rightarrow> pyval io" where
  "import_config_try lib config =
     with_db_connection (\<lambda>db.
       bind (db_execute db (Delete ''providers'' [])) (\<lambda>_.
       bind (db_execute db (Delete ''models'' [])) (\<lambda>_.
       bind (db_execute db (Delete ''composite_models'' [])) (\<lambda>_.
       bind (db_execute db (Delete ''system_settings'' [])) (\<lambda>_.
       bind (section_values config ''providers'') (\<lambda>provider_configs.
       bind (for_each save_provider provider_configs) (\<lambda>_.
       bind (section_values config ''models'') (\<lambda>model_configs.
       bind (for_each save_model model_configs) (\<lambda>_.
       bind (section_values config ''composite_models'') (\<lambda>composite_configs.
       bind (for_each save_composite_model composite_configs) (\<lambda>_.
       bind (lift (py_get config ''system'' (PDict []))) (\<lambda>sec.
       bind (lift (py_items sec)) (\<lambda>settings.
       bind (for_each (\<lambda>(key, val). save_setting lib key val) settings) (\<lambda>_.
       ret (PBool True)))))))))))))))"

definition import_config :: "pylib \<Rightarrow> pyval \<Rightarrow> pyval io" where
  "import_config lib config = guarded (PBool False) (import_config_try lib config)"

section \<open>ModelManager (app/manager/model-manager)\<close>

datatype client =
    OpenAICompatibleClient pyval pyval pyval pyval
  | ClaudeClient pyval pyval pyval pyval
  | DeepSeekClient pyval pyval pyval

type_synonym client_instance = "nat \<times> client"

datatype composite =
    DeepClaude client_instance client_instance pyval
  | OpenAICompatibleComposite client_instance client_instance pyval

record ModelManager =
  mm_config :: pyval
  mm_model_cache :: "client_instance ModelInstanceCache"
  mm_objects :: nat

type_synonym 'a mgr = "('a, ModelManager \<times> world) prog"

definition in_store :: "'a io \<Rightarrow> 'a mgr" where
  "in_store m = (\<lambda>(self, w). case m w of (r, w') \<Rightarrow> (r, (self, w')))"

definition msg_model :: string where
  "msg_model =
     [CHR 0xE6, CHR 0xA8, CHR 0xA1, CHR 0xE5, CHR 0x9E, CHR 0x8B, CHR '' '', CHR 0x27]"

definition msg_missing :: string where
  "msg_missing =
     [CHR 0x27, CHR '' '', CHR 0xE4, CHR 0xB8, CHR 0x8D, CHR 0xE5, CHR 0xAD, CHR 0x98,
      CHR 0xE5, CHR 0x9C, CHR 0xA8]"

definition msg_composite :: string where
  "msg_composite =
     [CHR 0xE7, CHR 0xBB, CHR 0x84, CHR 0xE5, CHR 0x90, CHR 0x88, CHR 0xE6, CHR 0xA8,
      CHR 0xA1, CHR 0xE5, CHR 0x9E, CHR 0x8B, CHR '' '', CHR 0x27]"

definition msg_bad_format :: string where
  "msg_bad_format =
     [CHR 0xE4, CHR 0xB8, CHR 0x8D, CHR 0xE6, CHR 0x94, CHR 0xAF, CHR 0xE6, CHR 0x8C,
      CHR 0x81, CHR 0xE7, CHR 0x9A, CHR 0x84, CHR 0xE4, CHR 0xBE, CHR 0x9B, CHR 0xE5,
      CHR 0xBA, CHR 0x94, CHR 0xE5, CHR 0x95, CHR 0x86, CHR 0xE6, CHR 0xA0, CHR 0xBC,
      CHR 0xE5, CHR 0xBC, CHR 0x8F, CHR '':'', CHR '' '']"

definition msg_bad_pair :: string where
  "msg_bad_pair =
     [CHR 0xE4, CHR 0xB8, CHR 0x8D, CHR 0xE6, CHR 0x94, CHR 0xAF, CHR 0xE6, CHR 0x8C,
      CHR 0x81, CHR 0xE7, CHR 0x9A, CHR 0x84, CHR 0xE7, CHR 0xBB, CHR 0x84, CHR 0xE5,
      CHR 0x90, CHR 0x88, CHR 0xE6, CHR 0xA8, CHR 0xA1, CHR 0xE5, CHR 0x9E, CHR 0x8B,
      CHR 0xE6, CHR 0xA0, CHR 0xBC, CHR 0xE5, CHR 0xBC, CHR 0x8F, CHR '':'', CHR '' '']"

definition model_not_found :: "pylib \<Rightarrow> pyval \<Rightarrow> error" where
  "model_not_found lib model_name =
     Raised ValueError (msg_model @ py_str lib model_name @ msg_missing)"

definition composite_not_found :: "pylib \<Rightarrow> pyval \<Rightarrow> error" where
  "composite_not_found lib model_name =
     Raised ValueError (msg_composite @ py_str lib model_name @ msg_missing)"

definition new_manager :: "pylib \<Rightarrow> ModelManager io" where
  "new_manager lib =
     bind (get_all_settings lib) (\<lambda>settings.
     ret \<lparr>mm_config = settings, mm_model_cache = new_cache 5, mm_objects = 0\<rparr>)"

definition get_model_details :: "pylib \<Rightarrow> pyval \<Rightarrow> pyval \<Rightarrow> (pyval \<times> pyval) io" where
  "get_model_details lib model_name declared_type =
     (if declared_type = PStr ''reasoner'' \<or> declared_type = PStr ''general'' then
        bind (get_model_for_name model_name) (\<lambda>model.
          if \<not> truthy model then raise (model_not_found lib model_name)
          else bind (lift (py_get model ''model_type'' PNone)) (\<lambda>t. ret (model, t)))
      else if declared_type = PStr ''composite'' then
        bind (get_composite_model model_name) (\<lambda>model.
          if \<not> truthy model then raise (composite_not_found lib model_name)
          else ret (model, PStr ''composite''))
      else
        bind (get_model_for_name model_name) (\<lambda>model.
          if \<not> truthy model then
            bind (get_composite_model model_name) (\<lambda>model.
              if \<not> truthy model then raise (model_not_found lib model_name)
              else ret (model, PStr ''composite''))
          else bind (lift (py_get model ''model_type'' PNone)) (\<lambda>t. ret (model, t))))"

definition py_subscript :: "pyval \<Rightarrow> string \<Rightarrow> error + pyval" where
  "py_subscript d k =
     (case d of
        PDict kvs \<Rightarrow>
          (case map_of kvs (PStr k) of
             Some v \<Rightarrow> Inr v
           | None \<Rightarrow> Inl (Raised KeyError ([CHR 0x27] @ k @ [CHR 0x27])))
      | _ \<Rightarrow> Inl (Raised TypeError ''object is not subscriptable''))"

text \<open>
  \<open>x.bool()\<close>: no value a setting can hold (\<open>None\<close>, \<open>bool\<close>, \<open>int\<close>, \<open>float\<close>, \<open>str\<close>,
  \<open>list\<close>, \<open>dict\<close>) has an attribute \<open>bool\<close>, so the attribute lookup raises.
\<close>

fun method_bool :: "pyval \<Rightarrow> error + pyval" where
  "method_bool v = Inl (no_attribute ''bool'')"

definition instance_key :: "pylib \<Rightarrow> pyval \<Rightarrow> pyval \<Rightarrow> error + string" where
  "instance_key lib provider_id model_format =
     (case model_format of
        PStr f \<Rightarrow> Inr (py_str lib provider_id @ ''-'' @ f)
      | _ \<Rightarrow> Inl (Raised TypeError ''can only concatenate str to str''))"

definition proxy_argument :: "ModelManager \<Rightarrow> error + pyval" where
  "proxy_argument self =
     (case py_get (mm_config self) ''proxy_open'' PNone of
        Inl e \<Rightarrow> Inl e
      | Inr proxy_open \<Rightarrow>
          (case method_bool proxy_open of
             Inl e \<Rightarrow> Inl e
           | Inr b \<Rightarrow> if truthy b then py_get (mm_config self) ''proxy_address'' PNone
                       else Inr PNone))"

definition client_arguments :: "ModelManager \<Rightarrow> pyval \<Rightarrow> error + (pyval \<times> pyval \<times> pyval)" where
  "client_arguments self provider =
     (case py_subscript provider ''api_key'' of
        Inl e \<Rightarrow> Inl e
      | Inr api_key \<Rightarrow>
          (case py_subscript provider ''api_url'' of
             Inl e \<Rightarrow> Inl e
           | Inr api_url \<Rightarrow>
               (case proxy_argument self of
                  Inl e \<Rightarrow> Inl e
                | Inr proxy \<Rightarrow> Inr (api_key, api_url, proxy))))"

definition construct_and_cache :: "string \<Rightarrow> client \<Rightarrow> client_instance mgr" where
  "construct_and_cache instance_id c =
     (\<lambda>(self, w).
        let inst = (mm_objects self, c);
            self1 = self\<lparr>mm_objects := Suc (mm_objects self)\<rparr>
        in case cache_put instance_id inst (mm_model_cache self1) of
             (Inl e, cache') \<Rightarrow> (Inl e, (self1\<lparr>mm_model_cache := cache'\<rparr>, w))
           | (Inr u, cache') \<Rightarrow> (Inr inst, (self1\<lparr>mm_model_cache := cache'\<rparr>, w)))"

definition create_instance :: "pylib \<Rightarrow> pyval \<Rightarrow> pyval \<Rightarrow> client_instance mgr" where
  "create_instance lib provider_id model_format =
     bind (lift (instance_key lib provider_id model_format)) (\<lambda>instance_id.
     bind (in_store (get_provider_for_id provider_id)) (\<lambda>provider.
     (\<lambda>(self, w).
        (if model_format = PStr ''openai'' then
           bind (lift (client_arguments self provider)) (\<lambda>(api_key, api_url, proxy).
             construct_and_cache instance_id (OpenAICompatibleClient api_key api_url PNone proxy))
         else if model_format = PStr ''anthropic'' then
           bind (lift (client_arguments self provider)) (\<lambda>(api_key, api_url, proxy).
             construct_and_cache instance_id (ClaudeClient api_key api_url model_format proxy))
         else if model_format = PStr ''reasoner'' then
           bind (lift (client_arguments self provider)) (\<lambda>(api_key, api_url, proxy).
             construct_and_cache instance_id (DeepSeekClient api_key api_url proxy))
         else raise (Raised ValueError (msg_bad_format @ py_str lib model_format)))
        (self, w))))"

definition cache_lookup :: "string \<Rightarrow> client_instance option mgr" where
  "cache_lookup instance_id =
     (\<lambda>(self, w). case cache_get instance_id (mm_model_cache self) of
                     (r, cache') \<Rightarrow> (Inr r, (self\<lparr>mm_model_cache := cache'\<rparr>, w)))"

text \<open>
  The four lines that \<open>composite_model\<close> runs for each of its two models: build the key,
  ask the cache, create on a miss.
\<close>

definition resolve_instance :: "pylib \<Rightarrow> pyval \<Rightarrow> pyval \<Rightarrow> client_instance mgr" where
  "resolve_instance lib provider_id model_format =
     bind (lift (instance_key lib provider_id model_format)) (\<lambda>instance_id.
     bind (cache_lookup instance_id) (\<lambda>cached.
       case cached of
         Some inst \<Rightarrow> ret inst
       | None \<Rightarrow> create_instance lib provider_id model_format))"

definition composite_model :: "pylib \<Rightarrow> pyval \<Rightarrow> composite mgr" where
  "composite_model lib model_details =
     bind (lift (py_get model_details ''reasoner_model_id'' PNone)) (\<lambda>reasoner_model_id.
     bind (lift (py_get model_details ''general_model_id'' PNone)) (\<lambda>general_model_id.
     bind (in_store (get_model_for_id reasoner_model_id)) (\<lambda>reasoner_model.
     bind (in_store (get_model_for_id general_model_id)) (\<lambda>general_model.
     bind (lift (py_get reasoner_model ''provider_id'' PNone)) (\<lambda>reasoner_provider_id.
     bind (lift (py_get reasoner_model ''model_format'' PNone)) (\<lambda>reasoner_model_format.
     bind (resolve_instance lib reasoner_provider_id reasoner_model_format) (\<lambda>reasoner_instance.
     bind (lift (py_get general_model ''provider_id'' PNone)) (\<lambda>general_provider_id.
     bind (lift (py_get general_model ''model_format'' PNone)) (\<lambda>general_model_format.
     bind (resolve_instance lib general_provider_id general_model_format) (\<lambda>general_instance.
     bind (lift (py_get reasoner_model ''is_origin_reasoning'' (PBool True))) (\<lambda>origin.
       if reasoner_model_format = PStr ''reasoner'' \<and> general_model_format = PStr ''anthropic''
         then ret (DeepClaude reasoner_instance general_instance origin)
       else if reasoner_model_format = PStr ''reasoner'' \<and> general_model_format = PStr ''openai''
         then ret (OpenAICompatibleComposite reasoner_instance general_instance origin)
       else raise (Raised ValueError
              (msg_bad_pair @ py_str lib reasoner_model_format @ '' + ''
                 @ py_str lib general_model_format)))))))))))))"

subsection \<open>Stores and worlds to run the operations on\<close>

definition store :: "row list \<Rightarrow> row list \<Rightarrow> row list \<Rightarrow> row list \<Rightarrow> database" where
  "store ps ms cs ss =
     [(''providers'', \<lparr>tbl_columns = providers_columns, tbl_rows = ps,
                        tbl_sequence = int (length ps)\<rparr>),
      (''models'', \<lparr>tbl_columns = models_columns, tbl_rows = ms,
                     tbl_sequence = int (length ms)\<rparr>),
      (''composite_models'', \<lparr>tbl_columns = composite_models_columns, tbl_rows = cs,
                               tbl_sequence = int (length cs)\<rparr>),
      (''system_settings'', \<lparr>tbl_columns = system_settings_columns, tbl_rows = ss,
                              tbl_sequence = 0\<rparr>)]"

definition idle_world :: "nat \<Rightarrow> database \<Rightarrow> bool list \<Rightarrow> world" where
  "idle_world n db fs =
     \<lparr>db_pool = new_pool (map Some [0..<n]) 0, committed = db, writer = None, pending = False,
      cursors = (\<lambda>c. []), faults = fs, clock = 0\<rparr>"

definition table_rows :: "database \<Rightarrow> string \<Rightarrow> row list" where
  "table_rows db t = (case map_of db t of Some T \<Rightarrow> tbl_rows T | None \<Rightarrow> [])"

definition provider_row :: "int \<Rightarrow> string \<Rightarrow> string \<Rightarrow> int \<Rightarrow> row" where
  "provider_row i name fmt valid =
     [(''id'', PInt i), (''provider_name'', PStr name), (''api_key'', PStr ''sk-1''),
      (''api_base_url'', PStr ''https://api.example''), (''api_request_address'', PStr ''/v1/chat''),
      (''provider_format'', PStr fmt), (''is_valid'', PInt valid)]"

definition model_row :: "int \<Rightarrow> int \<Rightarrow> string \<Rightarrow> string \<Rightarrow> string \<Rightarrow> int \<Rightarrow> row" where
  "model_row i provider kind name fmt valid =
     [(''id'', PInt i), (''provider_id'', PInt provider), (''model_type'', PStr kind),
      (''model_id'', PStr name), (''model_name'', PStr name), (''model_format'', PStr fmt),
      (''is_valid'', PInt valid), (''is_origin_reasoning'', PInt 0)]"

definition composite_row :: "int \<Rightarrow> string \<Rightarrow> int \<Rightarrow> int \<Rightarrow> int \<Rightarrow> row" where
  "composite_row i name reasoner general valid =
     [(''id'', PInt i), (''model_name'', PStr name), (''reasoner_model_id'', PInt reasoner),
      (''general_model_id'', PInt general), (''is_valid'', PInt valid)]"

definition provider_config :: "string \<Rightarrow> pyval" where
  "provider_config name =
     PDict [(PStr ''provider_name'', PStr name), (PStr ''api_key'', PStr ''sk-2''),
            (PStr ''api_base_url'', PStr ''https://api.example''),
            (PStr ''api_request_address'', PStr ''/v1/chat''),
            (PStr ''provider_format'', PStr ''openai''), (PStr ''is_valid'', PBool True)]"

section \<open>Facts about the combinators and the connection scope\<close>

lemma guarded_cases:
  "guarded d m w = (case m w of (Inl e, w') \<Rightarrow> (Inr d, w') | (Inr x, w') \<Rightarrow> (Inr x, w'))"
  by (simp add: guarded_def try_except_def ret_def split: prod.splits sum.splits)

lemma guarded_returns: "\<exists>x. fst (guarded d m w) = Inr x"
  by (simp add: guarded_cases split: prod.splits sum.splits)

lemma guarded_default: "fst (m w) = Inl e \<Longrightarrow> fst (guarded d m w) = Inr d"
  by (cases "m w") (auto simp: guarded_cases)

lemma guarded_value: "fst (m w) = Inr x \<Longrightarrow> fst (guarded d m w) = Inr x"
  by (cases "m w") (auto simp: guarded_cases)

lemma fst_guarded_Inr:
  "(fst (guarded d m w) = Inr x) = (fst (m w) = Inr x \<or> (\<exists>e. fst (m w) = Inl e) \<and> x = d)"
  by (cases "m w"; cases "fst (m w)") (auto simp: guarded_cases)

lemma fst_bind_Inr:
  "(fst (bind m f w) = Inr y) = (\<exists>x w1. m w = (Inr x, w1) \<and> fst (f x w1) = Inr y)"
  by (cases "m w"; cases "fst (m w)") (auto simp: bind_def)

lemma fst_bind_Inl:
  "(fst (bind m f w) = Inl e) =
     (fst (m w) = Inl e \<or> (\<exists>x w1. m w = (Inr x, w1) \<and> fst (f x w1) = Inl e))"
  by (cases "m w"; cases "fst (m w)") (auto simp: bind_def)

lemma fst_ret [simp]: "fst (ret x w) = Inr x"
  by (simp add: ret_def)

lemma fst_raise [simp]: "fst (raise e w) = Inl e"
  by (simp add: raise_def)

lemma fst_lift [simp]: "fst (lift r w) = r"
  by (simp add: lift_def)

lemma lift_eq: "(lift r w = (Inr x, w1)) = (r = Inr x \<and> w1 = w)"
  by (auto simp: lift_def)

lemma datastore_fault_cases:
  "datastore_fault w = (Inr (), w1) \<Longrightarrow>
     db_pool w1 = db_pool w \<and> committed w1 = committed w \<and> writer w1 = writer w
     \<and> pending w1 = pending w \<and> cursors w1 = cursors w \<and> clock w1 = clock w"
  by (auto simp: datastore_fault_def split: list.splits if_splits)

lemma datastore_fault_raises:
  "fst (datastore_fault w) = Inl e \<Longrightarrow> e = Raised SqliteError ''disk I/O error''"
  by (auto simp: datastore_fault_def split: list.splits if_splits)

lemma conn_commit_raises: "fst (conn_commit c w) = Inl e \<Longrightarrow> is_sqlite_error e"
proof -
  assume a: "fst (conn_commit c w) = Inl e"
  obtain r w1 where d: "datastore_fault w = (r, w1)" by (cases "datastore_fault w")
  show ?thesis
  proof (cases r)
    case (Inl e')
    with a d have "e = e'" by (simp add: conn_commit_def)
    moreover from d Inl have "e' = Raised SqliteError ''disk I/O error''"
      using datastore_fault_raises [of w e'] by simp
    ultimately show ?thesis by (simp add: is_sqlite_error_def)
  next
    case (Inr u)
    with a d show ?thesis by (auto simp: conn_commit_def split: option.splits if_splits)
  qed
qed

lemma conn_rollback_raises: "fst (conn_rollback c w) = Inl e \<Longrightarrow> is_sqlite_error e"
proof -
  assume a: "fst (conn_rollback c w) = Inl e"
  obtain r w1 where d: "datastore_fault w = (r, w1)" by (cases "datastore_fault w")
  show ?thesis
  proof (cases r)
    case (Inl e')
    with a d have "e = e'" by (simp add: conn_rollback_def bind_def)
    moreover from d Inl have "e' = Raised SqliteError ''disk I/O error''"
      using datastore_fault_raises [of w e'] by simp
    ultimately show ?thesis by (simp add: is_sqlite_error_def)
  next
    case (Inr u)
    with a d show ?thesis
      by (auto simp: conn_rollback_def bind_def split: option.splits if_splits)
  qed
qed

lemma try_except_sqlite_ok:
  assumes "\<And>e. fst (m w) = Inl e \<Longrightarrow> is_sqlite_error e"
  shows "\<exists>w1. try_except_sqlite m (\<lambda>e. ret ()) w = (Inr (), w1)"
proof (cases "m w")
  case (Pair r w1)
  show ?thesis
  proof (cases r)
    case (Inl e)
    with Pair assms [of e] show ?thesis by (simp add: try_except_sqlite_def ret_def)
  next
    case (Inr u)
    with Pair show ?thesis by (simp add: try_except_sqlite_def)
  qed
qed

lemma db_exit_ok: "fst (db_exit db failed w) = Inr ()"
proof (cases db)
  case None
  then show ?thesis by (simp add: db_exit_def)
next
  case (Some c)
  let ?w0 = "w\<lparr>cursors := (cursors w)(c := [])\<rparr>"
  let ?m = "if failed then conn_rollback c else conn_commit c"
  have "\<And>e. fst (?m ?w0) = Inl e \<Longrightarrow> is_sqlite_error e"
    using conn_commit_raises conn_rollback_raises by (cases failed) auto
  then obtain w1 where "try_except_sqlite ?m (\<lambda>e. ret ()) ?w0 = (Inr (), w1)"
    using try_except_sqlite_ok [of ?m ?w0] by blast
  then show ?thesis
    using Some by (simp add: db_exit_def bind_def close_cursor_def pool_release_def)
qed

lemma fst_with_db_connection:
  "fst (with_db_connection body w) =
     (case db_enter w of (Inl e, w1) \<Rightarrow> Inl e | (Inr db, w1) \<Rightarrow> fst (body db w1))"
proof (cases "db_enter w")
  case (Pair r w1)
  show ?thesis
  proof (cases r)
    case (Inl e)
    with Pair show ?thesis by (simp add: with_db_connection_def bind_def)
  next
    case (Inr db)
    obtain r2 w2 where b: "body db w1 = (r2, w2)" by (cases "body db w1")
    have x: "\<And>f. \<exists>w3. db_exit db f w2 = (Inr (), w3)"
      using db_exit_ok by (metis prod.collapse)
    from x [of True] obtain wt where t: "db_exit db True w2 = (Inr (), wt)" by blast
    from x [of False] obtain wf where f: "db_exit db False w2 = (Inr (), wf)" by blast
    from Pair Inr b t f show ?thesis
      by (cases r2) (simp_all add: with_db_connection_def bind_def)
  qed
qed

lemma fst_with_db_connection_Inr:
  "(fst (with_db_connection body w) = Inr y) =
     (\<exists>db w1. db_enter w = (Inr db, w1) \<and> fst (body db w1) = Inr y)"
  by (cases "db_enter w"; cases "fst (db_enter w)") (auto simp: fst_with_db_connection)

lemma db_execute_None [simp]: "fst (db_execute None s w) = Inl not_initialised"
  by (simp add: db_execute_def)

lemma db_execute_Inr:
  "db_execute db s w = (Inr u, w2) \<Longrightarrow>
     \<exists>c w1. db = Some c \<and> datastore_fault w = (Inr (), w1) \<and> run_statement c s w1 = (Inr (), w2)"
  by (cases db) (auto simp: db_execute_def raise_def bind_def split: prod.splits sum.splits)

lemma run_statement_select:
  assumes "run_statement c (Select cols t wh) w = (Inr u, w')"
  shows "\<exists>T bw. map_of (view c w) t = Some T \<and> bound_pairs T wh = Inr bw
           \<and> cursors w' c = map (project cols) (filter (matches bw) (tbl_rows T))"
  using assms
  by (auto simp: run_statement_def with_table_def split: option.splits sum.splits if_splits)

lemma db_fetchall_Some:
  "db_fetchall (Some c) w = (Inr (cursors w c), w\<lparr>cursors := (cursors w)(c := [])\<rparr>)"
  by (simp add: db_fetchall_def)

lemma db_fetchone_Some:
  "db_fetchone (Some c) w = (Inr r, w') \<Longrightarrow>
     (case r of None \<Rightarrow> cursors w c = [] | Some x \<Rightarrow> x \<in> set (cursors w c))"
  by (auto simp: db_fetchone_def split: list.splits)

lemma map_of_project: "map_of (project cols r) k = (if k \<in> set cols then Some (cell r k) else None)"
  by (induction cols) (auto simp: project_def)

section \<open>get_all_providers and export_config\<close>

lemma decode_provider_without_api_key:
  "map_of r ''api_key'' = None \<Longrightarrow> \<exists>e. decode_row provider_fields r = Inl e"
  by (simp add: provider_fields_def row_get_def split: option.splits sum.splits)

lemma collect_providers_without_api_key:
  assumes "''api_key'' \<notin> set cols"
  shows "collect_rows provider_fields ''provider_name'' (map (project cols) rows0) [] = Inr result
         \<Longrightarrow> rows0 = [] \<and> result = []"
proof (cases rows0)
  case Nil
  then show "collect_rows provider_fields ''provider_name'' (map (project cols) rows0) [] = Inr result
      \<Longrightarrow> rows0 = [] \<and> result = []" by simp
next
  case (Cons r0 rest)
  have "map_of (project cols r0) ''api_key'' = None"
    using assms by (simp add: map_of_project)
  then obtain e where "decode_row provider_fields (project cols r0) = Inl e"
    using decode_provider_without_api_key by blast
  then show "collect_rows provider_fields ''provider_name'' (map (project cols) rows0) [] = Inr result
      \<Longrightarrow> rows0 = [] \<and> result = []"
    using Cons by simp
qed

lemma get_all_providers_try_result:
  assumes "fst (get_all_providers_try w) = Inr v"
  shows "v = PDict []"
proof -
  let ?cols = "[''id'', ''provider_name'', ''api_base_url'', ''api_request_address'',
                ''provider_format'', ''is_valid'']"
  from assms obtain db w1 u w2 rows w3 result where
    ex: "db_execute db (Select ?cols ''providers'' []) w1 = (Inr u, w2)"
    and fa: "db_fetchall db w2 = (Inr rows, w3)"
    and co: "collect_rows provider_fields ''provider_name'' rows [] = Inr result"
    and v: "v = PDict result"
    by (auto simp: get_all_providers_try_def fst_with_db_connection_Inr fst_bind_Inr lift_eq)
  from db_execute_Inr [OF ex] obtain c w1' where
    c: "db = Some c" and rs: "run_statement c (Select ?cols ''providers'' []) w1' = (Inr (), w2)"
    by auto
  from run_statement_select [OF rs] obtain rows0 where "cursors w2 c = map (project ?cols) rows0"
    by blast
  with fa c have "rows = map (project ?cols) rows0" by (simp add: db_fetchall_Some)
  with co have "result = []"
    using collect_providers_without_api_key [of ?cols rows0 result] by simp
  with v show ?thesis by simp
qed

lemma get_all_providers_empty: "fst (get_all_providers w) = Inr (PDict [])"
proof (cases "fst (get_all_providers_try w)")
  case (Inl e)
  then show ?thesis by (simp add: get_all_providers_def guarded_default)
next
  case (Inr v)
  then have "v = PDict []" by (rule get_all_providers_try_result)
  with Inr show ?thesis by (simp add: get_all_providers_def guarded_value)
qed

text \<open>
  Claim C10.  Whatever the store holds, \<open>get_all_providers\<close> returns the empty
  dictionary: its SELECT leaves out \<open>api_key\<close>, so decoding the first row raises and the
  handler answers \<open>{}\<close>; with no rows the loop does not run and the result is the empty
  dictionary as well.  So the \<open>providers\<close> section of \<open>export_config\<close> is always empty.
\<close>

theorem get_all_providers_always_empty:
  "fst (get_all_providers w) = Inr (PDict [])
   \<and> (\<exists>models composites settings.
         fst (export_config lib w) =
           Inr (PDict [(PStr ''providers'', PDict []), (PStr ''models'', models),
                       (PStr ''composite_models'', composites), (PStr ''system'', settings)]))"
proof
  show "fst (get_all_providers w) = Inr (PDict [])" by (rule get_all_providers_empty)
next
  obtain p w1 where p: "get_all_providers w = (p, w1)" by (cases "get_all_providers w")
  then have p': "p = Inr (PDict [])" using get_all_providers_empty [of w] by simp
  obtain m w2 where m: "get_all_models PNone w1 = (m, w2)" by (cases "get_all_models PNone w1")
  then obtain models where m': "m = Inr models"
    using guarded_returns [of "PDict []" "get_all_models_try PNone" w1]
    by (auto simp: get_all_models_def)
  obtain c w3 where c: "get_all_composite_models w2 = (c, w3)"
    by (cases "get_all_composite_models w2")
  then obtain composites where c': "c = Inr composites"
    using guarded_returns [of "PDict []" get_all_composite_models_try w2]
    by (auto simp: get_all_composite_models_def)
  obtain s w4 where s: "get_all_settings lib w3 = (s, w4)" by (cases "get_all_settings lib w3")
  then obtain settings where s': "s = Inr settings"
    using guarded_returns [of "PDict []" "get_all_settings_try lib" w3]
    by (auto simp: get_all_settings_def)
  have "fst (export_config_try lib w) =
      Inr (PDict [(PStr ''providers'', PDict []), (PStr ''models'', models),
                  (PStr ''composite_models'', composites), (PStr ''system'', settings)])"
    using p p' m m' c c' s s' by (simp add: export_config_try_def bind_def ret_def)
  then have "fst (export_config lib w) =
      Inr (PDict [(PStr ''providers'', PDict []), (PStr ''models'', models),
                  (PStr ''composite_models'', composites), (PStr ''system'', settings)])"
    by (simp add: export_config_def guarded_value)
  then show "\<exists>models composites settings.
         fst (export_config lib w) =
           Inr (PDict [(PStr ''providers'', PDict []), (PStr ''models'', models),
                       (PStr ''composite_models'', composites), (PStr ''system'', settings)])"
    by blast
qed

theorem get_all_providers_always_empty_witness:
  "table_rows (committed (idle_world 5 (store [provider_row 1 ''p'' ''openai'' 1] [] [] []) []))
       ''providers'' \<noteq> []
   \<and> fst (get_all_providers (idle_world 5 (store [provider_row 1 ''p'' ''openai'' 1] [] [] []) []))
       = Inr (PDict [])"
proof
  show "table_rows (committed (idle_world 5 (store [provider_row 1 ''p'' ''openai'' 1] [] [] []) []))
       ''providers'' \<noteq> []"
    by (simp add: table_rows_def idle_world_def store_def)
next
  show "fst (get_all_providers (idle_world 5 (store [provider_row 1 ''p'' ''openai'' 1] [] [] []) []))
       = Inr (PDict [])"
    using get_all_providers_always_empty
      [of "idle_world 5 (store [provider_row 1 ''p'' ''openai'' 1] [] [] []) []"]
    by blast
qed
section \<open>Lookups and validity\<close>

text \<open>
  The databases a connection may read when a call starts: the committed one and, if a
  transaction is open, its uncommitted copy.  \<open>row_dict\<close> is the dictionary that
  \<open>decode_row\<close> builds from a stored row all of whose named columns were selected.
  \<open>declared w t cols\<close>: wherever table \<open>t\<close> exists it has the columns \<open>cols\<close>, as
  \<open>_init_db\<close> creates it.  \<open>stored_match w t wh r\<close>: \<open>r\<close> is a stored row of \<open>t\<close> that the
  condition \<open>wh\<close> selects.

  \<open>served_view w\<close> tells whether the datastore serves the first statement of the next
  call, if that statement is a SELECT: the pool hands out a connection, the statement is
  not scripted to fail, and no other connection holds the lock of a failed commit.  It
  is then the database that the statement reads.
\<close>

definition visible :: "world \<Rightarrow> database list" where
  "visible w = committed w # (case writer w of None \<Rightarrow> [] | Some (c, d) \<Rightarrow> [d])"

definition row_dict :: "(string \<times> conv) list \<Rightarrow> row \<Rightarrow> (pyval \<times> pyval) list" where
  "row_dict fs r =
     map (\<lambda>(k, cv). (PStr k, (case cv of AsBool \<Rightarrow> PBool (truthy (cell r k)) | Plain \<Rightarrow> cell r k))) fs"

definition declared :: "world \<Rightarrow> string \<Rightarrow> column list \<Rightarrow> bool" where
  "declared w t cols \<longleftrightarrow>
     (\<forall>db \<in> set (visible w). case map_of db t of None \<Rightarrow> True | Some T \<Rightarrow> tbl_columns T = cols)"

definition stored_match :: "world \<Rightarrow> string \<Rightarrow> (string \<times> pyval) list \<Rightarrow> row \<Rightarrow> bool" where
  "stored_match w t wh r \<longleftrightarrow>
     (\<exists>db \<in> set (visible w).
        case map_of db t of
          None \<Rightarrow> False
        | Some T \<Rightarrow>
            r \<in> set (tbl_rows T)
            \<and> (case bound_pairs T wh of Inl e \<Rightarrow> False | Inr bw \<Rightarrow> matches bw r))"

definition no_fault_next :: "world \<Rightarrow> bool" where
  "no_fault_next w \<longleftrightarrow> (case faults w of [] \<Rightarrow> True | f # fs \<Rightarrow> \<not> f)"

definition served_view :: "world \<Rightarrow> database option" where
  "served_view w =
     (case fst (db_enter w) of
        Inr (Some c) \<Rightarrow> if no_fault_next w \<and> \<not> locked_out c w then Some (view c w) else None
      | _ \<Rightarrow> None)"

lemma decode_row_project:
  "set (map fst fs) \<subseteq> set cols \<Longrightarrow> decode_row fs (project cols r) = Inr (row_dict fs r)"
proof (induction fs)
  case Nil
  then show ?case by (simp add: row_dict_def)
next
  case (Cons f fs)
  obtain k cv where f: "f = (k, cv)" by (cases f)
  with Cons have "decode_row fs (project cols r) = Inr (row_dict fs r)" and "k \<in> set cols"
    by auto
  then show ?case using f
    by (simp add: row_get_def map_of_project row_dict_def)
qed

lemma db_enter_keeps:
  "db_enter w = (r, w1) \<Longrightarrow>
     committed w1 = committed w \<and> writer w1 = writer w \<and> pending w1 = pending w
     \<and> faults w1 = faults w"
  by (auto simp: db_enter_def split: prod.splits sum.splits option.splits)

lemma view_visible: "view c w \<in> set (visible w)"
  by (auto simp: view_def visible_def split: option.splits)

lemma stored_match_iff:
  "stored_match w t wh r \<longleftrightarrow>
     (\<exists>db T bw. db \<in> set (visible w) \<and> map_of db t = Some T \<and> r \<in> set (tbl_rows T)
        \<and> bound_pairs T wh = Inr bw \<and> matches bw r)"
proof
  assume "stored_match w t wh r"
  then obtain db where db: "db \<in> set (visible w)"
      "case map_of db t of None \<Rightarrow> False
       | Some T \<Rightarrow> r \<in> set (tbl_rows T)
            \<and> (case bound_pairs T wh of Inl e \<Rightarrow> False | Inr bw \<Rightarrow> matches bw r)"
    unfolding stored_match_def by blast
  from db(2) obtain T where T: "map_of db t = Some T" "r \<in> set (tbl_rows T)"
      "case bound_pairs T wh of Inl e \<Rightarrow> False | Inr bw \<Rightarrow> matches bw r"
    by (cases "map_of db t") auto
  from T(3) obtain bw where "bound_pairs T wh = Inr bw" "matches bw r"
    by (cases "bound_pairs T wh") auto
  with db(1) T(1,2) show "\<exists>db T bw. db \<in> set (visible w) \<and> map_of db t = Some T
      \<and> r \<in> set (tbl_rows T) \<and> bound_pairs T wh = Inr bw \<and> matches bw r"
    by blast
next
  assume "\<exists>db T bw. db \<in> set (visible w) \<and> map_of db t = Some T \<and> r \<in> set (tbl_rows T)
        \<and> bound_pairs T wh = Inr bw \<and> matches bw r"
  then obtain db T bw where "db \<in> set (visible w)" "map_of db t = Some T"
      "r \<in> set (tbl_rows T)" "bound_pairs T wh = Inr bw" "matches bw r"
    by blast
  then show "stored_match w t wh r"
    unfolding stored_match_def by (intro bexI [of _ db]) simp_all
qed

lemma select_one_dict:
  assumes "fst (with_db_connection (\<lambda>db. bind (db_execute db (Select cols t wh)) (\<lambda>u.
              bind (db_fetchone db) (\<lambda>row. row_as_dict fs row))) w) = Inr v"
    and sub: "set (map fst fs) \<subseteq> set cols"
  shows "v = PNone \<or> (\<exists>r. stored_match w t wh r \<and> v = PDict (row_dict fs r))"
proof -
  from assms(1) obtain db w1 u w2 row w3 where
    en: "db_enter w = (Inr db, w1)"
    and ex: "db_execute db (Select cols t wh) w1 = (Inr u, w2)"
    and fo: "db_fetchone db w2 = (Inr row, w3)"
    and de: "fst (row_as_dict fs row w3) = Inr v"
    by (auto simp: fst_with_db_connection_Inr fst_bind_Inr)
  from db_execute_Inr [OF ex] obtain c w1' where
    c: "db = Some c" and df: "datastore_fault w1 = (Inr (), w1')"
    and rs: "run_statement c (Select cols t wh) w1' = (Inr (), w2)"
    by auto
  from run_statement_select [OF rs] obtain T bw where
    T: "map_of (view c w1') t = Some T" and bw: "bound_pairs T wh = Inr bw"
    and cu: "cursors w2 c = map (project cols) (filter (matches bw) (tbl_rows T))"
    by blast
  have vis: "visible w1' = visible w"
    using db_enter_keeps [OF en] datastore_fault_cases [OF df] by (simp add: visible_def)
  show ?thesis
  proof (cases row)
    case None
    then show ?thesis using de by (simp add: row_as_dict_def)
  next
    case (Some x)
    with db_fetchone_Some [of c w2 row w3] fo c have "x \<in> set (cursors w2 c)" by simp
    with cu obtain r where r: "r \<in> set (tbl_rows T)" "matches bw r" "x = project cols r"
      by auto
    have "decode_row fs x = Inr (row_dict fs r)" using r(3) sub by (simp add: decode_row_project)
    with de Some have v: "v = PDict (row_dict fs r)" by (simp add: row_as_dict_def)
    have "view c w1' \<in> set (visible w)" using view_visible [of c w1'] vis by simp
    then have "stored_match w t wh r"
      unfolding stored_match_iff using T bw r(1,2) by blast
    with v show ?thesis by blast
  qed
qed

lemma bind_params_keeps:
  "bind_params (map snd wh) = Inr vs \<Longrightarrow> (k, PInt 1) \<in> set wh
     \<Longrightarrow> (k, PInt 1) \<in> set (zip (map fst wh) vs)"
proof (induction wh arbitrary: vs)
  case Nil
  then show ?case by simp
next
  case (Cons p wh)
  obtain k' x where p: "p = (k', x)" by (cases p)
  from Cons.prems(1) p obtain b bs where b: "bind_param x = Inr b"
      "bind_params (map snd wh) = Inr bs" "vs = b # bs"
    by (auto split: sum.splits)
  show ?case
  proof (cases "p = (k, PInt 1)")
    case True
    then show ?thesis using p b by (auto simp: in_int64_def)
  next
    case False
    then have "(k, PInt 1) \<in> set (zip (map fst wh) bs)"
      using Cons.IH [OF b(2)] Cons.prems(2) by simp
    then show ?thesis using p b by simp
  qed
qed

lemma matches_is_valid:
  assumes "bound_pairs T wh = Inr bw" "matches bw r" "(''is_valid'', PInt 1) \<in> set wh"
    and "column_type T ''is_valid'' = Some IntegerType"
  shows "cell r ''is_valid'' = PInt 1"
proof -
  from assms(1) obtain vs where vs: "bind_params (map snd wh) = Inr vs"
      "bw = coerce T (zip (map fst wh) vs)"
    by (auto simp: bound_pairs_def split: sum.splits)
  have "(''is_valid'', PInt 1) \<in> set (zip (map fst wh) vs)"
    using vs(1) assms(3) by (rule bind_params_keeps)
  then have "(''is_valid'', PInt 1) \<in> set bw"
    using vs(2) assms(4) by (force simp: coerce_def)
  with assms(2) show ?thesis by (auto simp: matches_def sql_eq_def)
qed

lemma valid_lookup:
  assumes "fst (with_db_connection (\<lambda>db. bind (db_execute db (Select cols t wh)) (\<lambda>u.
              bind (db_fetchone db) (\<lambda>row. row_as_dict fs row))) w) = Inr v"
    and "set (map fst fs) \<subseteq> set cols" and "(''is_valid'', PInt 1) \<in> set wh"
    and "map_of (map (\<lambda>col. (col_name col, col_type col)) tc) ''is_valid'' = Some IntegerType"
  shows "v = PNone \<or> (\<exists>r. stored_match w t wh r
                            \<and> (declared w t tc \<longrightarrow> cell r ''is_valid'' = PInt 1)
                            \<and> v = PDict (row_dict fs r))"
proof -
  from select_one_dict [OF assms(1,2)]
  show ?thesis
  proof
    assume "v = PNone" then show ?thesis by simp
  next
    assume "\<exists>r. stored_match w t wh r \<and> v = PDict (row_dict fs r)"
    then obtain r where r: "stored_match w t wh r" "v = PDict (row_dict fs r)" by blast
    then obtain db T bw where d: "db \<in> set (visible w)" "map_of db t = Some T"
        "bound_pairs T wh = Inr bw" "matches bw r"
      unfolding stored_match_iff by blast
    have "declared w t tc \<longrightarrow> cell r ''is_valid'' = PInt 1"
    proof
      assume "declared w t tc"
      with d(1,2) have "tbl_columns T = tc" by (auto simp: declared_def)
      with assms(4) have "column_type T ''is_valid'' = Some IntegerType"
        by (simp add: column_type_def)
      with d(3,4) assms(3) show "cell r ''is_valid'' = PInt 1" by (rule matches_is_valid)
    qed
    with r show ?thesis by blast
  qed
qed

lemma models_is_valid_type:
  "map_of (map (\<lambda>col. (col_name col, col_type col)) models_columns) ''is_valid'' = Some IntegerType"
  by (simp add: models_columns_def col_def id_col_def ref_col_def)

lemma composite_is_valid_type:
  "map_of (map (\<lambda>col. (col_name col, col_type col)) composite_models_columns) ''is_valid''
     = Some IntegerType"
  by (simp add: composite_models_columns_def col_def id_col_def ref_col_def)

text \<open>
  The three lookups that select on \<open>is_valid = 1\<close>, \<open>get_model_for_name\<close>,
  \<open>get_model_for_id\<close> and \<open>get_composite_model\<close>, return either \<open>None\<close> or the dictionary of
  a stored row that matches the argument and has \<open>is_valid = 1\<close>; a record stored with
  \<open>is_valid = 0\<close> is never returned by them.
\<close>

lemma lookups_return_valid_records:
  assumes "declared w ''models'' models_columns"
    and "declared w ''composite_models'' composite_models_columns"
  shows
  "(\<forall>v. fst (get_model_for_name name w) = Inr v \<longrightarrow>
        v = PNone \<or>
        (\<exists>r. stored_match w ''models'' [(''is_valid'', PInt 1), (''model_name'', name)] r
              \<and> cell r ''is_valid'' = PInt 1 \<and> v = PDict (row_dict model_fields_single r)))
   \<and> (\<forall>v. fst (get_model_for_id ident w) = Inr v \<longrightarrow>
        v = PNone \<or>
        (\<exists>r. stored_match w ''models'' [(''is_valid'', PInt 1), (''id'', ident)] r
              \<and> cell r ''is_valid'' = PInt 1 \<and> v = PDict (row_dict model_fields_single r)))
   \<and> (\<forall>v. fst (get_composite_model name w) = Inr v \<longrightarrow>
        v = PNone \<or>
        (\<exists>r. stored_match w ''composite_models'' [(''model_name'', name), (''is_valid'', PInt 1)] r
              \<and> cell r ''is_valid'' = PInt 1 \<and> v = PDict (row_dict composite_fields r)))"
proof (intro conjI allI impI)
  fix v assume "fst (get_model_for_name name w) = Inr v"
  then have "fst (get_model_for_name_try name w) = Inr v \<or> v = PNone"
    by (auto simp: get_model_for_name_def fst_guarded_Inr)
  then show "v = PNone \<or>
        (\<exists>r. stored_match w ''models'' [(''is_valid'', PInt 1), (''model_name'', name)] r
              \<and> cell r ''is_valid'' = PInt 1 \<and> v = PDict (row_dict model_fields_single r))"
  proof
    assume a: "fst (get_model_for_name_try name w) = Inr v"
    have "v = PNone \<or>
        (\<exists>r. stored_match w ''models'' [(''is_valid'', PInt 1), (''model_name'', name)] r
              \<and> (declared w ''models'' models_columns \<longrightarrow> cell r ''is_valid'' = PInt 1)
              \<and> v = PDict (row_dict model_fields_single r))"
      using a unfolding get_model_for_name_try_def
      by (rule valid_lookup [OF _ _ _ models_is_valid_type]) (simp_all add: model_fields_single_def)
    with assms(1) show ?thesis by blast
  qed simp
next
  fix v assume "fst (get_model_for_id ident w) = Inr v"
  then have "fst (get_model_for_id_try ident w) = Inr v \<or> v = PNone"
    by (auto simp: get_model_for_id_def fst_guarded_Inr)
  then show "v = PNone \<or>
        (\<exists>r. stored_match w ''models'' [(''is_valid'', PInt 1), (''id'', ident)] r
              \<and> cell r ''is_valid'' = PInt 1 \<and> v = PDict (row_dict model_fields_single r))"
  proof
    assume a: "fst (get_model_for_id_try ident w) = Inr v"
    have "v = PNone \<or>
        (\<exists>r. stored_match w ''models'' [(''is_valid'', PInt 1), (''id'', ident)] r
              \<and> (declared w ''models'' models_columns \<longrightarrow> cell r ''is_valid'' = PInt 1)
              \<and> v = PDict (row_dict model_fields_single r))"
      using a unfolding get_model_for_id_try_def
      by (rule valid_lookup [OF _ _ _ models_is_valid_type]) (simp_all add: model_fields_single_def)
    with assms(1) show ?thesis by blast
  qed simp
next
  fix v assume "fst (get_composite_model name w) = Inr v"
  then have "fst (get_composite_model_try name w) = Inr v \<or> v = PNone"
    by (auto simp: get_composite_model_def fst_guarded_Inr)
  then show "v = PNone \<or>
        (\<exists>r. stored_match w ''composite_models'' [(''model_name'', name), (''is_valid'', PInt 1)] r
              \<and> cell r ''is_valid'' = PInt 1 \<and> v = PDict (row_dict composite_fields r))"
  proof
    assume a: "fst (get_composite_model_try name w) = Inr v"
    have "v = PNone \<or>
        (\<exists>r. stored_match w ''composite_models'' [(''model_name'', name), (''is_valid'', PInt 1)] r
              \<and> (declared w ''composite_models'' composite_models_columns \<longrightarrow> cell r ''is_valid'' = PInt 1)
              \<and> v = PDict (row_dict composite_fields r))"
      using a unfolding get_composite_model_try_def
      by (rule valid_lookup [OF _ _ _ composite_is_valid_type]) (simp_all add: composite_fields_def)
    with assms(2) show ?thesis by blast
  qed simp
qed

text \<open>
  What a lookup by SELECT and \<open>fetchone\<close> returns when the datastore serves it: the
  dictionary of the first stored row that the condition selects, or \<open>None\<close> if there is
  none.  When the datastore does not serve it, the \<open>try\<close> block raises.
\<close>

lemma find_filter: "find P xs = (case filter P xs of [] \<Rightarrow> None | x # rest \<Rightarrow> Some x)"
  by (induction xs) auto

lemma db_enter_Some:
  "fst (db_enter w) = Inr (Some c) \<Longrightarrow>
     \<exists>p. db_enter w = (Inr (Some c), w\<lparr>db_pool := p, cursors := (cursors w)(c := [])\<rparr>)"
  by (auto simp: db_enter_def split: prod.splits sum.splits option.splits)

lemma datastore_fault_quiet:
  "no_fault_next w \<Longrightarrow> datastore_fault w = (Inr (), w\<lparr>faults := tl (faults w)\<rparr>)"
  by (cases w) (auto simp: no_fault_next_def datastore_fault_def split: list.splits)

lemma view_same: "committed w1 = committed w \<Longrightarrow> writer w1 = writer w \<Longrightarrow> view c w1 = view c w"
  by (simp add: view_def split: option.splits)

lemma locked_out_same:
  "writer w1 = writer w \<Longrightarrow> pending w1 = pending w \<Longrightarrow> locked_out c w1 = locked_out c w"
  by (simp add: locked_out_def split: option.splits)

lemma select_runs:
  assumes "\<not> locked_out c w" "map_of (view c w) t = Some T"
    and "set (cols @ map fst wh) \<subseteq> set (column_names T)" "bound_pairs T wh = Inr bw"
  shows "run_statement c (Select cols t wh) w =
     (Inr (), w\<lparr>cursors := (cursors w)(c := map (project cols) (filter (matches bw) (tbl_rows T)))\<rparr>)"
  using assms by (simp add: run_statement_def with_table_def)

lemma select_first:
  assumes sv: "served_view w = Some db" and T: "map_of db t = Some T"
    and cols: "set (cols @ map fst wh) \<subseteq> set (column_names T)"
    and bw: "bound_pairs T wh = Inr bw"
    and sub: "set (map fst fs) \<subseteq> set cols"
  shows "fst (with_db_connection (\<lambda>db. bind (db_execute db (Select cols t wh)) (\<lambda>u.
              bind (db_fetchone db) (\<lambda>row. row_as_dict fs row))) w)
         = Inr (case find (matches bw) (tbl_rows T) of
                  None \<Rightarrow> PNone
                | Some r \<Rightarrow> PDict (row_dict fs r))"
proof -
  from sv obtain c where c: "fst (db_enter w) = Inr (Some c)" and q: "no_fault_next w"
    and l: "\<not> locked_out c w" and db: "db = view c w"
    by (auto simp: served_view_def split: sum.splits option.splits if_splits)
  from db_enter_Some [OF c] obtain p where
    en: "db_enter w = (Inr (Some c), w\<lparr>db_pool := p, cursors := (cursors w)(c := [])\<rparr>)"
    by blast
  let ?w1 = "w\<lparr>db_pool := p, cursors := (cursors w)(c := [])\<rparr>"
  let ?w2 = "?w1\<lparr>faults := tl (faults ?w1)\<rparr>"
  let ?rows = "map (project cols) (filter (matches bw) (tbl_rows T))"
  let ?w3 = "?w2\<lparr>cursors := (cursors ?w2)(c := ?rows)\<rparr>"
  have "no_fault_next ?w1" using q by (simp add: no_fault_next_def)
  then have df: "datastore_fault ?w1 = (Inr (), ?w2)" by (rule datastore_fault_quiet)
  have l2: "\<not> locked_out c ?w2" using l locked_out_same [of ?w2 w c] by simp
  have v2: "map_of (view c ?w2) t = Some T" using T db view_same [of ?w2 w c] by simp
  have rs: "run_statement c (Select cols t wh) ?w2 = (Inr (), ?w3)"
    using select_runs [OF l2 v2 cols bw] by simp
  have ex: "db_execute (Some c) (Select cols t wh) ?w1 = (Inr (), ?w3)"
    using df rs by (simp add: db_execute_def bind_def)
  have cu: "cursors ?w3 c = ?rows" by simp
  have "fst (bind (db_fetchone (Some c)) (\<lambda>row. row_as_dict fs row) ?w3)
         = Inr (case find (matches bw) (tbl_rows T) of
                  None \<Rightarrow> PNone
                | Some r \<Rightarrow> PDict (row_dict fs r))"
  proof (cases "filter (matches bw) (tbl_rows T)")
    case Nil
    then have "find (matches bw) (tbl_rows T) = None" by (simp add: find_filter)
    moreover have "cursors ?w3 c = []" using Nil by simp
    ultimately show ?thesis
      by (simp add: db_fetchone_def bind_def row_as_dict_def ret_def)
  next
    case (Cons r rest)
    then have f: "find (matches bw) (tbl_rows T) = Some r" by (simp add: find_filter)
    have "cursors ?w3 c = project cols r # map (project cols) rest" using Cons by simp
    then show ?thesis
      using f sub
      by (simp add: db_fetchone_def bind_def row_as_dict_def ret_def decode_row_project)
  qed
  then show ?thesis
    using en ex by (simp add: fst_with_db_connection bind_def)
qed

lemma select_unserved:
  assumes "served_view w = None"
  shows "\<exists>e. fst (with_db_connection (\<lambda>db. bind (db_execute db (Select cols t wh)) (k db)) w)
              = Inl e"
proof (cases "db_enter w")
  case (Pair r w1)
  show ?thesis
  proof (cases r)
    case (Inl e)
    then show ?thesis using Pair by (simp add: fst_with_db_connection)
  next
    case (Inr h)
    show ?thesis
    proof (cases h)
      case None
      then show ?thesis
        using Pair Inr by (auto simp: fst_with_db_connection fst_bind_Inl)
    next
      case (Some c)
      have c: "fst (db_enter w) = Inr (Some c)" using Pair Inr Some by simp
      from db_enter_Some [OF c] Pair obtain p where
        w1: "w1 = w\<lparr>db_pool := p, cursors := (cursors w)(c := [])\<rparr>" by auto
      from assms c have bad: "\<not> no_fault_next w \<or> locked_out c w"
        by (auto simp: served_view_def split: if_splits)
      have "\<exists>e. fst (db_execute (Some c) (Select cols t wh) w1) = Inl e"
      proof (cases "no_fault_next w")
        case False
        then obtain fs where "faults w = True # fs"
          by (cases "faults w") (auto simp: no_fault_next_def)
        then show ?thesis
          using w1 by (simp add: db_execute_def bind_def datastore_fault_def)
      next
        case True
        with bad have l: "locked_out c w" by simp
        from True have "no_fault_next w1" using w1 by (simp add: no_fault_next_def)
        then have df: "datastore_fault w1 = (Inr (), w1\<lparr>faults := tl (faults w1)\<rparr>)"
          by (rule datastore_fault_quiet)
        have "locked_out c (w1\<lparr>faults := tl (faults w1)\<rparr>)"
          using l w1 locked_out_same [of "w1\<lparr>faults := tl (faults w1)\<rparr>" w c] by simp
        then show ?thesis
          using df by (simp add: db_execute_def bind_def run_statement_def)
      qed
      then show ?thesis
        using Pair Inr Some by (auto simp: fst_with_db_connection fst_bind_Inl)
    qed
  qed
qed

text \<open>
  Claim C6.  The claim is that the lookups by name or by id for Provider, Model and
  CompositeModel do not return a record stored with \<open>is_valid = 0\<close>.  The SELECTs of
  \<open>get_model_for_name\<close>, \<open>get_model_for_id\<close> and \<open>get_composite_model\<close> carry the condition
  \<open>is_valid = 1\<close>; those of \<open>get_provider_for_id\<close> and \<open>get_provider_for_name\<close> do not.  In
  a store that holds one provider, one model and one composite model, each with
  \<open>is_valid = 0\<close>, the two provider lookups return the provider, with
  \<open>is_valid: False\<close> in its dictionary, while the model and composite lookups return
  \<open>None\<close>.
\<close>

theorem provider_lookup_returns_invalid:
  "cell (provider_row 1 ''p'' ''openai'' 0) ''is_valid'' = PInt 0
   \<and> fst (get_provider_for_id (PInt 1)
            (idle_world 5 (store [provider_row 1 ''p'' ''openai'' 0]
               [model_row 1 1 ''general'' ''m0'' ''openai'' 0]
               [composite_row 1 ''c0'' 1 1 0] []) []))
       = Inr (PDict (row_dict provider_fields (provider_row 1 ''p'' ''openai'' 0)))
   \<and> fst (get_provider_for_name (PStr ''p'')
            (idle_world 5 (store [provider_row 1 ''p'' ''openai'' 0]
               [model_row 1 1 ''general'' ''m0'' ''openai'' 0]
               [composite_row 1 ''c0'' 1 1 0] []) []))
       = Inr (PDict (row_dict provider_fields (provider_row 1 ''p'' ''openai'' 0)))
   \<and> dget (row_dict provider_fields (provider_row 1 ''p'' ''openai'' 0)) ''is_valid'' PNone
       = PBool False
   \<and> fst (get_model_for_name (PStr ''m0'')
            (idle_world 5 (store [provider_row 1 ''p'' ''openai'' 0]
               [model_row 1 1 ''general'' ''m0'' ''openai'' 0]
               [composite_row 1 ''c0'' 1 1 0] []) []))
       = Inr PNone
   \<and> fst (get_model_for_id (PInt 1)
            (idle_world 5 (store [provider_row 1 ''p'' ''openai'' 0]
               [model_row 1 1 ''general'' ''m0'' ''openai'' 0]
               [composite_row 1 ''c0'' 1 1 0] []) []))
       = Inr PNone
   \<and> fst (get_composite_model (PStr ''c0'')
            (idle_world 5 (store [provider_row 1 ''p'' ''openai'' 0]
               [model_row 1 1 ''general'' ''m0'' ''openai'' 0]
               [composite_row 1 ''c0'' 1 1 0] []) []))
       = Inr PNone"
  by code_simp

section \<open>Resolution of a model name\<close>

text \<open>
  A library for concrete runs that touch neither floats nor JSON: each of its functions
  raises or returns the empty text.
\<close>

definition no_lib :: pylib where
  "no_lib =
     \<lparr>float_str = (\<lambda>f. []),
      float_of_str = (\<lambda>s. Inl (Raised ValueError ''could not convert string to float'')),
      float_of_int = (\<lambda>i. Inl (Raised ValueError ''int too large to convert to float'')),
      int_of_float = (\<lambda>f. Inl (Raised ValueError ''cannot convert float to integer'')),
      container_repr = (\<lambda>v. []),
      json_dumps = (\<lambda>v. Inl (Raised TypeError ''Object is not JSON serializable'')),
      json_loads = (\<lambda>s. Inl (Raised ValueError ''Expecting value''))\<rparr>"

lemma get_model_for_name_returns: "\<exists>m. fst (get_model_for_name name w) = Inr m"
  unfolding get_model_for_name_def by (rule guarded_returns)

lemma get_composite_model_returns: "\<exists>m. fst (get_composite_model name w) = Inr m"
  unfolding get_composite_model_def by (rule guarded_returns)

definition dual_store :: "int \<Rightarrow> database" where
  "dual_store valid =
     store [provider_row 1 ''p'' ''openai'' 1]
       [model_row 1 1 ''general'' ''dual'' ''openai'' valid,
        model_row 2 1 ''reasoner'' ''r1'' ''reasoner'' 1]
       [composite_row 1 ''dual'' 2 1 1] []"

lemma get_model_for_name_shape:
  assumes "fst (get_model_for_name name w) = Inr m" "truthy m"
  shows "\<exists>r. m = PDict (row_dict model_fields_single r)
             \<and> (declared w ''models'' models_columns \<longrightarrow> cell r ''is_valid'' = PInt 1)
             \<and> py_get m ''model_type'' PNone = Inr (cell r ''model_type'')"
proof -
  from assms(1) have "fst (get_model_for_name_try name w) = Inr m \<or> m = PNone"
    by (auto simp: get_model_for_name_def fst_guarded_Inr)
  with assms(2) have "fst (get_model_for_name_try name w) = Inr m" by auto
  then have "m = PNone \<or>
      (\<exists>r. stored_match w ''models'' [(''is_valid'', PInt 1), (''model_name'', name)] r
            \<and> (declared w ''models'' models_columns \<longrightarrow> cell r ''is_valid'' = PInt 1)
            \<and> m = PDict (row_dict model_fields_single r))"
    unfolding get_model_for_name_try_def
    by (rule valid_lookup [OF _ _ _ models_is_valid_type])
       (simp_all add: model_fields_single_def)
  with assms(2) obtain r where r: "m = PDict (row_dict model_fields_single r)"
      "declared w ''models'' models_columns \<longrightarrow> cell r ''is_valid'' = PInt 1" by auto
  have "py_get m ''model_type'' PNone = Inr (cell r ''model_type'')"
    using r(1) by (simp add: py_get_def dget_def row_dict_def model_fields_single_def)
  with r show ?thesis by blast
qed

lemma matches_valid_name:
  "matches [(''is_valid'', PInt 1), (''model_name'', PStr n)]
     = (\<lambda>r. cell r ''is_valid'' = PInt 1 \<and> cell r ''model_name'' = PStr n)"
  by (rule ext) (auto simp: matches_def sql_eq_def)

lemma get_model_for_name_served:
  assumes "served_view w = Some db" "map_of db ''models'' = Some T"
    and "tbl_columns T = models_columns"
  shows "fst (get_model_for_name (PStr n) w) =
     Inr (case find (\<lambda>r. cell r ''is_valid'' = PInt 1 \<and> cell r ''model_name'' = PStr n)
                 (tbl_rows T) of
            None \<Rightarrow> PNone
          | Some r \<Rightarrow> PDict (row_dict model_fields_single r))"
proof -
  have bw: "bound_pairs T [(''is_valid'', PInt 1), (''model_name'', PStr n)]
      = Inr [(''is_valid'', PInt 1), (''model_name'', PStr n)]"
    using assms(3)
    by (simp add: bound_pairs_def coerce_def column_type_def models_columns_def col_def
        id_col_def ref_col_def in_int64_def)
  have "fst (get_model_for_name_try (PStr n) w) =
     Inr (case find (matches [(''is_valid'', PInt 1), (''model_name'', PStr n)]) (tbl_rows T) of
            None \<Rightarrow> PNone
          | Some r \<Rightarrow> PDict (row_dict model_fields_single r))"
    unfolding get_model_for_name_try_def
    by (rule select_first [OF assms(1,2) _ bw])
       (simp_all add: column_names_def assms(3) models_columns_def col_def id_col_def
          ref_col_def model_fields_single_def)
  then show ?thesis
    by (simp add: get_model_for_name_def guarded_value matches_valid_name)
qed

lemma get_model_for_name_unserved:
  "served_view w = None \<Longrightarrow> fst (get_model_for_name name w) = Inr PNone"
proof -
  assume "served_view w = None"
  then have "\<exists>e. fst (get_model_for_name_try name w) = Inl e"
    unfolding get_model_for_name_try_def by (rule select_unserved)
  then show ?thesis by (auto simp: get_model_for_name_def guarded_default)
qed

text \<open>
  Claim C7, as amended.  For a declared type that is none of \<open>reasoner\<close>, \<open>general\<close>,
  \<open>composite\<close> (the empty one in particular), \<open>get_model_details\<close> first looks the name
  up as a single model.  If that lookup returns a record, the result is that record with
  its own \<open>model_type\<close>, whatever the composite table holds.  Only if it returns nothing
  is the composite lookup made, in the state the first lookup left; a record there is
  returned with type \<open>composite\<close>, and a second miss raises the not-found ValueError.

  The first lookup is decided by the store.  When the datastore serves it, on a
  \<open>models\<close> table with the declared columns, it returns the first stored row of that
  name with \<open>is_valid = 1\<close>, so the name resolves to that single-model record; if no
  stored row of that name has \<open>is_valid = 1\<close> it returns nothing.  When the datastore
  does not serve it, it returns nothing as well.
\<close>

theorem model_then_composite:
  assumes "declared_type \<noteq> PStr ''reasoner''" "declared_type \<noteq> PStr ''general''"
    and "declared_type \<noteq> PStr ''composite''"
  shows
    "(\<forall>m. fst (get_model_for_name name w) = Inr m \<and> truthy m \<longrightarrow>
         (\<exists>r. m = PDict (row_dict model_fields_single r)
               \<and> (declared w ''models'' models_columns \<longrightarrow> cell r ''is_valid'' = PInt 1)
               \<and> fst (get_model_details lib name declared_type w)
                   = Inr (m, cell r ''model_type'')))
     \<and> (\<forall>m c. fst (get_model_for_name name w) = Inr m \<and> \<not> truthy m
            \<and> fst (get_composite_model name (snd (get_model_for_name name w))) = Inr c
            \<and> truthy c \<longrightarrow>
          fst (get_model_details lib name declared_type w) = Inr (c, PStr ''composite''))
     \<and> (\<forall>m c. fst (get_model_for_name name w) = Inr m \<and> \<not> truthy m
            \<and> fst (get_composite_model name (snd (get_model_for_name name w))) = Inr c
            \<and> \<not> truthy c \<longrightarrow>
          fst (get_model_details lib name declared_type w) = Inl (model_not_found lib name))
     \<and> (\<forall>db T r. served_view w = Some db \<and> map_of db ''models'' = Some T
            \<and> tbl_columns T = models_columns
            \<and> find (\<lambda>r. cell r ''is_valid'' = PInt 1 \<and> cell r ''model_name'' = PStr n)
                 (tbl_rows T) = Some r \<longrightarrow>
          fst (get_model_details lib (PStr n) declared_type w)
            = Inr (PDict (row_dict model_fields_single r), cell r ''model_type''))
     \<and> (\<forall>db T. served_view w = Some db \<and> map_of db ''models'' = Some T
            \<and> tbl_columns T = models_columns
            \<and> find (\<lambda>r. cell r ''is_valid'' = PInt 1 \<and> cell r ''model_name'' = PStr n)
                 (tbl_rows T) = None \<longrightarrow>
          fst (get_model_for_name (PStr n) w) = Inr PNone)
     \<and> (served_view w = None \<longrightarrow> fst (get_model_for_name name w) = Inr PNone)"
proof (intro conjI allI impI)
  fix m assume h: "fst (get_model_for_name name w) = Inr m \<and> truthy m"
  then obtain r where r: "m = PDict (row_dict model_fields_single r)"
      "declared w ''models'' models_columns \<longrightarrow> cell r ''is_valid'' = PInt 1"
      "py_get m ''model_type'' PNone = Inr (cell r ''model_type'')"
    using get_model_for_name_shape [of name w m] by blast
  obtain w1 where w1: "get_model_for_name name w = (Inr m, w1)"
    using h by (cases "get_model_for_name name w") auto
  have "fst (get_model_details lib name declared_type w) = Inr (m, cell r ''model_type'')"
    using assms w1 h r(3) by (simp add: get_model_details_def bind_def lift_def ret_def)
  with r show "\<exists>r. m = PDict (row_dict model_fields_single r)
               \<and> (declared w ''models'' models_columns \<longrightarrow> cell r ''is_valid'' = PInt 1)
               \<and> fst (get_model_details lib name declared_type w)
                   = Inr (m, cell r ''model_type'')"
    by blast
next
  fix m c assume h: "fst (get_model_for_name name w) = Inr m \<and> \<not> truthy m
            \<and> fst (get_composite_model name (snd (get_model_for_name name w))) = Inr c
            \<and> truthy c"
  obtain w1 where w1: "get_model_for_name name w = (Inr m, w1)"
    using h by (cases "get_model_for_name name w") auto
  obtain w2 where w2: "get_composite_model name w1 = (Inr c, w2)"
    using h w1 by (cases "get_composite_model name w1") auto
  show "fst (get_model_details lib name declared_type w) = Inr (c, PStr ''composite'')"
    using assms w1 w2 h by (simp add: get_model_details_def bind_def ret_def)
next
  fix m c assume h: "fst (get_model_for_name name w) = Inr m \<and> \<not> truthy m
            \<and> fst (get_composite_model name (snd (get_model_for_name name w))) = Inr c
            \<and> \<not> truthy c"
  obtain w1 where w1: "get_model_for_name name w = (Inr m, w1)"
    using h by (cases "get_model_for_name name w") auto
  obtain w2 where w2: "get_composite_model name w1 = (Inr c, w2)"
    using h w1 by (cases "get_composite_model name w1") auto
  show "fst (get_model_details lib name declared_type w) = Inl (model_not_found lib name)"
    using assms w1 w2 h by (simp add: get_model_details_def bind_def raise_def)
next
  fix db T r
  assume h: "served_view w = Some db \<and> map_of db ''models'' = Some T
            \<and> tbl_columns T = models_columns
            \<and> find (\<lambda>r. cell r ''is_valid'' = PInt 1 \<and> cell r ''model_name'' = PStr n)
                 (tbl_rows T) = Some r"
  let ?m = "PDict (row_dict model_fields_single r)"
  from h have "fst (get_model_for_name (PStr n) w) = Inr ?m"
    using get_model_for_name_served [of w db T n] by simp
  then obtain w1 where w1: "get_model_for_name (PStr n) w = (Inr ?m, w1)"
    by (cases "get_model_for_name (PStr n) w") auto
  have t: "truthy ?m" by (simp add: row_dict_def model_fields_single_def)
  have p: "py_get ?m ''model_type'' PNone = Inr (cell r ''model_type'')"
    by (simp add: py_get_def dget_def row_dict_def model_fields_single_def)
  show "fst (get_model_details lib (PStr n) declared_type w) = Inr (?m, cell r ''model_type'')"
    using assms w1 t p by (simp add: get_model_details_def bind_def lift_def ret_def)
next
  fix db T
  assume h: "served_view w = Some db \<and> map_of db ''models'' = Some T
            \<and> tbl_columns T = models_columns
            \<and> find (\<lambda>r. cell r ''is_valid'' = PInt 1 \<and> cell r ''model_name'' = PStr n)
                 (tbl_rows T) = None"
  then show "fst (get_model_for_name (PStr n) w) = Inr PNone"
    using get_model_for_name_served [of w db T n] by simp
next
  assume "served_view w = None"
  then show "fst (get_model_for_name name w) = Inr PNone"
    by (rule get_model_for_name_unserved)
qed

theorem model_then_composite_witness:
  "PStr [] \<noteq> PStr ''reasoner'' \<and> PStr [] \<noteq> PStr ''general'' \<and> PStr [] \<noteq> PStr ''composite''
   \<and> served_view (idle_world 5 (dual_store 1) []) = Some (dual_store 1)
   \<and> fst (get_model_details no_lib (PStr ''dual'') (PStr []) (idle_world 5 (dual_store 1) []))
       = Inr (PDict (row_dict model_fields_single (model_row 1 1 ''general'' ''dual'' ''openai'' 1)),
              PStr ''general'')
   \<and> served_view (idle_world 5 (dual_store 1) [True]) = None
   \<and> fst (get_model_details no_lib (PStr ''dual'') (PStr []) (idle_world 5 (dual_store 1) [True]))
       = Inr (PDict (row_dict composite_fields (composite_row 1 ''dual'' 2 1 1)), PStr ''composite'')
   \<and> fst (get_model_details no_lib (PStr ''absent'') (PStr []) (idle_world 5 (dual_store 1) []))
       = Inl (model_not_found no_lib (PStr ''absent''))"
proof -
  let ?w = "idle_world 5 (dual_store 1) []"
  let ?u = "idle_world 5 (dual_store 1) [True]"
  let ?r = "model_row 1 1 ''general'' ''dual'' ''openai'' 1"
  let ?T = "\<lparr>tbl_columns = models_columns,
             tbl_rows = [?r, model_row 2 1 ''reasoner'' ''r1'' ''reasoner'' 1],
             tbl_sequence = 2\<rparr>"
  let ?c = "PDict (row_dict composite_fields (composite_row 1 ''dual'' 2 1 1))"
  have n: "PStr [] \<noteq> PStr ''reasoner''" "PStr [] \<noteq> PStr ''general''" "PStr [] \<noteq> PStr ''composite''"
    by simp_all
  have sv: "served_view ?w = Some (dual_store 1)" by code_simp
  have T: "map_of (dual_store 1) ''models'' = Some ?T" by (simp add: dual_store_def store_def)
  have cols: "tbl_columns ?T = models_columns" by simp
  have f: "find (\<lambda>r. cell r ''is_valid'' = PInt 1 \<and> cell r ''model_name'' = PStr ''dual'')
             (tbl_rows ?T) = Some ?r"
    by (simp add: model_row_def cell_def)
  have ty: "cell ?r ''model_type'' = PStr ''general''" by (simp add: model_row_def cell_def)
  note inst1 = model_then_composite [OF n, where w = ?w and lib = no_lib and n = "''dual''"]
  from inst1 have "\<forall>db T r. served_view ?w = Some db \<and> map_of db ''models'' = Some T
            \<and> tbl_columns T = models_columns
            \<and> find (\<lambda>r. cell r ''is_valid'' = PInt 1 \<and> cell r ''model_name'' = PStr ''dual'')
                 (tbl_rows T) = Some r \<longrightarrow>
          fst (get_model_details no_lib (PStr ''dual'') (PStr []) ?w)
            = Inr (PDict (row_dict model_fields_single r), cell r ''model_type'')"
    by (rule conjunct2 [THEN conjunct2, THEN conjunct2, THEN conjunct1])
  with sv T cols f have "fst (get_model_details no_lib (PStr ''dual'') (PStr []) ?w)
            = Inr (PDict (row_dict model_fields_single ?r), cell ?r ''model_type'')"
    by blast
  with ty have a: "fst (get_model_details no_lib (PStr ''dual'') (PStr []) ?w)
            = Inr (PDict (row_dict model_fields_single ?r), PStr ''general'')"
    by simp
  have su: "served_view ?u = None" by code_simp
  note inst2 = model_then_composite [OF n, where name = "PStr ''dual''" and w = ?u and lib = no_lib]
  from inst2 have "served_view ?u = None \<longrightarrow> fst (get_model_for_name (PStr ''dual'') ?u) = Inr PNone"
    by (rule conjunct2 [THEN conjunct2, THEN conjunct2, THEN conjunct2, THEN conjunct2])
  with su have m: "fst (get_model_for_name (PStr ''dual'') ?u) = Inr PNone" by simp
  have c: "fst (get_composite_model (PStr ''dual'') (snd (get_model_for_name (PStr ''dual'') ?u)))
      = Inr ?c" by code_simp
  have tc: "truthy ?c" by code_simp
  from inst2 have "\<forall>m c. fst (get_model_for_name (PStr ''dual'') ?u) = Inr m \<and> \<not> truthy m
            \<and> fst (get_composite_model (PStr ''dual'') (snd (get_model_for_name (PStr ''dual'') ?u))) = Inr c
            \<and> truthy c \<longrightarrow>
          fst (get_model_details no_lib (PStr ''dual'') (PStr []) ?u) = Inr (c, PStr ''composite'')"
    by (rule conjunct2 [THEN conjunct1])
  with m c tc have b: "fst (get_model_details no_lib (PStr ''dual'') (PStr []) ?u)
      = Inr (?c, PStr ''composite'')"
    by (metis truthy.simps(1))
  have c1: "fst (get_model_for_name (PStr ''absent'') ?w) = Inr PNone" by code_simp
  have c2: "fst (get_composite_model (PStr ''absent'') (snd (get_model_for_name (PStr ''absent'') ?w)))
      = Inr PNone" by code_simp
  note inst3 = model_then_composite [OF n, where name = "PStr ''absent''" and w = ?w and lib = no_lib]
  from inst3 have "\<forall>m c. fst (get_model_for_name (PStr ''absent'') ?w) = Inr m \<and> \<not> truthy m
            \<and> fst (get_composite_model (PStr ''absent'') (snd (get_model_for_name (PStr ''absent'') ?w))) = Inr c
            \<and> \<not> truthy c \<longrightarrow>
          fst (get_model_details no_lib (PStr ''absent'') (PStr []) ?w)
            = Inl (model_not_found no_lib (PStr ''absent''))"
    by (rule conjunct2 [THEN conjunct2, THEN conjunct1])
  with c1 c2 have d: "fst (get_model_details no_lib (PStr ''absent'') (PStr []) ?w)
       = Inl (model_not_found no_lib (PStr ''absent''))"
    by (metis truthy.simps(1))
  show ?thesis by (intro conjI n sv a su b d)
qed

text \<open>
  Claim C7 as stated fails in its last clause: a name that is present in both tables,
  with \<open>is_valid = 0\<close> on its row in \<open>models\<close>, resolves to the composite record.
\<close>

theorem name_in_both_tables_resolves_to_composite:
  "model_row 1 1 ''general'' ''dual'' ''openai'' 0
     \<in> set (table_rows (committed (idle_world 5 (dual_store 0) [])) ''models'')
   \<and> cell (model_row 1 1 ''general'' ''dual'' ''openai'' 0) ''model_name'' = PStr ''dual''
   \<and> composite_row 1 ''dual'' 2 1 1
     \<in> set (table_rows (committed (idle_world 5 (dual_store 0) [])) ''composite_models'')
   \<and> cell (composite_row 1 ''dual'' 2 1 1) ''model_name'' = PStr ''dual''
   \<and> fst (get_model_details no_lib (PStr ''dual'') (PStr []) (idle_world 5 (dual_store 0) []))
       = Inr (PDict (row_dict composite_fields (composite_row 1 ''dual'' 2 1 1)), PStr ''composite'')"
  by code_simp

section \<open>Settings: saving and reading back a boolean\<close>

text \<open>
  Claim C9 at the failing input \<open>save_setting("proxy_open", True)\<close> on an empty settings
  table.  \<open>isinstance(value, int)\<close> is tested first and holds for a \<open>bool\<close>, so the value
  is stored as text \<open>True\<close> under the tag \<open>int\<close> (the \<open>bool\<close> branch is never reached);
  reading it back runs \<open>int("True")\<close>, which raises ValueError, and \<open>get_setting\<close>
  returns \<open>None\<close> instead of \<open>True\<close>.
\<close>

theorem bool_setting_not_read_back:
  "setting_repr no_lib (PBool True) = Inr (''int'', ''True'')
   \<and> fst (save_setting no_lib (PStr ''proxy_open'') (PBool True)
            (idle_world 5 (store [] [] [] []) [])) = Inr (PBool True)
   \<and> table_rows (committed (snd (save_setting no_lib (PStr ''proxy_open'') (PBool True)
            (idle_world 5 (store [] [] [] []) [])))) ''system_settings''
       = [[(''setting_key'', PStr ''proxy_open''), (''setting_value'', PStr ''True''),
           (''setting_type'', PStr ''int'')]]
   \<and> fst (get_setting no_lib (PStr ''proxy_open'')
            (snd (save_setting no_lib (PStr ''proxy_open'') (PBool True)
               (idle_world 5 (store [] [] [] []) [])))) = Inr PNone"
  by code_simp

section \<open>The failure policy of the configuration store\<close>

text \<open>
  Every read and write operation of \<open>DBManagerPool\<close>, with its \<open>try\<close> block and the value
  its handler returns.
\<close>

datatype operation =
    Get_all_providers
  | Get_provider_for_name pyval
  | Get_provider_for_id pyval
  | Save_provider pyval
  | Delete_provider pyval
  | Get_all_models pyval
  | Get_model_for_name pyval
  | Get_model_for_id pyval
  | Save_model pyval
  | Delete_model pyval
  | Get_all_composite_models
  | Get_composite_model pyval
  | Save_composite_model pyval
  | Delete_composite_model pyval
  | Get_setting pyval
  | Get_all_settings
  | Save_setting pyval pyval
  | Delete_setting pyval
  | Export_config
  | Import_config pyval

fun run_operation :: "pylib \<Rightarrow> operation \<Rightarrow> pyval io" where
  "run_operation lib Get_all_providers = get_all_providers"
| "run_operation lib (Get_provider_for_name n) = get_provider_for_name n"
| "run_operation lib (Get_provider_for_id i) = get_provider_for_id i"
| "run_operation lib (Save_provider c) = save_provider c"
| "run_operation lib (Delete_provider i) = delete_provider i"
| "run_operation lib (Get_all_models t) = get_all_models t"
| "run_operation lib (Get_model_for_name n) = get_model_for_name n"
| "run_operation lib (Get_model_for_id i) = get_model_for_id i"
| "run_operation lib (Save_model c) = save_model c"
| "run_operation lib (Delete_model i) = delete_model i"
| "run_operation lib Get_all_composite_models = get_all_composite_models"
| "run_operation lib (Get_composite_model n) = get_composite_model n"
| "run_operation lib (Save_composite_model c) = save_composite_model c"
| "run_operation lib (Delete_composite_model i) = delete_composite_model i"
| "run_operation lib (Get_setting k) = get_setting lib k"
| "run_operation lib Get_all_settings = get_all_settings lib"
| "run_operation lib (Save_setting k v) = save_setting lib k v"
| "run_operation lib (Delete_setting k) = delete_setting k"
| "run_operation lib Export_config = export_config lib"
| "run_operation lib (Import_config c) = import_config lib c"

fun try_block :: "pylib \<Rightarrow> operation \<Rightarrow> pyval io" where
  "try_block lib Get_all_providers = get_all_providers_try"
| "try_block lib (Get_provider_for_name n) = get_provider_for_name_try n"
| "try_block lib (Get_provider_for_id i) = get_provider_for_id_try i"
| "try_block lib (Save_provider c) = save_provider_try c"
| "try_block lib (Delete_provider i) = delete_provider_try i"
| "try_block lib (Get_all_models t) = get_all_models_try t"
| "try_block lib (Get_model_for_name n) = get_model_for_name_try n"
| "try_block lib (Get_model_for_id i) = get_model_for_id_try i"
| "try_block lib (Save_model c) = save_model_try c"
| "try_block lib (Delete_model i) = delete_model_try i"
| "try_block lib Get_all_composite_models = get_all_composite_models_try"
| "try_block lib (Get_composite_model n) = get_composite_model_try n"
| "try_block lib (Save_composite_model c) = save_composite_model_try c"
| "try_block lib (Delete_composite_model i) = delete_composite_model_try i"
| "try_block lib (Get_setting k) = get_setting_try lib k"
| "try_block lib Get_all_settings = get_all_settings_try lib"
| "try_block lib (Save_setting k v) = save_setting_try lib k v"
| "try_block lib (Delete_setting k) = delete_setting_try k"
| "try_block lib Export_config = export_config_try lib"
| "try_block lib (Import_config c) = import_config_try lib c"

fun is_write_operation :: "operation \<Rightarrow> bool" where
  "is_write_operation (Save_provider c) = True"
| "is_write_operation (Delete_provider i) = True"
| "is_write_operation (Save_model c) = True"
| "is_write_operation (Delete_model i) = True"
| "is_write_operation (Save_composite_model c) = True"
| "is_write_operation (Delete_composite_model i) = True"
| "is_write_operation (Save_setting k v) = True"
| "is_write_operation (Delete_setting k) = True"
| "is_write_operation (Import_config c) = True"
| "is_write_operation op = False"

fun returns_dictionary :: "operation \<Rightarrow> bool" where
  "returns_dictionary Get_all_providers = True"
| "returns_dictionary (Get_all_models t) = True"
| "returns_dictionary Get_all_composite_models = True"
| "returns_dictionary Get_all_settings = True"
| "returns_dictionary Export_config = True"
| "returns_dictionary op = False"

definition degraded_result :: "operation \<Rightarrow> pyval" where
  "degraded_result op =
     (if is_write_operation op then PBool False
      else if returns_dictionary op then PDict [] else PNone)"

text \<open>
  The datastore cannot serve the first statement of a call: no pooled connection is
  available (the pool times out), or the next datastore action is scripted to fail.
  \<open>fault_raised w w'\<close>: among the script entries consumed between \<open>w\<close> and \<open>w'\<close> one was a
  fault, that is, the datastore raised during the run.
\<close>

definition first_access_fails :: "world \<Rightarrow> bool" where
  "first_access_fails w \<longleftrightarrow>
     available (db_pool w) = [] \<or> (case faults w of [] \<Rightarrow> False | f # fs \<Rightarrow> f)"

definition fault_raised :: "world \<Rightarrow> world \<Rightarrow> bool" where
  "fault_raised w w' \<longleftrightarrow>
     True \<in> set (take (length (faults w) - length (faults w')) (faults w))"

lemma run_operation_guarded:
  "run_operation lib op = guarded (degraded_result op) (try_block lib op)"
  by (cases op)
     (simp_all add: degraded_result_def get_all_providers_def get_provider_for_name_def
        get_provider_for_id_def save_provider_def delete_provider_def get_all_models_def
        get_model_for_name_def get_model_for_id_def save_model_def delete_model_def
        get_all_composite_models_def get_composite_model_def save_composite_model_def
        delete_composite_model_def get_setting_def get_all_settings_def save_setting_def
        delete_setting_def export_config_def import_config_def)

lemma db_enter_exhausted:
  "available (db_pool w) = [] \<Longrightarrow> fst (db_enter w) = Inr None"
  by (simp add: db_enter_def get_connection_empty)

lemma db_enter_faults: "db_enter w = (r, w1) \<Longrightarrow> faults w1 = faults w"
  by (auto simp: db_enter_def split: prod.splits sum.splits option.splits)

lemma db_enter_not_None:
  "available (db_pool w) \<noteq> [] \<Longrightarrow> fst (db_enter w) \<noteq> Inr None"
proof -
  assume "available (db_pool w) \<noteq> []"
  then obtain index rest where a: "available (db_pool w) = index # rest"
    by (cases "available (db_pool w)") auto
  have "default_polls = Suc 50" by (simp add: default_polls_def)
  then show ?thesis
    using get_connection_nonempty [OF a, of 50 "clock w"]
    by (auto simp: db_enter_def split: prod.splits sum.splits option.splits)
qed

definition handle_fails :: "conn option \<Rightarrow> world \<Rightarrow> bool" where
  "handle_fails db w \<longleftrightarrow> db = None \<or> (case faults w of [] \<Rightarrow> False | f # fs \<Rightarrow> f)"

lemma db_execute_fails: "handle_fails db w \<Longrightarrow> \<exists>e. fst (db_execute db s w) = Inl e"
  by (cases db)
     (auto simp: handle_fails_def db_execute_def bind_def datastore_fault_def raise_def
        split: list.splits)

lemma bind_fails: "\<exists>e. fst (m w) = Inl e \<Longrightarrow> \<exists>e. fst (bind m f w) = Inl e"
  by (auto simp: fst_bind_Inl)

lemma scope_fails:
  assumes "first_access_fails w"
    and "\<And>db w1. handle_fails db w1 \<Longrightarrow> \<exists>e. fst (body db w1) = Inl e"
  shows "\<exists>e. fst (with_db_connection body w) = Inl e"
proof (cases "db_enter w")
  case (Pair r w1)
  show ?thesis
  proof (cases r)
    case (Inl e)
    then show ?thesis using Pair by (simp add: fst_with_db_connection)
  next
    case (Inr db)
    have "handle_fails db w1"
    proof (cases "available (db_pool w) = []")
      case True
      then show ?thesis using db_enter_exhausted [of w] Pair Inr by (simp add: handle_fails_def)
    next
      case False
      then show ?thesis
        using assms(1) db_enter_faults [OF Pair]
        by (simp add: first_access_fails_def handle_fails_def)
    qed
    then show ?thesis using assms(2) Pair Inr by (simp add: fst_with_db_connection)
  qed
qed

lemma execute_first_fails:
  "first_access_fails w \<Longrightarrow>
   \<exists>e. fst (with_db_connection (\<lambda>db. bind (db_execute db (s db)) (k db)) w) = Inl e"
  by (rule scope_fails) (auto intro: bind_fails db_execute_fails)

lemma save_first_fails:
  "first_access_fails w \<Longrightarrow>
   \<exists>e. fst (bind (as_dict config) (\<lambda>cfg. with_db_connection (\<lambda>db.
           bind (if c cfg then db_execute db (s1 cfg) else db_execute db (s2 cfg)) (k cfg db))) w)
        = Inl e"
proof (cases config)
  case (PDict kvs)
  assume f: "first_access_fails w"
  have "\<exists>e. fst (with_db_connection (\<lambda>db.
           bind (if c kvs then db_execute db (s1 kvs) else db_execute db (s2 kvs)) (k kvs db)) w)
        = Inl e"
    using f by (rule scope_fails) (auto intro: bind_fails db_execute_fails)
  then show ?thesis using PDict by (simp add: as_dict_def bind_def ret_def)
qed (simp_all add: as_dict_def bind_def raise_def)

lemma try_block_fails:
  assumes "first_access_fails w" "op \<noteq> Export_config"
  shows "\<exists>e. fst (try_block lib op w) = Inl e"
proof (cases op)
  case (Save_provider c)
  then show ?thesis using assms(1) unfolding Save_provider try_block.simps save_provider_try_def
    by (intro save_first_fails)
next
  case (Save_model c)
  then show ?thesis using assms(1) unfolding Save_model try_block.simps save_model_try_def
    by (intro save_first_fails)
next
  case (Save_composite_model c)
  then show ?thesis using assms(1)
    unfolding Save_composite_model try_block.simps save_composite_model_try_def
    by (intro save_first_fails)
next
  case (Save_setting k v)
  show ?thesis
  proof (cases "setting_repr lib v")
    case (Inl e)
    then show ?thesis using Save_setting by (simp add: save_setting_try_def bind_def lift_def)
  next
    case (Inr p)
    obtain t s where p: "p = (t, s)" by (cases p)
    have "\<exists>e. fst (with_db_connection (\<lambda>db.
       bind (db_execute db (SelectOne ''system_settings'' [(''setting_key'', k)])) (\<lambda>_.
       bind (db_fetchone db) (\<lambda>row.
       bind (if row \<noteq> None then
               db_execute db (Update ''system_settings''
                 [(''setting_value'', PStr s), (''setting_type'', PStr t)]
                 [(''setting_key'', k)])
             else
               db_execute db (Insert False ''system_settings''
                 [''setting_key'', ''setting_value'', ''setting_type'']
                 [k, PStr s, PStr t])) (\<lambda>_.
       ret (PBool True))))) w) = Inl e"
      using assms(1) by (rule execute_first_fails)
    then show ?thesis using Save_setting Inr p
      by (simp add: save_setting_try_def bind_def lift_def)
  qed
next
  case Export_config
  then show ?thesis using assms(2) by simp
qed (use assms(1) in \<open>simp_all add: get_all_providers_try_def get_provider_for_name_try_def
        get_provider_for_id_try_def delete_provider_try_def get_all_models_try_def
        get_model_for_name_try_def get_model_for_id_try_def delete_model_try_def
        get_all_composite_models_try_def get_composite_model_try_def
        delete_composite_model_try_def get_setting_try_def get_all_settings_try_def
        delete_setting_try_def import_config_try_def execute_first_fails\<close>)

lemma init_db_reraises: "init_db w = init_db_try w"
  by (cases "init_db_try w"; cases "fst (init_db_try w)")
     (auto simp: init_db_def try_except_def raise_def)

lemma init_db_try_fails: "first_access_fails w \<Longrightarrow> \<exists>e. fst (init_db_try w) = Inl e"
  unfolding init_db_try_def by (rule execute_first_fails)

text \<open>
  What the handlers do.  No read or write operation of the store ever raises.  An
  exception raised in the operation's own \<open>try\<close> block (the pool timing out, a statement
  the datastore refuses, a row that cannot be decoded) makes it return the empty
  dictionary or \<open>None\<close> for a read and \<open>False\<close> for a write; in particular every
  operation other than \<open>export_config\<close> does so when the datastore cannot serve its
  first statement.  The result of a connection scope is that of its body, because the
  scope exit never raises.  \<open>_init_db\<close> alone re-raises: it raises whatever its \<open>try\<close>
  block raises, and does so when the datastore cannot serve its first statement.
\<close>

lemma store_failure_policy:
  "(\<exists>x. fst (run_operation lib op w) = Inr x)
   \<and> (\<forall>e. fst (try_block lib op w) = Inl e \<longrightarrow>
          fst (run_operation lib op w) = Inr (degraded_result op))
   \<and> (first_access_fails w \<and> op \<noteq> Export_config \<longrightarrow>
          fst (run_operation lib op w) = Inr (degraded_result op))
   \<and> (\<forall>body :: conn option \<Rightarrow> pyval io.
          fst (with_db_connection body w) =
            (case db_enter w of (Inl e, w1) \<Rightarrow> Inl e | (Inr db, w1) \<Rightarrow> fst (body db w1)))
   \<and> (\<forall>e. fst (init_db_try w) = Inl e \<longrightarrow> fst (init_db w) = Inl e)
   \<and> (first_access_fails w \<longrightarrow> (\<exists>e. fst (init_db w) = Inl e))"
proof (intro conjI allI impI)
  show "\<exists>x. fst (run_operation lib op w) = Inr x"
    by (simp add: run_operation_guarded guarded_returns)
next
  fix e assume "fst (try_block lib op w) = Inl e"
  then show "fst (run_operation lib op w) = Inr (degraded_result op)"
    by (simp add: run_operation_guarded guarded_default)
next
  assume "first_access_fails w \<and> op \<noteq> Export_config"
  then obtain e where "fst (try_block lib op w) = Inl e"
    using try_block_fails by blast
  then show "fst (run_operation lib op w) = Inr (degraded_result op)"
    by (simp add: run_operation_guarded guarded_default)
next
  fix body :: "conn option \<Rightarrow> pyval io"
  show "fst (with_db_connection body w) =
            (case db_enter w of (Inl e, w1) \<Rightarrow> Inl e | (Inr db, w1) \<Rightarrow> fst (body db w1))"
    by (rule fst_with_db_connection)
next
  fix e assume "fst (init_db_try w) = Inl e"
  then show "fst (init_db w) = Inl e" by (simp add: init_db_reraises)
next
  assume "first_access_fails w"
  then show "\<exists>e. fst (init_db w) = Inl e"
    by (simp add: init_db_reraises init_db_try_fails)
qed

lemma store_failure_policy_example:
  "first_access_fails (idle_world 5 (store [] [] [] []) [True])
   \<and> Save_provider (provider_config ''p'') \<noteq> Export_config
   \<and> fst (save_provider (provider_config ''p'') (idle_world 5 (store [] [] [] []) [True]))
       = Inr (PBool False)
   \<and> (\<exists>e. fst (save_provider_try (provider_config ''p'')
                 (idle_world 5 (store [] [] [] []) [True])) = Inl e)
   \<and> (\<exists>e. fst (init_db (idle_world 5 (store [] [] [] []) [True])) = Inl e)"
proof -
  let ?w = "idle_world 5 (store [] [] [] []) [True]"
  let ?op = "Save_provider (provider_config ''p'')"
  have f: "first_access_fails ?w" by (simp add: first_access_fails_def idle_world_def)
  have n: "?op \<noteq> Export_config" by simp
  note p = store_failure_policy [where w = ?w and op = ?op and lib = no_lib]
  from p f n have r: "fst (run_operation no_lib ?op ?w) = Inr (degraded_result ?op)" by blast
  from p f have i: "\<exists>e. fst (init_db ?w) = Inl e" by blast
  have t: "\<exists>e. fst (save_provider_try (provider_config ''p'') ?w) = Inl e"
    using try_block_fails [OF f n, of no_lib] by simp
  from r have "fst (save_provider (provider_config ''p'') ?w) = Inr (PBool False)"
    by (simp add: degraded_result_def)
  with f n t i show ?thesis by blast
qed

text \<open>
  Claim C4.  The claim is that a datastore error raised during a write makes the write
  return \<open>False\<close>.  It fails when the error is raised by the commit.  The datastore
  accepts the INSERT of \<open>save_provider\<close> and raises at the commit that \<open>__exit__\<close>
  issues; \<open>__exit__\<close> catches that \<open>sqlite3.Error\<close> itself, so nothing reaches the
  handler of \<open>save_provider\<close>, whose \<open>return True\<close> has already run.  \<open>save_provider\<close>
  returns \<open>True\<close>, the committed table does not hold the provider, and reading it back
  gives \<open>None\<close>.
\<close>

theorem failed_commit_returns_true:
  "fault_raised (idle_world 5 (store [] [] [] []) [False, True])
     (snd (save_provider (provider_config ''p'') (idle_world 5 (store [] [] [] []) [False, True])))
   \<and> is_write_operation (Save_provider (provider_config ''p''))
   \<and> degraded_result (Save_provider (provider_config ''p'')) = PBool False
   \<and> fst (save_provider (provider_config ''p'') (idle_world 5 (store [] [] [] []) [False, True]))
       = Inr (PBool True)
   \<and> table_rows (committed (snd (save_provider (provider_config ''p'')
         (idle_world 5 (store [] [] [] []) [False, True])))) ''providers'' = []
   \<and> fst (get_provider_for_name (PStr ''p'') (snd (save_provider (provider_config ''p'')
         (idle_world 5 (store [] [] [] []) [False, True])))) = Inr PNone
   \<and> fst (save_provider (provider_config ''p'') (idle_world 5 (store [] [] [] []) [False]))
       = Inr (PBool True)
   \<and> fst (get_provider_for_name (PStr ''p'') (snd (save_provider (provider_config ''p'')
         (idle_world 5 (store [] [] [] []) [False]))))
       = Inr (PDict [(PStr ''id'', PInt 1), (PStr ''provider_name'', PStr ''p''),
                     (PStr ''api_key'', PStr ''sk-2''),
                     (PStr ''api_base_url'', PStr ''https://api.example''),
                     (PStr ''api_request_address'', PStr ''/v1/chat''),
                     (PStr ''provider_format'', PStr ''openai''), (PStr ''is_valid'', PBool True)])"
  by code_simp

section \<open>import_config\<close>

text \<open>
  Claim C5 at a failing input: the store holds one provider, and the configuration to
  import holds one other provider.  The four DELETEs run on the connection of
  \<open>import_config\<close>; each \<open>save_...\<close> call then opens a scope of its own on another pooled
  connection, whose INSERT is refused while the first connection holds its uncommitted
  DELETEs (with a pool of one connection the inner scope gets no connection at all);
  the inner handler turns that into \<open>False\<close>, which \<open>import_config\<close> ignores.  The outer
  scope commits the DELETEs and \<open>import_config\<close> returns \<open>True\<close>: afterwards the store
  holds neither the imported provider nor the previous one.
\<close>

definition import_example :: pyval where
  "import_example =
     PDict [(PStr ''providers'', PDict [(PStr ''new'', provider_config ''new'')])]"

theorem import_config_loses_both:
  "table_rows (committed (idle_world 5 (store [provider_row 1 ''old'' ''openai'' 1] [] [] []) []))
       ''providers'' = [provider_row 1 ''old'' ''openai'' 1]
   \<and> fst (import_config no_lib import_example
            (idle_world 5 (store [provider_row 1 ''old'' ''openai'' 1] [] [] []) []))
       = Inr (PBool True)
   \<and> table_rows (committed (snd (import_config no_lib import_example
            (idle_world 5 (store [provider_row 1 ''old'' ''openai'' 1] [] [] []) []))))
       ''providers'' = []
   \<and> fst (import_config no_lib import_example
            (idle_world 1 (store [provider_row 1 ''old'' ''openai'' 1] [] [] []) []))
       = Inr (PBool True)
   \<and> table_rows (committed (snd (import_config no_lib import_example
            (idle_world 1 (store [provider_row 1 ''old'' ''openai'' 1] [] [] []) []))))
       ''providers'' = []"
  by code_simp

section \<open>Creating and caching client instances\<close>

lemma client_arguments_raises: "\<exists>e. client_arguments self provider = Inl e"
  by (simp add: client_arguments_def proxy_argument_def split: sum.splits)

lemma create_instance_raises:
  "\<exists>e. fst (create_instance lib provider_id model_format (self, w)) = Inl e"
proof (cases "instance_key lib provider_id model_format")
  case (Inl e)
  then show ?thesis by (simp add: create_instance_def bind_def lift_def)
next
  case (Inr key)
  obtain r w1 where g: "get_provider_for_id provider_id w = (r, w1)"
    by (cases "get_provider_for_id provider_id w")
  then obtain provider where r: "r = Inr provider"
    using guarded_returns [of PNone "get_provider_for_id_try provider_id" w]
    by (auto simp: get_provider_for_id_def)
  obtain e where e: "client_arguments self provider = Inl e"
    using client_arguments_raises by blast
  show ?thesis
    using Inr g r e
    by (simp add: create_instance_def bind_def lift_def in_store_def raise_def)
qed

lemma create_instance_keeps_manager:
  "fst (snd (create_instance lib provider_id model_format (self, w))) = self"
proof (cases "instance_key lib provider_id model_format")
  case (Inl e)
  then show ?thesis by (simp add: create_instance_def bind_def lift_def)
next
  case (Inr key)
  obtain r w1 where g: "get_provider_for_id provider_id w = (r, w1)"
    by (cases "get_provider_for_id provider_id w")
  then obtain provider where r: "r = Inr provider"
    using guarded_returns [of PNone "get_provider_for_id_try provider_id" w]
    by (auto simp: get_provider_for_id_def)
  obtain e where e: "client_arguments self provider = Inl e"
    using client_arguments_raises by blast
  show ?thesis
    using Inr g r e
    by (simp add: create_instance_def bind_def lift_def in_store_def raise_def)
qed

definition example_manager :: ModelManager where
  "example_manager =
     \<lparr>mm_config = PDict [(PStr ''proxy_open'', PBool False),
                         (PStr ''proxy_address'', PStr ''127.0.0.1:7890'')],
      mm_model_cache = new_cache 5, mm_objects = 0\<rparr>"

text \<open>
  Claim C3 at a failing input: provider 1 is stored with format \<open>openai\<close>, the cache is
  empty.  \<open>create_instance\<close> reads \<open>provider["api_url"]\<close>, a key that the dictionary from
  \<open>get_provider_for_id\<close> does not have (it has \<open>api_base_url\<close>), so it raises KeyError
  before any client is constructed and puts nothing into the cache; the second
  resolution misses again and raises again.  For every input \<open>create_instance\<close> raises
  and leaves the manager, its cache included, as it was.
\<close>

theorem create_instance_never_returns:
  "(\<exists>e. fst (create_instance lib provider_id model_format (self, w)) = Inl e)
   \<and> fst (snd (create_instance lib provider_id model_format (self, w))) = self
   \<and> fst (resolve_instance no_lib (PInt 1) (PStr ''openai'')
            (example_manager,
             idle_world 5 (store [provider_row 1 ''p'' ''openai'' 1] [] [] []) []))
       = Inl (Raised KeyError (CHR 0x27 # ''api_url'' @ [CHR 0x27]))
   \<and> get_all_keys (mm_model_cache (fst (snd
          (resolve_instance no_lib (PInt 1) (PStr ''openai'')
            (example_manager,
             idle_world 5 (store [provider_row 1 ''p'' ''openai'' 1] [] [] []) []))))) = []
   \<and> fst (resolve_instance no_lib (PInt 1) (PStr ''openai'')
            (snd (resolve_instance no_lib (PInt 1) (PStr ''openai'')
               (example_manager,
                idle_world 5 (store [provider_row 1 ''p'' ''openai'' 1] [] [] []) []))))
       = Inl (Raised KeyError (CHR 0x27 # ''api_url'' @ [CHR 0x27]))"
proof (intro conjI)
  show "\<exists>e. fst (create_instance lib provider_id model_format (self, w)) = Inl e"
    by (rule create_instance_raises)
  show "fst (snd (create_instance lib provider_id model_format (self, w))) = self"
    by (rule create_instance_keeps_manager)
  show "fst (resolve_instance no_lib (PInt 1) (PStr ''openai'')
            (example_manager,
             idle_world 5 (store [provider_row 1 ''p'' ''openai'' 1] [] [] []) []))
       = Inl (Raised KeyError (CHR 0x27 # ''api_url'' @ [CHR 0x27]))"
    by code_simp
  show "get_all_keys (mm_model_cache (fst (snd
          (resolve_instance no_lib (PInt 1) (PStr ''openai'')
            (example_manager,
             idle_world 5 (store [provider_row 1 ''p'' ''openai'' 1] [] [] []) []))))) = []"
    by code_simp
  show "fst (resolve_instance no_lib (PInt 1) (PStr ''openai'')
            (snd (resolve_instance no_lib (PInt 1) (PStr ''openai'')
               (example_manager,
                idle_world 5 (store [provider_row 1 ''p'' ''openai'' 1] [] [] []) []))))
       = Inl (Raised KeyError (CHR 0x27 # ''api_url'' @ [CHR 0x27]))"
    by code_simp
qed

end
